theory Spec2Isabelle
  imports Main "HOL-Library.Char_ord" "HOL-Library.Sublist"
begin

section \<open>Strings as the program has them\<close>

text \<open>
  A JavaScript string is modelled as an Isabelle \<^typ>\<open>string\<close>: one \<^typ>\<open>char\<close> per
  code unit, for code units below 256 (the Latin-1 range). \<open>s.length\<close> is
  \<^term>\<open>length s\<close>, \<open>s.includes(w)\<close> is \<open>includes_str s w\<close>, \<open>s.toLowerCase()\<close> is
  \<open>toLowerCase s\<close>.
\<close>

fun startsWith :: "string \<Rightarrow> string \<Rightarrow> bool" where
  "startsWith s [] = True"
| "startsWith [] (c # w) = False"
| "startsWith (d # s) (c # w) = (d = c \<and> startsWith s w)"

fun includes_str :: "string \<Rightarrow> string \<Rightarrow> bool" where
  "includes_str [] w = (w = [])"
| "includes_str (c # s) w = (startsWith (c # s) w \<or> includes_str s w)"

definition toLowerCase_char :: "char \<Rightarrow> char" where
  "toLowerCase_char c =
     (let n = (of_char c :: nat)
      in if (65 \<le> n \<and> n \<le> 90) \<or> (192 \<le> n \<and> n \<le> 222 \<and> n \<noteq> 215)
         then char_of (n + 32) else c)"

definition toLowerCase :: "string \<Rightarrow> string" where
  "toLowerCase s = map toLowerCase_char s"

text \<open>\<open>s.split(d)\<close> for a one-character separator.\<close>

fun split_on :: "char \<Rightarrow> string \<Rightarrow> string list" where
  "split_on d [] = [[]]"
| "split_on d (c # s) =
     (if c = d then [] # split_on d s
      else case split_on d s of
             x # xs \<Rightarrow> (c # x) # xs
           | [] \<Rightarrow> [[c]])"

text \<open>\<open>parts.join(d)\<close>\<close>

fun join_with :: "string \<Rightarrow> string list \<Rightarrow> string" where
  "join_with d [] = []"
| "join_with d [x] = x"
| "join_with d (x # y # ys) = x @ d @ join_with d (y # ys)"

section \<open>Regular expressions of the source\<close>

text \<open>
  The regular expressions of the source use character classes, sequence, repetition and
  anchors only. A pattern is a term of \<open>regex\<close>; its meaning is the set of strings
  \<open>lang\<close>, and \<open>matches\<close> decides membership by derivatives. \<open>test_full\<close> is
  \<open>RegExp.test\<close> for a pattern anchored by \<open>^\<close> and \<open>$\<close>, \<open>test_search\<close> is
  \<open>RegExp.test\<close> for a pattern with no anchor (a match anywhere in the string).
\<close>

datatype regex =
    Zero
  | One
  | Atom "char \<Rightarrow> bool"
  | Alt regex regex
  | Seq regex regex
  | Star regex

definition lang_conc :: "string set \<Rightarrow> string set \<Rightarrow> string set" where
  "lang_conc A B = {u @ v | u v. u \<in> A \<and> v \<in> B}"

definition lang_star :: "string set \<Rightarrow> string set" where
  "lang_star A = {concat ws | ws. set ws \<subseteq> A}"

fun lang :: "regex \<Rightarrow> string set" where
  "lang Zero = {}"
| "lang One = {[]}"
| "lang (Atom P) = {[c] | c. P c}"
| "lang (Alt r s) = lang r \<union> lang s"
| "lang (Seq r s) = lang_conc (lang r) (lang s)"
| "lang (Star r) = lang_star (lang r)"

fun nullable :: "regex \<Rightarrow> bool" where
  "nullable Zero = False"
| "nullable One = True"
| "nullable (Atom P) = False"
| "nullable (Alt r s) = (nullable r \<or> nullable s)"
| "nullable (Seq r s) = (nullable r \<and> nullable s)"
| "nullable (Star r) = True"

fun deriv :: "char \<Rightarrow> regex \<Rightarrow> regex" where
  "deriv c Zero = Zero"
| "deriv c One = Zero"
| "deriv c (Atom P) = (if P c then One else Zero)"
| "deriv c (Alt r s) = Alt (deriv c r) (deriv c s)"
| "deriv c (Seq r s) =
     (if nullable r then Alt (Seq (deriv c r) s) (deriv c s) else Seq (deriv c r) s)"
| "deriv c (Star r) = Seq (deriv c r) (Star r)"

fun matches :: "regex \<Rightarrow> string \<Rightarrow> bool" where
  "matches r [] = nullable r"
| "matches r (c # s) = matches (deriv c r) s"

definition Plus :: "regex \<Rightarrow> regex" where
  "Plus r = Seq r (Star r)"

definition any_char :: "char \<Rightarrow> bool" where
  "any_char c = True"

definition test_full :: "regex \<Rightarrow> string \<Rightarrow> bool" where
  "test_full r s = matches r s"

definition test_search :: "regex \<Rightarrow> string \<Rightarrow> bool" where
  "test_search r s = matches (Seq (Star (Atom any_char)) (Seq r (Star (Atom any_char)))) s"

definition lower :: "char \<Rightarrow> bool" where
  "lower c = (CHR ''a'' \<le> c \<and> c \<le> CHR ''z'')"

definition lower_digit :: "char \<Rightarrow> bool" where
  "lower_digit c = ((CHR ''a'' \<le> c \<and> c \<le> CHR ''z'') \<or> (CHR ''0'' \<le> c \<and> c \<le> CHR ''9''))"

definition is_char :: "char \<Rightarrow> char \<Rightarrow> bool" where
  "is_char d c = (c = d)"

definition not_char :: "char \<Rightarrow> char \<Rightarrow> bool" where
  "not_char d c = (c \<noteq> d)"

section \<open>validator.ts\<close>

text \<open>\<open>RESERVED_WORDS\<close>: the words a skill name cannot contain.\<close>

definition RESERVED_WORDS :: "string list" where
  "RESERVED_WORDS = [''anthropic'', ''claude'', ''google'', ''openai'']"

text \<open>\<open>NAME_PATTERN = /^[a-z][a-z0-9]*(-[a-z0-9]+)*$/\<close>\<close>

definition NAME_PATTERN :: regex where
  "NAME_PATTERN =
     Seq (Atom lower)
       (Seq (Star (Atom lower_digit))
         (Star (Seq (Atom (is_char CHR ''-'')) (Plus (Atom lower_digit)))))"

text \<open>The tag pattern \<open>/<[^>]+>/\<close> of the name and description checks.\<close>

definition XML_TAG :: regex where
  "XML_TAG =
     Seq (Atom (is_char CHR ''<''))
       (Seq (Plus (Atom (not_char CHR ''>''))) (Atom (is_char CHR ''>'')))"

text \<open>
  \<open>SkillMetadata\<close>, as \<open>Partial<SkillMetadata>\<close>: every field may be absent. The open
  \<open>metadata\<close> map and \<open>allowedTools\<close> are carried along and never inspected.
\<close>

record SkillMetadata =
  name :: "string option"
  description :: "string option"
  license :: "string option"
  compatibility :: "string option"
  metadata :: "(string \<times> string) list option"
  allowedTools :: "string option"

datatype jsvalue = Num nat | Str string

record ValidationError =
  field :: string
  message :: string
  val :: "jsvalue option"

record ValidationResult =
  valid :: bool
  errors :: "ValidationError list"
  warnings :: "ValidationError list"

text \<open>JavaScript truthiness of an optional string: absent and the empty string are falsy.\<close>

fun truthy :: "string option \<Rightarrow> bool" where
  "truthy None = False"
| "truthy (Some s) = (s \<noteq> [])"

definition reserved_error :: "string \<Rightarrow> string \<Rightarrow> ValidationError" where
  "reserved_error nm word =
     \<lparr>field = ''name'', message = ''Name cannot contain reserved word: '' @ word,
      val = Some (Str nm)\<rparr>"

text \<open>The loop \<open>for (const word of RESERVED_WORDS)\<close>, pushing onto \<open>errors\<close>.\<close>

fun reserved_loop :: "string \<Rightarrow> string list \<Rightarrow> ValidationError list \<Rightarrow> ValidationError list" where
  "reserved_loop nm [] errs = errs"
| "reserved_loop nm (word # ws) errs =
     reserved_loop nm ws
       (if includes_str (toLowerCase nm) word then errs @ [reserved_error nm word] else errs)"

definition name_checks :: "string option \<Rightarrow> ValidationError list \<Rightarrow> ValidationError list" where
  "name_checks n errs0 =
     (if \<not> truthy n
      then errs0 @ [\<lparr>field = ''name'', message = ''Name is required'', val = None\<rparr>]
      else
        let nm = the n;
            errs1 = (if length nm > 64
                     then errs0 @ [\<lparr>field = ''name'',
                                    message = ''Name must be 64 characters or less'',
                                    val = Some (Num (length nm))\<rparr>]
                     else errs0);
            errs2 = (if \<not> test_full NAME_PATTERN nm
                     then errs1 @ [\<lparr>field = ''name'',
                                    message = ''Name must contain only lowercase letters, numbers, and hyphens. Cannot start/end with hyphen or have consecutive hyphens.'',
                                    val = Some (Str nm)\<rparr>]
                     else errs1);
            errs3 = reserved_loop nm RESERVED_WORDS errs2
        in if test_search XML_TAG nm
           then errs3 @ [\<lparr>field = ''name'', message = ''Name cannot contain XML tags'',
                          val = Some (Str nm)\<rparr>]
           else errs3)"

definition description_checks ::
  "string option \<Rightarrow> ValidationError list \<times> ValidationError list
     \<Rightarrow> ValidationError list \<times> ValidationError list" where
  "description_checks d ew =
     (let (errs0, warns0) = ew in
      if \<not> truthy d
      then (errs0 @ [\<lparr>field = ''description'', message = ''Description is required'',
                      val = None\<rparr>], warns0)
      else
        let ds = the d;
            errs1 = (if length ds > 1024
                     then errs0 @ [\<lparr>field = ''description'',
                                    message = ''Description must be 1024 characters or less'',
                                    val = Some (Num (length ds))\<rparr>]
                     else errs0);
            errs2 = (if test_search XML_TAG ds
                     then errs1 @ [\<lparr>field = ''description'',
                                    message = ''Description cannot contain XML tags'',
                                    val = None\<rparr>]
                     else errs1);
            warns1 = (if length ds < 50
                      then warns0 @ [\<lparr>field = ''description'',
                                      message = ''Description is short. Consider adding more detail about when to use this skill.'',
                                      val = Some (Num (length ds))\<rparr>]
                      else warns0)
        in (errs2, warns1))"

definition compatibility_checks :: "string option \<Rightarrow> ValidationError list \<Rightarrow> ValidationError list" where
  "compatibility_checks c errs0 =
     (if truthy c \<and> length (the c) > 500
      then errs0 @ [\<lparr>field = ''compatibility'',
                     message = ''Compatibility must be 500 characters or less'',
                     val = Some (Num (length (the c)))\<rparr>]
      else errs0)"

definition validateMetadata :: "SkillMetadata \<Rightarrow> ValidationResult" where
  "validateMetadata m =
     (let errs1 = name_checks (name m) [];
          (errs2, warns) = description_checks (description m) (errs1, []);
          errs3 = compatibility_checks (compatibility m) errs2
      in \<lparr>valid = (length errs3 = 0), errors = errs3, warnings = warns\<rparr>)"

section \<open>types/marketplace.ts\<close>

text \<open>
  The interfaces of the marketplace. A field the interface marks optional is an
  \<open>option\<close>. Field names carry a suffix where two interfaces share a name (\<open>_src\<close>
  for \<open>MarketplaceSource\<close>, \<open>_skill\<close> for \<open>MarketplaceSkill\<close>, \<open>_inst\<close> for
  \<open>InstalledSkill\<close>). \<open>installedAt\<close> keeps the clock reading that
  \<open>new Date().toISOString()\<close> prints. \<open>extra\<close> holds the three fields
  (\<open>skillId\<close>, \<open>stars\<close>, \<open>githubUrl\<close>) that the search API client adds to a skill.
\<close>

record MarketplaceSource =
  id_src :: string
  name_src :: string
  owner :: string
  repo :: string
  branch :: "string option"
  skillsPath :: "string option"
  description_src :: "string option"
  verified :: "bool option"

record MarketplaceSkill =
  name_skill :: string
  description_skill :: string
  path_skill :: string
  source_skill :: MarketplaceSource
  license_skill :: "string option"
  author :: "string option"
  version_skill :: "string option"
  tags :: "string list option"
  extra :: "(string \<times> nat \<times> string) option"

record InstalledSkill =
  name_inst :: string
  localPath :: string
  source_inst :: "MarketplaceSource option"
  remotePath :: "string option"
  version_inst :: "string option"
  installedAt :: int
  lastChecked :: "string option"

record MarketplaceConfig =
  sources :: "MarketplaceSource list"
  installed :: "InstalledSkill list"
  installDir :: string

definition DEFAULT_MARKETPLACES :: "MarketplaceSource list" where
  "DEFAULT_MARKETPLACES =
     [\<lparr>id_src = ''anthropic-skills'',
       name_src = ''Anthropic Official Skills'',
       owner = ''anthropics'',
       repo = ''skills'',
       branch = Some ''main'',
       skillsPath = Some ''skills'',
       description_src = Some ''Official Agent Skills from Anthropic'',
       verified = Some True\<rparr>]"

section \<open>The world the program runs in\<close>

text \<open>
  Everything the functions read or change besides their arguments is a field of
  \<open>world\<close>, passed in and returned.

  \<^item> \<open>config_file\<close> is the persisted manifest \<open>~/.antigravity/marketplace.json\<close>, by what
    \<open>loadConfig\<close> can make of it: \<open>Missing\<close> (no such file), \<open>Corrupt\<close> (reading or
    \<open>JSON.parse\<close> throws), \<open>IllShaped\<close> (it parses, but \<open>sources\<close> is not an array of
    objects, so the loop over the defaults throws a \<open>TypeError\<close>), \<open>Stored c\<close> (it parses
    to a value of the declared type \<open>MarketplaceConfig\<close>, as \<open>saveConfig\<close> writes it).
    The manifest is kept apart from the documents of \<open>files\<close>; it counts as a file at
    its path for \<open>existsSync\<close>, and removing its path or a directory above it removes
    it.
  \<^item> \<open>dirs\<close> is the set of directories that exist besides the root, and \<open>files\<close> maps
    the path of a \<open>SKILL.md\<close> document to what \<open>gray-matter\<close> makes of its text:
    \<open>BadFrontmatter\<close> when \<open>matter\<close> throws, \<open>FrontMatter d\<close> with its \<open>data\<close> otherwise.
    Both are keyed by resolved paths: the list of the names from the root down, as the
    operating system finds it from a path string and the working directory \<open>cwd\<close>
    (there are no symbolic links). \<open>mkdir\<close>, \<open>writeFile\<close>, \<open>cp\<close> and \<open>rm\<close> do not fail;
    \<open>readFile\<close> fails on a path that exists and holds no document.
  \<^item> \<open>skillsCache\<close> and \<open>cache\<close> are the two module-level \<open>Map\<close>s of marketplace.ts
    and skillsmp.ts.
  \<^item> \<open>clock\<close> and \<open>ticks\<close> are the system clock: the \<open>n\<close>-th reading taken by the
    program is \<open>clock n\<close>, whatever it is.
  \<^item> \<open>requests\<close> lists the URLs passed to \<open>fetch\<close>, and \<open>console\<close> the lines passed to
    \<open>console.warn\<close>, oldest first.
  \<^item> \<open>env_HOME\<close> is \<open>process.env.HOME\<close>, \<open>os_tmpdir\<close> is \<open>os.tmpdir()\<close> and \<open>cwd\<close> is
    \<open>process.cwd()\<close>.
\<close>

datatype config_file = Missing | Corrupt | IllShaped | Stored MarketplaceConfig

datatype skill_md = BadFrontmatter | FrontMatter SkillMetadata

record world =
  config_file :: config_file
  dirs :: "string list set"
  files :: "string list \<rightharpoonup> skill_md"
  skillsCache :: "string \<rightharpoonup> (MarketplaceSkill list \<times> int)"
  cache :: "string \<rightharpoonup> (MarketplaceSkill list \<times> int)"
  clock :: "nat \<Rightarrow> int"
  ticks :: nat
  requests :: "string list"
  console :: "string list"
  env_HOME :: "string option"
  os_tmpdir :: string
  cwd :: string

text \<open>Every \<open>throw\<close> of the modelled functions, and the failures of what they call.\<close>

datatype error =
    MarketplaceExists string
  | MarketplaceNotFound string
  | CannotRemoveVerified string
  | ReadError
  | SyntaxError
  | TypeError
  | FetchRejected
  | GitHubApiError nat
  | FailedToFetch string string error
  | SkillNotFound string
  | AlreadyInstalled string string
  | InstalledSkillInvalid string
  | NotInstalled string
  | MissingRequiredFields
  | MatterError
  | GitCommandFailed
  | CopySourceMissing
  | SkillsMPApiError nat
  | InvalidGitHubUrl string
  | CouldNotFetch string
  | GlobError

text \<open>\<open>a || b\<close> on an optional string.\<close>

definition or_default :: "string option \<Rightarrow> string \<Rightarrow> string" where
  "or_default a b = (if truthy a then the a else b)"

section \<open>Paths\<close>

text \<open>
  \<open>path.join\<close> and \<open>path.normalize\<close> of Node on a POSIX system. The names of a path
  are the non-empty pieces between its slashes. \<open>step\<close> is one round of Node's
  \<open>normalizeString\<close> on the names collected so far: \<open>.\<close> is dropped, \<open>..\<close> takes the
  last name away unless there is none or it is \<open>..\<close> itself, in which case it is kept
  when the path is relative (\<open>allowAboveRoot\<close>) and dropped when it is absolute.
\<close>

definition segments :: "string \<Rightarrow> string list" where
  "segments p = filter (\<lambda>s. s \<noteq> []) (split_on CHR ''/'' p)"

definition step :: "bool \<Rightarrow> string list \<Rightarrow> string \<Rightarrow> string list" where
  "step allowAboveRoot st s =
     (if s = ''.'' then st
      else if s = ''..'' then
        (if st \<noteq> [] \<and> last st \<noteq> ''..'' then butlast st
         else if allowAboveRoot then st @ [''..''] else st)
      else st @ [s])"

definition absolute :: "string \<Rightarrow> bool" where
  "absolute p = (p \<noteq> [] \<and> hd p = CHR ''/'')"

definition normalize :: "string \<Rightarrow> string" where
  "normalize p =
     (if p = [] then ''.''
      else let isAbsolute = absolute p;
               trailingSeparator = (last p = CHR ''/'');
               body = join_with ''/'' (foldl (step (\<not> isAbsolute)) [] (segments p))
           in if body = []
              then (if isAbsolute then ''/'' else if trailingSeparator then ''./'' else ''.'')
              else (if isAbsolute then ''/'' else []) @ body
                     @ (if trailingSeparator then ''/'' else []))"

definition path_join :: "string list \<Rightarrow> string" where
  "path_join args =
     (let joined = join_with ''/'' (filter (\<lambda>arg. arg \<noteq> []) args)
      in if joined = [] then ''.'' else normalize joined)"

definition join :: "string \<Rightarrow> string \<Rightarrow> string" where
  "join a b = path_join [a, b]"

text \<open>
  What the operating system makes of a path string: \<open>walk st p\<close> goes from the
  directory \<open>st\<close> (its names from the root down) through the names of \<open>p\<close>, where \<open>..\<close>
  leads to the parent and the parent of the root is the root. \<open>resolve\<close> starts at the
  root for an absolute path and at the working directory otherwise. \<open>visited\<close> lists
  the directories passed on the way, the start first and the result last. (\<open>resolve\<close>
  lets \<open>..\<close> cancel the name before it without asking whether that name exists; a
  path that \<open>path.join\<close> returns has no such pair.)
\<close>

definition walk :: "string list \<Rightarrow> string \<Rightarrow> string list" where
  "walk st p = foldl (step False) st (segments p)"

definition resolve :: "world \<Rightarrow> string \<Rightarrow> string list" where
  "resolve w p = walk (if absolute p then [] else walk [] (cwd w)) p"

fun visited :: "string list \<Rightarrow> string list \<Rightarrow> string list list" where
  "visited st [] = [st]"
| "visited st (s # ss) = st # visited (step False st s) ss"

section \<open>The manifest and its place\<close>

definition CONFIG_DIR :: "world \<Rightarrow> string" where
  "CONFIG_DIR w = join (or_default (env_HOME w) ''~'') ''.antigravity''"

definition CONFIG_FILE :: "world \<Rightarrow> string" where
  "CONFIG_FILE w = join (CONFIG_DIR w) ''marketplace.json''"

definition DEFAULT_INSTALL_DIR :: "world \<Rightarrow> string" where
  "DEFAULT_INSTALL_DIR w = join (CONFIG_DIR w) ''skills''"

section \<open>File operations\<close>

text \<open>
  \<open>existsSync\<close>: the path resolves to the root, a directory, the manifest file or
  a document.
\<close>

definition is_dir :: "world \<Rightarrow> string list \<Rightarrow> bool" where
  "is_dir w v = (v = [] \<or> v \<in> dirs w)"

definition existsSync :: "string \<Rightarrow> world \<Rightarrow> bool" where
  "existsSync p w =
     (let v = resolve w p
      in is_dir w v
         \<or> (v = resolve w (CONFIG_FILE w) \<and> config_file w \<noteq> Missing)
         \<or> files w v \<noteq> None)"

text \<open>
  \<open>mkdir(p, { recursive: true })\<close> makes every directory that is missing on the way to
  \<open>p\<close>: \<open>made w p\<close> is the set of the directories passed and of those above them.
\<close>

definition made :: "world \<Rightarrow> string \<Rightarrow> string list set" where
  "made w p =
     (\<Union>v \<in> set (visited (if absolute p then [] else walk [] (cwd w)) (segments p)).
        set (prefixes v))"

definition mkdir :: "string \<Rightarrow> world \<Rightarrow> world" where
  "mkdir p w = w\<lparr>dirs := dirs w \<union> made w p\<rparr>"

text \<open>
  \<open>rm(p, { recursive: true, force: true })\<close>: what is at the path or below it goes,
  the manifest file too.
\<close>

definition rm :: "string \<Rightarrow> world \<Rightarrow> world" where
  "rm p w =
     (let v = resolve w p
      in w\<lparr>dirs := {d \<in> dirs w. \<not> prefix v d},
           files := (\<lambda>q. if prefix v q then None else files w q),
           config_file := (if prefix v (resolve w (CONFIG_FILE w)) then Missing
                           else config_file w)\<rparr>)"

text \<open>\<open>writeFile\<close> of a \<open>SKILL.md\<close> document.\<close>

definition writeFile :: "string \<Rightarrow> skill_md \<Rightarrow> world \<Rightarrow> world" where
  "writeFile p doc w = w\<lparr>files := (files w)(resolve w p \<mapsto> doc)\<rparr>"

definition date_now :: "world \<Rightarrow> int \<times> world" where
  "date_now w = (clock w (ticks w), w\<lparr>ticks := ticks w + 1\<rparr>)"

definition request :: "string \<Rightarrow> world \<Rightarrow> world" where
  "request url w = w\<lparr>requests := requests w @ [url]\<rparr>"

definition console_warn :: "string \<Rightarrow> world \<Rightarrow> world" where
  "console_warn line w = w\<lparr>console := console w @ [line]\<rparr>"

section \<open>marketplace.ts: the manifest\<close>

definition default_config :: "world \<Rightarrow> MarketplaceConfig" where
  "default_config w =
     \<lparr>sources = DEFAULT_MARKETPLACES, installed = [], installDir = DEFAULT_INSTALL_DIR w\<rparr>"

definition deprecatedIds :: "string list" where
  "deprecatedIds = [''agentskills-examples'']"

text \<open>
  The loop \<open>for (const defaultSource of DEFAULT_MARKETPLACES)\<close>: a default whose id no
  source has is pushed.
\<close>

fun ensure_defaults :: "MarketplaceSource list \<Rightarrow> MarketplaceSource list \<Rightarrow> MarketplaceSource list" where
  "ensure_defaults [] srcs = srcs"
| "ensure_defaults (defaultSource # ds) srcs =
     ensure_defaults ds
       (if find (\<lambda>s. id_src s = id_src defaultSource) srcs = None
        then srcs @ [defaultSource] else srcs)"

text \<open>The body of the \<open>try\<close> block of \<open>loadConfig\<close>.\<close>

definition loadConfig_try :: "world \<Rightarrow> error + MarketplaceConfig" where
  "loadConfig_try w =
     (case config_file w of
        Missing \<Rightarrow> Inl ReadError
      | Corrupt \<Rightarrow> Inl SyntaxError
      | IllShaped \<Rightarrow> Inl TypeError
      | Stored config \<Rightarrow>
          (let srcs1 = ensure_defaults DEFAULT_MARKETPLACES (sources config);
               srcs2 = filter (\<lambda>s. id_src s \<notin> set deprecatedIds) srcs1
           in Inr (config\<lparr>sources := srcs2\<rparr>)))"

definition loadConfig :: "world \<Rightarrow> MarketplaceConfig" where
  "loadConfig w =
     (if \<not> existsSync (CONFIG_FILE w) w then default_config w
      else case loadConfig_try w of
             Inr config \<Rightarrow> config
           | Inl e \<Rightarrow> default_config w)"

definition saveConfig :: "MarketplaceConfig \<Rightarrow> world \<Rightarrow> world" where
  "saveConfig config w = (mkdir (CONFIG_DIR w) w)\<lparr>config_file := Stored config\<rparr>"

definition addMarketplace :: "MarketplaceSource \<Rightarrow> world \<Rightarrow> (error + unit) \<times> world" where
  "addMarketplace source w =
     (let config = loadConfig w in
      if find (\<lambda>s. id_src s = id_src source) (sources config) \<noteq> None
      then (Inl (MarketplaceExists (id_src source)), w)
      else (Inr (), saveConfig (config\<lparr>sources := sources config @ [source]\<rparr>) w))"

text \<open>\<open>Array.prototype.findIndex\<close>, with \<open>None\<close> for \<open>-1\<close>, and \<open>splice(index, 1)\<close>.\<close>

fun findIndex :: "('a \<Rightarrow> bool) \<Rightarrow> 'a list \<Rightarrow> nat option" where
  "findIndex P [] = None"
| "findIndex P (x # xs) =
     (if P x then Some 0 else map_option Suc (findIndex P xs))"

definition splice1 :: "nat \<Rightarrow> 'a list \<Rightarrow> 'a list" where
  "splice1 i xs = take i xs @ drop (Suc i) xs"

definition removeMarketplace :: "string \<Rightarrow> world \<Rightarrow> (error + unit) \<times> world" where
  "removeMarketplace i w =
     (let config = loadConfig w in
      case findIndex (\<lambda>s. id_src s = i) (sources config) of
        None \<Rightarrow> (Inl (MarketplaceNotFound i), w)
      | Some index \<Rightarrow>
          if verified (sources config ! index) = Some True
          then (Inl (CannotRemoveVerified i), w)
          else (Inr (), saveConfig (config\<lparr>sources := splice1 index (sources config)\<rparr>) w))"

section \<open>The network\<close>

text \<open>
  What the remote side answers is a parameter of every function that calls \<open>fetch\<close> or
  \<open>git\<close>. A \<open>response\<close> is \<open>Rejected\<close> when the promise of \<open>fetch\<close> rejects, \<open>NotOk
  status\<close> when \<open>response.ok\<close> is false, \<open>Malformed e\<close> when reading the body throws
  \<open>e\<close> (a \<open>SyntaxError\<close> when it is not JSON, a \<open>TypeError\<close> when it is JSON of
  another shape than the caller casts it to), and \<open>Ok v\<close> with the decoded body
  otherwise. The \<open>pagination\<close> of a SkillsMP answer is \<open>None\<close> when the answer has
  none, so that reading \<open>data.pagination.total\<close> throws. \<open>git\<close>
  answers for the sequence of \<open>git\<close> commands of \<open>downloadSkill\<close>, given the
  repository URL, the branch and the sparse path: \<open>GitFailed\<close> when a command fails,
  \<open>Checkout t\<close> when they succeed, where \<open>t\<close> is \<open>None\<close> if the checked-out tree has
  nothing at the path and \<open>Some d\<close> if it has a directory there whose \<open>SKILL.md\<close> is
  \<open>d\<close> (\<open>None\<close> for no such file).
\<close>

datatype 'a response = Rejected | NotOk nat | Malformed error | Ok 'a

record index_entry =
  name_ix :: string
  description_ix :: "string option"
  path_ix :: string
  license_ix :: "string option"
  author_ix :: "string option"
  version_ix :: "string option"

record content_item =
  name_ci :: string
  path_ci :: string
  type_ci :: string

record SkillsMPSkill =
  id_mp :: string
  name_mp :: string
  author_mp :: string
  description_mp :: string
  githubUrl_mp :: string
  stars_mp :: nat

record SkillsMPResponse =
  skills_mp :: "SkillsMPSkill list"
  pagination_mp :: "(nat \<times> bool) option"

datatype git_result = GitFailed | Checkout "skill_md option option"

record network =
  get_index :: "string \<Rightarrow> index_entry list response"
  get_contents :: "string \<Rightarrow> content_item list response"
  get_text :: "string \<Rightarrow> string response"
  get_skillsmp :: "string \<Rightarrow> SkillsMPResponse response"
  git :: "string \<Rightarrow> string \<Rightarrow> string \<Rightarrow> git_result"

section \<open>marketplace.ts: listing the skills of a source\<close>

text \<open>\<open>String.prototype.trim\<close>, on code units below 256.\<close>

definition is_space :: "char \<Rightarrow> bool" where
  "is_space c = (of_char c \<in> {9, 10, 11, 12, 13, 32, 160 :: nat})"

definition trim :: "string \<Rightarrow> string" where
  "trim s = rev (dropWhile is_space (rev (dropWhile is_space s)))"

text \<open>\<open>s.indexOf(':')\<close>, with \<open>None\<close> for \<open>-1\<close>.\<close>

fun indexOf :: "string \<Rightarrow> char \<Rightarrow> nat option" where
  "indexOf [] d = None"
| "indexOf (c # s) d = (if c = d then Some 0 else map_option Suc (indexOf s d))"

text \<open>\<open>s.replace(/^["']|["']$/g, '')\<close>: a quote at the start and a quote at the end go.\<close>

definition is_quote :: "char \<Rightarrow> bool" where
  "is_quote c = (c = CHR 0x22 \<or> c = CHR 0x27)"

definition strip_quotes :: "string \<Rightarrow> string" where
  "strip_quotes s =
     (let s1 = (case s of c # t \<Rightarrow> if is_quote c then t else s | [] \<Rightarrow> s)
      in if s1 \<noteq> [] \<and> is_quote (last s1) then butlast s1 else s1)"

text \<open>The text before the first occurrence of \<open>sep\<close>, if there is one.\<close>

fun before_sep :: "string \<Rightarrow> string \<Rightarrow> string option" where
  "before_sep sep [] = (if sep = [] then Some [] else None)"
| "before_sep sep (c # s) =
     (if startsWith (c # s) sep then Some []
      else map_option ((#) c) (before_sep sep s))"

text \<open>
  \<open>content.match(/^---\n([\s\S]*?)\n---/)\<close>, giving the captured group: the text
  starts with three dashes and a newline, and the group is the shortest text after them
  that a newline and three dashes follow.
\<close>

definition frontmatterMatch :: "string \<Rightarrow> string option" where
  "frontmatterMatch content =
     (if startsWith content [CHR ''-'', CHR ''-'', CHR ''-'', CHR 0x0A]
      then before_sep [CHR 0x0A, CHR ''-'', CHR ''-'', CHR ''-''] (drop 4 content)
      else None)"

text \<open>
  The object that \<open>parseSkillMdFrontmatter\<close> builds: \<open>result\<close> holds the assignments
  \<open>result[key] = value\<close> and \<open>metadataObj\<close> those of \<open>metadataObj[key] = value\<close>, the
  latest first (so \<open>map_of\<close> reads the current value of a key). The final
  \<open>result.metadata = metadataObj\<close> is the \<open>metadataObj\<close> field when it is not empty.
\<close>

record frontmatter =
  result :: "(string \<times> string) list"
  metadataObj :: "(string \<times> string) list"

text \<open>One round of the loop over the lines; the state is the object and \<open>inMetadata\<close>.\<close>

definition parse_line :: "string \<Rightarrow> frontmatter \<times> bool \<Rightarrow> frontmatter \<times> bool" where
  "parse_line line st =
     (let (res, inMetadata) = st; trimmed = trim line in
      if trimmed = [] then st
      else if startsWith line ''  '' \<and> inMetadata
      then (case split_on CHR '':'' trimmed of
              key # valueParts \<Rightarrow>
                if key \<noteq> [] \<and> length valueParts > 0
                then (res\<lparr>metadataObj :=
                        (trim key, strip_quotes (trim (join_with '':'' valueParts)))
                          # metadataObj res\<rparr>, inMetadata)
                else st
            | [] \<Rightarrow> st)
      else if startsWith trimmed ''metadata:'' then (res, True)
      else (case indexOf trimmed CHR '':'' of
              Some colonIndex \<Rightarrow>
                if colonIndex > 0
                then (res\<lparr>result :=
                        (trim (take colonIndex trimmed),
                         strip_quotes (trim (drop (colonIndex + 1) trimmed))) # result res\<rparr>,
                      False)
                else (res, False)
            | None \<Rightarrow> (res, False)))"

definition parseSkillMdFrontmatter :: "string \<Rightarrow> frontmatter option" where
  "parseSkillMdFrontmatter content =
     (case frontmatterMatch content of
        None \<Rightarrow> None
      | Some yaml \<Rightarrow>
          Some (fst (fold parse_line (split_on CHR 0x0A yaml) (\<lparr>result = [], metadataObj = []\<rparr>, False))))"

definition CACHE_TTL :: int where
  "CACHE_TTL = 5 * 60 * 1000"

definition index_skill :: "MarketplaceSource \<Rightarrow> index_entry \<Rightarrow> MarketplaceSkill" where
  "index_skill source s =
     \<lparr>name_skill = name_ix s,
      description_skill = or_default (description_ix s) [],
      path_skill = path_ix s,
      source_skill = source,
      license_skill = license_ix s,
      author = author_ix s,
      version_skill = version_ix s,
      tags = None,
      extra = None\<rparr>"

text \<open>
  The function mapped over a batch: one \<open>SKILL.md\<close> is fetched and parsed; every failure
  gives \<open>null\<close>.
\<close>

definition fetch_dir ::
  "network \<Rightarrow> MarketplaceSource \<Rightarrow> string \<Rightarrow> content_item \<Rightarrow> world
     \<Rightarrow> MarketplaceSkill option \<times> world" where
  "fetch_dir net source branch' dir w =
     (let skillMdUrl = ''https://raw.githubusercontent.com/'' @ owner source @ ''/''
            @ repo source @ ''/'' @ branch' @ ''/'' @ path_ci dir @ ''/SKILL.md'';
          w1 = request skillMdUrl w
      in case get_text net skillMdUrl of
           Ok skillMd \<Rightarrow>
             (case parseSkillMdFrontmatter skillMd of
                Some md \<Rightarrow>
                  (Some \<lparr>name_skill = or_default (map_of (result md) ''name'') (name_ci dir),
                         description_skill = or_default (map_of (result md) ''description'') [],
                         path_skill = path_ci dir,
                         source_skill = source,
                         license_skill = map_of (result md) ''license'',
                         author = map_of (metadataObj md) ''author'',
                         version_skill = map_of (metadataObj md) ''version'',
                         tags = None,
                         extra = None\<rparr>, w1)
              | None \<Rightarrow> (None, w1))
         | _ \<Rightarrow> (None, w1))"

text \<open>
  \<open>Promise.all(batch.map(...))\<close> and the filter for non-null results: the requests of
  a batch are taken in the order of the batch.
\<close>

fun fetch_batch ::
  "network \<Rightarrow> MarketplaceSource \<Rightarrow> string \<Rightarrow> content_item list \<Rightarrow> world
     \<Rightarrow> MarketplaceSkill list \<times> world" where
  "fetch_batch net source branch' [] w = ([], w)"
| "fetch_batch net source branch' (dir # ds) w =
     (let (r, w1) = fetch_dir net source branch' dir w;
          (rs, w2) = fetch_batch net source branch' ds w1
      in (case r of Some s \<Rightarrow> s # rs | None \<Rightarrow> rs, w2))"

definition BATCH_SIZE :: nat where
  "BATCH_SIZE = 10"

text \<open>The loop \<open>for (let i = 0; i < skillDirs.length; i += BATCH_SIZE)\<close>.\<close>

function fetch_batches ::
  "network \<Rightarrow> MarketplaceSource \<Rightarrow> string \<Rightarrow> content_item list \<Rightarrow> MarketplaceSkill list
     \<Rightarrow> world \<Rightarrow> MarketplaceSkill list \<times> world" where
  "fetch_batches net source branch' skillDirs skills w =
     (if skillDirs = [] then (skills, w)
      else let (results, w1) = fetch_batch net source branch' (take BATCH_SIZE skillDirs) w
           in fetch_batches net source branch' (drop BATCH_SIZE skillDirs) (skills @ results) w1)"
  by pat_completeness auto
termination
  by (relation "measure (\<lambda>(net, source, b, skillDirs, skills, w). length skillDirs)")
     (auto simp: BATCH_SIZE_def)

declare fetch_batches.simps [simp del]

definition cache_set ::
  "string \<Rightarrow> MarketplaceSkill list \<Rightarrow> world \<Rightarrow> world" where
  "cache_set cacheKey skills w =
     (let (now, w1) = date_now w
      in w1\<lparr>skillsCache := (skillsCache w1)(cacheKey \<mapsto> (skills, now))\<rparr>)"

text \<open>
  The fallback of \<open>fetchSkillsFromSource\<close>, from \<open>// Fallback: fetch each SKILL.md\<close>
  on: the directory listing, then one document per directory.
\<close>

definition fetch_listing ::
  "network \<Rightarrow> MarketplaceSource \<Rightarrow> string \<Rightarrow> string \<Rightarrow> string \<Rightarrow> world
     \<Rightarrow> (error + MarketplaceSkill list) \<times> world" where
  "fetch_listing net source cacheKey branch' skillsPath' w1 =
     (let apiUrl = ''https://api.github.com/repos/'' @ owner source @ ''/''
            @ repo source @ ''/contents/'' @ skillsPath' @ ''?ref='' @ branch';
          w2 = request apiUrl w1
      in case get_contents net apiUrl of
           Rejected \<Rightarrow>
             (Inl (FailedToFetch (owner source) (repo source) FetchRejected), w2)
         | NotOk status \<Rightarrow>
             (Inl (FailedToFetch (owner source) (repo source) (GitHubApiError status)), w2)
         | Malformed e \<Rightarrow>
             (Inl (FailedToFetch (owner source) (repo source) e), w2)
         | Ok contents \<Rightarrow>
             (let skillDirs = filter (\<lambda>item. type_ci item = ''dir'') contents;
                  (skills, w3) = fetch_batches net source branch' skillDirs [] w2
              in (Inr skills, cache_set cacheKey skills w3)))"

text \<open>\<open>fetchSkillsFromSource\<close> past the cache check: the index, then the fallback.\<close>

definition fetch_uncached ::
  "network \<Rightarrow> MarketplaceSource \<Rightarrow> string \<Rightarrow> world
     \<Rightarrow> (error + MarketplaceSkill list) \<times> world" where
  "fetch_uncached net source cacheKey w =
     (let branch' = or_default (branch source) ''main'';
          skillsPath' = or_default (skillsPath source) ''skills'';
          indexUrl = ''https://raw.githubusercontent.com/'' @ owner source @ ''/''
            @ repo source @ ''/'' @ branch' @ ''/'' @ skillsPath' @ ''/skills-index.json'';
          w1 = request indexUrl w
      in case get_index net indexUrl of
           Ok index \<Rightarrow>
             (let skills = map (index_skill source) index
              in (Inr skills, cache_set cacheKey skills w1))
         | _ \<Rightarrow> fetch_listing net source cacheKey branch' skillsPath' w1)"

definition fetchSkillsFromSource ::
  "network \<Rightarrow> MarketplaceSource \<Rightarrow> world \<Rightarrow> (error + MarketplaceSkill list) \<times> world" where
  "fetchSkillsFromSource net source w =
     (let cacheKey = owner source @ ''/'' @ repo source
      in case skillsCache w cacheKey of
           None \<Rightarrow> fetch_uncached net source cacheKey w
         | Some (skills, timestamp) \<Rightarrow>
             (let (now, w1) = date_now w
              in if now - timestamp < CACHE_TTL then (Inr skills, w1)
                 else fetch_uncached net source cacheKey w1))"

text \<open>The loop of \<open>listMarketplaceSkills\<close>: a source that cannot be fetched is warned about.\<close>

fun list_loop ::
  "network \<Rightarrow> MarketplaceSource list \<Rightarrow> MarketplaceSkill list \<Rightarrow> world
     \<Rightarrow> MarketplaceSkill list \<times> world" where
  "list_loop net [] skills w = (skills, w)"
| "list_loop net (source # rest) skills w =
     (case fetchSkillsFromSource net source w of
        (Inr sourceSkills, w1) \<Rightarrow> list_loop net rest (skills @ sourceSkills) w1
      | (Inl e, w1) \<Rightarrow>
          list_loop net rest skills
            (console_warn (''Warning: Could not fetch from '' @ id_src source @ '':'') w1))"

definition listMarketplaceSkills ::
  "network \<Rightarrow> string option \<Rightarrow> world \<Rightarrow> MarketplaceSkill list \<times> world" where
  "listMarketplaceSkills net sourceId w =
     (let config = loadConfig w;
          srcs = (if truthy sourceId
                  then filter (\<lambda>s. id_src s = the sourceId) (sources config)
                  else sources config)
      in list_loop net srcs [] w)"

section \<open>loader.ts: reading the metadata of a document\<close>

text \<open>
  \<open>loadSkillMetadata\<close>: \<open>null\<close> (here \<open>Inr None\<close>) when nothing exists at the path; an
  exception when \<open>readFile\<close> throws (the path exists and holds no document: it is a
  directory), when \<open>matter\<close> throws or when a required field is missing or empty.
\<close>

definition loadSkillMetadata :: "string \<Rightarrow> world \<Rightarrow> error + SkillMetadata option" where
  "loadSkillMetadata skillMdPath w =
     (if \<not> existsSync skillMdPath w then Inr None
      else case files w (resolve w skillMdPath) of
             None \<Rightarrow> Inl ReadError
           | Some BadFrontmatter \<Rightarrow> Inl MatterError
           | Some (FrontMatter data) \<Rightarrow>
               if \<not> truthy (name data) \<or> \<not> truthy (description data)
               then Inl MissingRequiredFields
               else Inr (Some \<lparr>name = name data, description = description data,
                                license = license data, compatibility = compatibility data,
                                metadata = metadata data, allowedTools = allowedTools data\<rparr>))"

section \<open>marketplace.ts: install, uninstall, updates\<close>

text \<open>
  The decimal digits of a number: \<open>Date.now()\<close> in the name of the temporary directory,
  \<open>page\<close> and \<open>limit\<close> in a query (integers below \<open>10^21\<close>, which JavaScript prints
  in decimal).
\<close>

function show_nat :: "nat \<Rightarrow> string" where
  "show_nat n =
     (if n < 10 then [char_of (48 + n)]
      else show_nat (n div 10) @ [char_of (48 + n mod 10)])"
  by pat_completeness auto
termination
  by (relation "measure (\<lambda>n. n)") auto

declare show_nat.simps [simp del]

definition show_int :: "int \<Rightarrow> string" where
  "show_int i = (if i < 0 then CHR ''-'' # show_nat (nat (- i)) else show_nat (nat i))"

text \<open>
  \<open>cp(skillSourcePath, destPath, { recursive: true })\<close> for a source directory that
  exists: its \<open>SKILL.md\<close>, if it has one, replaces the one at the destination.
\<close>

definition cp_tree :: "skill_md option \<Rightarrow> string \<Rightarrow> world \<Rightarrow> world" where
  "cp_tree tree destPath w =
     (case tree of
        None \<Rightarrow> w
      | Some d \<Rightarrow> writeFile (join destPath ''SKILL.md'') d w)"

text \<open>
  \<open>downloadSkill\<close>: the temporary directory is made, the \<open>git\<close> commands run, the
  destination is made and the checked-out directory copied into it; the \<open>finally\<close>
  block removes the temporary directory on every path.
\<close>

definition downloadSkill ::
  "network \<Rightarrow> MarketplaceSkill \<Rightarrow> string \<Rightarrow> world \<Rightarrow> (error + unit) \<times> world" where
  "downloadSkill net skill destPath w =
     (let source = source_skill skill;
          branch' = or_default (branch source) ''main'';
          (now, w1) = date_now w;
          tempDir = join (os_tmpdir w) (''skill-'' @ show_int now);
          w2 = mkdir tempDir w1;
          repoUrl = ''https://github.com/'' @ owner source @ ''/'' @ repo source @ ''.git''
      in case git net repoUrl branch' (path_skill skill) of
           GitFailed \<Rightarrow> (Inl GitCommandFailed, rm tempDir w2)
         | Checkout None \<Rightarrow> (Inl CopySourceMissing, rm tempDir (mkdir destPath w2))
         | Checkout (Some tree) \<Rightarrow>
             (Inr (), rm tempDir (cp_tree tree destPath (mkdir destPath w2))))"

text \<open>The end of \<open>installSkill\<close>, from \<open>// Track installation\<close> on.\<close>

definition track_installation ::
  "MarketplaceConfig \<Rightarrow> string \<Rightarrow> string \<Rightarrow> MarketplaceSkill \<Rightarrow> world
     \<Rightarrow> (error + InstalledSkill) \<times> world" where
  "track_installation config skillName installPath skill w =
     (let (now, w1) = date_now w;
          inst = \<lparr>name_inst = skillName,
                  localPath = installPath,
                  source_inst = Some (source_skill skill),
                  remotePath = Some (path_skill skill),
                  version_inst = version_skill skill,
                  installedAt = now,
                  lastChecked = None\<rparr>
      in (Inr inst, saveConfig (config\<lparr>installed := installed config @ [inst]\<rparr>) w1))"

text \<open>The part of \<open>installSkill\<close> from \<open>// Validate the installed skill\<close> on.\<close>

definition validate_installed ::
  "MarketplaceConfig \<Rightarrow> string \<Rightarrow> string \<Rightarrow> MarketplaceSkill \<Rightarrow> world
     \<Rightarrow> (error + InstalledSkill) \<times> world" where
  "validate_installed config skillName installPath skill w =
     (case loadSkillMetadata (join installPath ''SKILL.md'') w of
        Inl e \<Rightarrow> (Inl e, w)
      | Inr None \<Rightarrow> track_installation config skillName installPath skill w
      | Inr (Some md) \<Rightarrow>
          (let validation = validateMetadata md
           in if \<not> valid validation
              then (Inl (InstalledSkillInvalid
                           (join_with '', '' (map message (errors validation)))),
                    rm installPath w)
              else track_installation config skillName installPath skill w))"

definition installSkill ::
  "network \<Rightarrow> string \<Rightarrow> string option \<Rightarrow> world \<Rightarrow> (error + InstalledSkill) \<times> world" where
  "installSkill net skillName sourceId w =
     (let config = loadConfig w;
          (allSkills, w1) = listMarketplaceSkills net sourceId w
      in case find (\<lambda>s. name_skill s = skillName) allSkills of
           None \<Rightarrow> (Inl (SkillNotFound skillName), w1)
         | Some skill \<Rightarrow>
             (case find (\<lambda>i. name_inst i = skillName) (installed config) of
                Some existing \<Rightarrow> (Inl (AlreadyInstalled skillName (localPath existing)), w1)
              | None \<Rightarrow>
                  (let w2 = mkdir (installDir config) w1;
                       installPath = join (installDir config) skillName
                   in case downloadSkill net skill installPath w2 of
                        (Inl e, w3) \<Rightarrow> (Inl e, w3)
                      | (Inr u, w3) \<Rightarrow>
                          validate_installed config skillName installPath skill w3)))"

definition uninstallSkill :: "string \<Rightarrow> world \<Rightarrow> (error + unit) \<times> world" where
  "uninstallSkill skillName w =
     (let config = loadConfig w in
      case findIndex (\<lambda>i. name_inst i = skillName) (installed config) of
        None \<Rightarrow> (Inl (NotInstalled skillName), w)
      | Some index \<Rightarrow>
          (let inst = installed config ! index;
               w1 = (if existsSync (localPath inst) w then rm (localPath inst) w else w)
           in (Inr (), saveConfig (config\<lparr>installed := splice1 index (installed config)\<rparr>) w1)))"

record update_entry =
  skill :: InstalledSkill
  currentVersion :: "string option"
  latestVersion :: "string option"
  hasUpdate :: bool

text \<open>The loop of \<open>checkUpdates\<close> over \<open>config.installed\<close>.\<close>

fun updates_loop ::
  "network \<Rightarrow> InstalledSkill list \<Rightarrow> update_entry list \<Rightarrow> world
     \<Rightarrow> update_entry list \<times> world" where
  "updates_loop net [] updates w = (updates, w)"
| "updates_loop net (inst # rest) updates w =
     (case source_inst inst of
        None \<Rightarrow> updates_loop net rest updates w
      | Some src \<Rightarrow>
          (case fetchSkillsFromSource net src w of
             (Inl e, w1) \<Rightarrow> updates_loop net rest updates w1
           | (Inr skills, w1) \<Rightarrow>
               (case find (\<lambda>s. name_skill s = name_inst inst) skills of
                  None \<Rightarrow> updates_loop net rest updates w1
                | Some remote \<Rightarrow>
                    updates_loop net rest
                      (updates @
                        [\<lparr>skill = inst,
                          currentVersion = version_inst inst,
                          latestVersion = version_skill remote,
                          hasUpdate = (version_skill remote \<noteq> version_inst inst
                                       \<and> truthy (version_skill remote))\<rparr>])
                      w1)))"

definition checkUpdates :: "network \<Rightarrow> world \<Rightarrow> update_entry list \<times> world" where
  "checkUpdates net w = updates_loop net (installed (loadConfig w)) [] w"

section \<open>skillsmp.ts\<close>

definition SKILLSMP_API :: string where
  "SKILLSMP_API = ''https://skillsmp.com/api/skills''"

definition SKILLSMP_SOURCE :: MarketplaceSource where
  "SKILLSMP_SOURCE =
     \<lparr>id_src = ''skillsmp'',
      name_src = ''SkillsMP Marketplace'',
      owner = ''skillsmp'',
      repo = ''skillsmp.com'',
      branch = None,
      skillsPath = None,
      description_src = Some ''Browse 40,000+ agent skills from the community'',
      verified = Some True\<rparr>"

text \<open>
  The pieces of the URL patterns. \<open>lit p\<close> is a literal, \<open>seg\<close> is \<open>[^/]+\<close> where a
  slash or the end of the match follows (so the run of non-slash characters is taken
  whole), \<open>rest_of_line\<close> is the final \<open>(.+)\<close> (every character up to a line
  terminator, at least one). Each gives what it matched and the text after it.
  \<open>search_from\<close> tries the start positions from the left, as \<open>String.prototype.match\<close>
  does for a pattern with no anchor.
\<close>

definition lit :: "string \<Rightarrow> string \<Rightarrow> string option" where
  "lit p s = (if startsWith s p then Some (drop (length p) s) else None)"

definition seg :: "string \<Rightarrow> (string \<times> string) option" where
  "seg s =
     (let a = takeWhile (\<lambda>c. c \<noteq> CHR ''/'') s
      in if a = [] then None else Some (a, dropWhile (\<lambda>c. c \<noteq> CHR ''/'') s))"

definition line_terminator :: "char \<Rightarrow> bool" where
  "line_terminator c = (c = CHR 0x0A \<or> c = CHR 0x0D)"

definition rest_of_line :: "string \<Rightarrow> string option" where
  "rest_of_line s =
     (let a = takeWhile (\<lambda>c. \<not> line_terminator c) s
      in if a = [] then None else Some a)"

fun search_from :: "(string \<Rightarrow> 'a option) \<Rightarrow> string \<Rightarrow> 'a option" where
  "search_from f [] = f []"
| "search_from f (c # s) =
     (case f (c # s) of
        Some r \<Rightarrow> Some r
      | None \<Rightarrow> search_from f s)"

text \<open>\<open>/github\.com\/([^/]+)/\<close>\<close>

definition owner_at :: "string \<Rightarrow> string option" where
  "owner_at s =
     (case lit ''github.com/'' s of
        None \<Rightarrow> None
      | Some s1 \<Rightarrow> map_option fst (seg s1))"

text \<open>\<open>/github\.com\/[^/]+\/([^/]+)/\<close>\<close>

definition repo_at :: "string \<Rightarrow> string option" where
  "repo_at s =
     (case lit ''github.com/'' s of
        None \<Rightarrow> None
      | Some s1 \<Rightarrow>
          (case seg s1 of
             None \<Rightarrow> None
           | Some (o1, s2) \<Rightarrow>
               (case lit ''/'' s2 of
                  None \<Rightarrow> None
                | Some s3 \<Rightarrow> map_option fst (seg s3))))"

text \<open>
  The common prefix \<open>github\.com\/[^/]+\/[^/]+\/tree\/([^/]+)\<close> of the branch and path
  patterns: the branch and the text after it.
\<close>

definition tree_at :: "string \<Rightarrow> (string \<times> string) option" where
  "tree_at s =
     (case lit ''github.com/'' s of
        None \<Rightarrow> None
      | Some s1 \<Rightarrow>
          (case seg s1 of
             None \<Rightarrow> None
           | Some (o1, s2) \<Rightarrow>
               (case lit ''/'' s2 of
                  None \<Rightarrow> None
                | Some s3 \<Rightarrow>
                    (case seg s3 of
                       None \<Rightarrow> None
                     | Some (r1, s4) \<Rightarrow>
                         (case lit ''/tree/'' s4 of
                            None \<Rightarrow> None
                          | Some s5 \<Rightarrow> seg s5)))))"

text \<open>\<open>/github\.com\/[^/]+\/[^/]+\/tree\/[^/]+\/(.+)/\<close>\<close>

definition path_at :: "string \<Rightarrow> string option" where
  "path_at s =
     (case tree_at s of
        None \<Rightarrow> None
      | Some (b, s6) \<Rightarrow>
          (case lit ''/'' s6 of
             None \<Rightarrow> None
           | Some s7 \<Rightarrow> rest_of_line s7))"

definition extractGitHubPath :: "string \<Rightarrow> string" where
  "extractGitHubPath url = (case search_from path_at url of Some m \<Rightarrow> m | None \<Rightarrow> [])"

definition extractRepoName :: "string \<Rightarrow> string" where
  "extractRepoName url = (case search_from repo_at url of Some m \<Rightarrow> m | None \<Rightarrow> [])"

definition extractOwner :: "string \<Rightarrow> string" where
  "extractOwner url = (case search_from owner_at url of Some m \<Rightarrow> m | None \<Rightarrow> [])"

definition extractBranch :: "string \<Rightarrow> string" where
  "extractBranch url =
     (case search_from tree_at url of Some (b, r) \<Rightarrow> b | None \<Rightarrow> ''main'')"

text \<open>
  The options of \<open>fetchSkillsMP\<close> and its result. \<open>page\<close> and \<open>limit\<close> are natural
  numbers; \<open>page = 1\<close>, \<open>limit = 50\<close>, \<open>search = ''\<close> and \<open>sortBy = 'stars'\<close> stand in
  for an option that is \<open>undefined\<close>.
\<close>

record mp_options =
  search :: "string option"
  page :: "nat option"
  limit :: "nat option"
  sortBy :: "string option"

record mp_result =
  skills_res :: "MarketplaceSkill list"
  total_res :: nat
  hasNext_res :: bool

definition mp_skill :: "SkillsMPSkill \<Rightarrow> MarketplaceSkill" where
  "mp_skill s =
     \<lparr>name_skill = name_mp s,
      description_skill = description_mp s,
      path_skill = extractGitHubPath (githubUrl_mp s),
      source_skill = SKILLSMP_SOURCE\<lparr>owner := author_mp s,
                                     repo := extractRepoName (githubUrl_mp s)\<rparr>,
      license_skill = None,
      author = Some (author_mp s),
      version_skill = None,
      tags = None,
      extra = Some (id_mp s, stars_mp s, githubUrl_mp s)\<rparr>"

text \<open>
  The destructuring \<open>const { search = '', page = 1, limit = 50, sortBy = 'stars' } = options\<close>
  and the cache key made of the four values.
\<close>

definition mp_defaults :: "mp_options \<Rightarrow> string \<times> nat \<times> nat \<times> string" where
  "mp_defaults options =
     (case search options of None \<Rightarrow> [] | Some s \<Rightarrow> s,
      case page options of None \<Rightarrow> 1 | Some p \<Rightarrow> p,
      case limit options of None \<Rightarrow> 50 | Some l \<Rightarrow> l,
      case sortBy options of None \<Rightarrow> ''stars'' | Some s \<Rightarrow> s)"

definition mp_cacheKey :: "mp_options \<Rightarrow> string" where
  "mp_cacheKey options =
     (let (search', page', limit', sortBy') = mp_defaults options
      in ''skillsmp:'' @ search' @ '':'' @ show_nat page' @ '':''
           @ show_nat limit' @ '':'' @ sortBy')"

text \<open>
  The serialisation of a value by \<open>URLSearchParams\<close> (application/x-www-form-urlencoded
  over the UTF-8 bytes of the text): a space becomes \<open>+\<close>, letters, digits and
  \<open>*-._\<close> stay, every other byte becomes \<open>%\<close> and two upper-case hexadecimal digits.
  The characters of a \<open>string\<close> have the codes 0 to 255; one with a code from 128 on
  has two bytes in UTF-8.
\<close>

definition hex_digit :: "nat \<Rightarrow> char" where
  "hex_digit d = (if d < 10 then char_of (48 + d) else char_of (55 + d))"

definition percent :: "nat \<Rightarrow> string" where
  "percent b = [CHR ''%'', hex_digit (b div 16), hex_digit (b mod 16)]"

definition urlencode_char :: "char \<Rightarrow> string" where
  "urlencode_char c =
     (let n = (of_char c :: nat)
      in if n = 32 then ''+''
         else if n = 42 \<or> n = 45 \<or> n = 46 \<or> n = 95 \<or> (48 \<le> n \<and> n \<le> 57)
                 \<or> (65 \<le> n \<and> n \<le> 90) \<or> (97 \<le> n \<and> n \<le> 122)
         then [c]
         else if n < 128 then percent n
         else percent (192 + n div 64) @ percent (128 + n mod 64))"

definition urlencode :: "string \<Rightarrow> string" where
  "urlencode s = concat (map urlencode_char s)"

text \<open>
  \<open>fetchSkillsMP\<close> past the cache check. \<open>page\<close> and \<open>limit\<close> are printed in decimal, as
  \<open>toString\<close> prints a natural number below \<open>10^21\<close>. The cache entry is written before
  the result is built: an answer with skills and no \<open>pagination\<close> is cached and then
  the call throws.
\<close>

definition mp_uncached ::
  "network \<Rightarrow> mp_options \<Rightarrow> string \<Rightarrow> world \<Rightarrow> (error + mp_result) \<times> world" where
  "mp_uncached net options cacheKey w0 =
     (let (search', page', limit', sortBy') = mp_defaults options;
          params = ''page='' @ urlencode (show_nat page') @ ''&limit=''
            @ urlencode (show_nat limit') @ ''&sortBy='' @ urlencode sortBy'
            @ (if search' \<noteq> [] then ''&search='' @ urlencode search' else []);
          url = SKILLSMP_API @ ''?'' @ params;
          w1 = request url w0
      in case get_skillsmp net url of
           Rejected \<Rightarrow> (Inl FetchRejected, w1)
         | NotOk status \<Rightarrow> (Inl (SkillsMPApiError status), w1)
         | Malformed e \<Rightarrow> (Inl e, w1)
         | Ok data \<Rightarrow>
             (let skills' = map mp_skill (skills_mp data);
                  (now, w2) = date_now w1;
                  w3 = w2\<lparr>cache := (cache w2)(cacheKey \<mapsto> (skills', now))\<rparr>
              in case pagination_mp data of
                   None \<Rightarrow> (Inl TypeError, w3)
                 | Some (total', hasNext') \<Rightarrow>
                     (Inr \<lparr>skills_res = skills', total_res = total',
                           hasNext_res = hasNext'\<rparr>, w3)))"

definition fetchSkillsMP ::
  "network \<Rightarrow> mp_options \<Rightarrow> world \<Rightarrow> (error + mp_result) \<times> world" where
  "fetchSkillsMP net options w =
     (let cacheKey = mp_cacheKey options
      in case cache w cacheKey of
           None \<Rightarrow> mp_uncached net options cacheKey w
         | Some (data, timestamp) \<Rightarrow>
             (let (now, w1) = date_now w
              in if now - timestamp < CACHE_TTL
                 then (Inr \<lparr>skills_res = data, total_res = 0, hasNext_res = False\<rparr>, w1)
                 else mp_uncached net options cacheKey w1))"

record install_result =
  name_res :: string
  path_res :: string

text \<open>
  \<open>installFromGitHubUrl\<close>. The fetched text is stored as what \<open>gray-matter\<close> makes of
  it, which the parameter \<open>matter\<close> gives.
\<close>

definition installFromGitHubUrl ::
  "network \<Rightarrow> (string \<Rightarrow> skill_md) \<Rightarrow> string \<Rightarrow> string \<Rightarrow> world
     \<Rightarrow> (error + install_result) \<times> world" where
  "installFromGitHubUrl net matter githubUrl installDir' w =
     (let owner' = extractOwner githubUrl;
          repo' = extractRepoName githubUrl;
          branch' = extractBranch githubUrl;
          skillPath = extractGitHubPath githubUrl
      in if owner' = [] \<or> repo' = [] \<or> skillPath = []
         then (Inl (InvalidGitHubUrl githubUrl), w)
         else
           (let skillName = or_default (Some (last (split_on CHR ''/'' skillPath))) ''skill'';
                destPath = installDir' @ ''/'' @ skillName;
                skillMdUrl = ''https://raw.githubusercontent.com/'' @ owner' @ ''/'' @ repo'
                  @ ''/'' @ branch' @ ''/'' @ skillPath @ ''/SKILL.md'';
                w1 = request skillMdUrl w
            in case get_text net skillMdUrl of
                 Ok skillContent \<Rightarrow>
                   (Inr \<lparr>name_res = skillName, path_res = destPath\<rparr>,
                    writeFile (destPath @ ''/SKILL.md'') (matter skillContent)
                      (mkdir destPath w1))
               | Rejected \<Rightarrow> (Inl FetchRejected, w1)
               | _ \<Rightarrow> (Inl (CouldNotFetch skillMdUrl), w1)))"

section \<open>loader.ts: discovery\<close>

definition DEFAULT_SKILL_PATHS :: "world \<Rightarrow> string list" where
  "DEFAULT_SKILL_PATHS w =
     [path_join [or_default (env_HOME w) ''~'', ''.antigravity'', ''skills''],
      ''.antigravity/skills'',
      ''./skills'']"

record SkillDiscoveryConfig =
  searchPaths :: "string list option"
  maxDepth :: "nat option"

record SkillRef =
  name_ref :: string
  description_ref :: string
  path_ref :: string

text \<open>\<open>path.dirname\<close> of an absolute path, as \<open>glob\<close> returns them.\<close>

definition dirname :: "string \<Rightarrow> string" where
  "dirname p =
     (let d = rev (drop 1 (dropWhile (\<lambda>c. c \<noteq> CHR ''/'') (rev p)))
      in if CHR ''/'' \<notin> set p then ''.'' else if d = [] then ''/'' else d)"

text \<open>
  The inner loop of \<open>discoverSkills\<close> over the files of one search path: a document
  whose metadata cannot be loaded is warned about and the loop goes on.
\<close>

fun discover_files :: "string list \<Rightarrow> SkillRef list \<Rightarrow> world \<Rightarrow> SkillRef list \<times> world" where
  "discover_files [] skills w = (skills, w)"
| "discover_files (skillMdPath # rest) skills w =
     (case loadSkillMetadata skillMdPath w of
        Inr (Some md) \<Rightarrow>
          discover_files rest
            (skills @ [\<lparr>name_ref = the (name md), description_ref = the (description md),
                        path_ref = dirname skillMdPath\<rparr>]) w
      | Inr None \<Rightarrow> discover_files rest skills w
      | Inl err \<Rightarrow>
          discover_files rest skills
            (console_warn (''Warning: Could not load skill at '' @ skillMdPath) w))"

text \<open>
  The outer loop. \<open>glob\<close> is the library call, a parameter: given the pattern and the
  depth it gives the paths found or throws; a throw ends the round of that search path
  and nothing else.
\<close>

fun discover_roots ::
  "(string \<Rightarrow> nat \<Rightarrow> error + string list) \<Rightarrow> nat \<Rightarrow> string list \<Rightarrow> SkillRef list \<Rightarrow> world
     \<Rightarrow> SkillRef list \<times> world" where
  "discover_roots glob depth [] skills w = (skills, w)"
| "discover_roots glob depth (basePath # rest) skills w =
     (case glob (join basePath ''**/SKILL.md'') depth of
        Inl err \<Rightarrow> discover_roots glob depth rest skills w
      | Inr skillFiles \<Rightarrow>
          (let (skills1, w1) = discover_files skillFiles skills w
           in discover_roots glob depth rest skills1 w1))"

definition discoverSkills ::
  "(string \<Rightarrow> nat \<Rightarrow> error + string list) \<Rightarrow> SkillDiscoveryConfig \<Rightarrow> world
     \<Rightarrow> SkillRef list \<times> world" where
  "discoverSkills glob config w =
     (let paths = (case searchPaths config of Some ps \<Rightarrow> ps | None \<Rightarrow> DEFAULT_SKILL_PATHS w);
          depth = (case maxDepth config of
                     None \<Rightarrow> 3
                   | Some d \<Rightarrow> if d = 0 then 3 else d)
      in discover_roots glob depth paths [] w)"

section \<open>Discovery, as the specification words it\<close>

text \<open>
  What a discovery pass is to produce, for comparison with \<open>discoverSkills\<close>: the
  documents of a search path are those \<open>glob\<close> finds (none when it throws); a document
  gives a reference when its metadata loads, and a warning when loading throws.
\<close>

definition found_files ::
  "(string \<Rightarrow> nat \<Rightarrow> error + string list) \<Rightarrow> nat \<Rightarrow> string \<Rightarrow> string list" where
  "found_files glob depth basePath =
     (case glob (join basePath ''**/SKILL.md'') depth of
        Inl err \<Rightarrow> []
      | Inr skillFiles \<Rightarrow> skillFiles)"

definition skill_ref :: "world \<Rightarrow> string \<Rightarrow> SkillRef option" where
  "skill_ref w skillMdPath =
     (case loadSkillMetadata skillMdPath w of
        Inr (Some md) \<Rightarrow>
          Some \<lparr>name_ref = the (name md), description_ref = the (description md),
                path_ref = dirname skillMdPath\<rparr>
      | _ \<Rightarrow> None)"

definition load_warning :: "world \<Rightarrow> string \<Rightarrow> string option" where
  "load_warning w skillMdPath =
     (case loadSkillMetadata skillMdPath w of
        Inl err \<Rightarrow> Some (''Warning: Could not load skill at '' @ skillMdPath)
      | _ \<Rightarrow> None)"

definition search_roots :: "SkillDiscoveryConfig \<Rightarrow> world \<Rightarrow> string list" where
  "search_roots config w =
     (case searchPaths config of Some ps \<Rightarrow> ps | None \<Rightarrow> DEFAULT_SKILL_PATHS w)"

definition search_depth :: "SkillDiscoveryConfig \<Rightarrow> nat" where
  "search_depth config =
     (case maxDepth config of None \<Rightarrow> 3 | Some d \<Rightarrow> if d = 0 then 3 else d)"

section \<open>Frames\<close>

text \<open>
  \<open>same_disk w w'\<close>: the two worlds have the same manifest file, directories,
  documents and environment (they may differ in caches, clock, request log and console).
  \<open>same_memory w w'\<close>: they have the same manifest file, the same cache of
  marketplace.ts, the same clock, home and working directory (they may differ in
  directories, documents, the other cache, request log and console).
\<close>

definition same_disk :: "world \<Rightarrow> world \<Rightarrow> bool" where
  "same_disk w w' =
     (config_file w' = config_file w \<and> dirs w' = dirs w \<and> files w' = files w
      \<and> env_HOME w' = env_HOME w \<and> os_tmpdir w' = os_tmpdir w \<and> cwd w' = cwd w)"

definition same_memory :: "world \<Rightarrow> world \<Rightarrow> bool" where
  "same_memory w w' =
     (config_file w' = config_file w \<and> skillsCache w' = skillsCache w
      \<and> clock w' = clock w \<and> ticks w' = ticks w
      \<and> env_HOME w' = env_HOME w \<and> cwd w' = cwd w)"

section \<open>Example worlds and networks\<close>

text \<open>
  Concrete inputs for the examples below: a fresh machine with no manifest and empty
  caches, whose directories are the home directory \<open>/home/user\<close>, \<open>/tmp\<close> and the
  working directory \<open>/work\<close> and whose clock advances by a second at each reading,
  and a network on which every request fails.
\<close>

definition fresh_world :: world where
  "fresh_world =
     \<lparr>config_file = Missing,
      dirs = {[''home''], [''home'', ''user''], [''tmp''], [''work'']},
      files = Map.empty,
      skillsCache = Map.empty,
      cache = Map.empty,
      clock = (\<lambda>n. 1000 * int n),
      ticks = 0,
      requests = [],
      console = [],
      env_HOME = Some ''/home/user'',
      os_tmpdir = ''/tmp'',
      cwd = ''/work''\<rparr>"

definition offline :: network where
  "offline =
     \<lparr>get_index = (\<lambda>url. Rejected),
      get_contents = (\<lambda>url. Rejected),
      get_text = (\<lambda>url. Rejected),
      get_skillsmp = (\<lambda>url. Rejected),
      git = (\<lambda>repoUrl b p. GitFailed)\<rparr>"

text \<open>A user-added source and a source with a deprecated id.\<close>

definition community_source :: MarketplaceSource where
  "community_source =
     \<lparr>id_src = ''community'',
      name_src = ''Community Skills'',
      owner = ''acme'',
      repo = ''agent-skills'',
      branch = None,
      skillsPath = None,
      description_src = None,
      verified = None\<rparr>"

definition deprecated_source :: MarketplaceSource where
  "deprecated_source =
     \<lparr>id_src = ''agentskills-examples'',
      name_src = ''Agent Skills Examples'',
      owner = ''agentskills'',
      repo = ''examples'',
      branch = None,
      skillsPath = None,
      description_src = None,
      verified = Some True\<rparr>"

text \<open>
  A remote skill \<open>pdf\<close> of the community source, listed by an index file with the
  version \<open>v\<close>; the manifest entry of its installation at version \<open>1.0\<close>; and a machine
  whose manifest holds that entry.
\<close>

definition pdf_entry :: "string option \<Rightarrow> index_entry" where
  "pdf_entry v =
     \<lparr>name_ix = ''pdf'',
      description_ix = Some ''Read and fill in PDF forms.'',
      path_ix = ''skills/pdf'',
      license_ix = None,
      author_ix = None,
      version_ix = v\<rparr>"

definition index_network :: "string option \<Rightarrow> network" where
  "index_network v = offline\<lparr>get_index := (\<lambda>url. Ok [pdf_entry v])\<rparr>"

definition pdf_installed :: InstalledSkill where
  "pdf_installed =
     \<lparr>name_inst = ''pdf'',
      localPath = ''/home/user/.antigravity/skills/pdf'',
      source_inst = Some community_source,
      remotePath = Some ''skills/pdf'',
      version_inst = Some ''1.0'',
      installedAt = 0,
      lastChecked = None\<rparr>"

definition pdf_world :: world where
  "pdf_world =
     fresh_world
       \<lparr>config_file :=
          Stored \<lparr>sources = [community_source], installed = [pdf_installed],
                  installDir = ''/home/user/.antigravity/skills''\<rparr>,
        dirs := dirs fresh_world
                  \<union> {[''home'', ''user'', ''.antigravity''],
                     [''home'', ''user'', ''.antigravity'', ''skills''],
                     [''home'', ''user'', ''.antigravity'', ''skills'', ''pdf'']}\<rparr>"


text \<open>
  A valid skill named \<open>nm\<close> of the community source: its metadata, its index entry, a
  network that lists it and checks out a tree whose \<open>SKILL.md\<close> is \<open>doc\<close>, and a
  machine whose manifest (in \<open>/home/user/.antigravity\<close>) registers the community source
  and installs into \<open>dir\<close>.
\<close>

definition example_md :: "string \<Rightarrow> SkillMetadata" where
  "example_md nm =
     \<lparr>name = Some nm,
      description = Some ''Keeps structured notes for a project and recalls them on request.'',
      license = None, compatibility = None, metadata = None, allowedTools = None\<rparr>"

definition example_entry :: "string \<Rightarrow> index_entry" where
  "example_entry nm =
     \<lparr>name_ix = nm,
      description_ix = Some ''Keeps structured notes for a project.'',
      path_ix = ''skills/'' @ nm,
      license_ix = None,
      author_ix = None,
      version_ix = Some ''1.0''\<rparr>"

definition example_network :: "string \<Rightarrow> skill_md option \<Rightarrow> network" where
  "example_network nm doc =
     offline\<lparr>get_index := (\<lambda>url. Ok [example_entry nm]),
             git := (\<lambda>repoUrl b p. Checkout (Some doc))\<rparr>"

definition example_world :: "string \<Rightarrow> world" where
  "example_world dir =
     fresh_world
       \<lparr>config_file :=
          Stored \<lparr>sources = [community_source], installed = [], installDir = dir\<rparr>,
        dirs := dirs fresh_world \<union> {[''home'', ''user'', ''.antigravity'']}\<rparr>"


text \<open>
  A machine with two documents under \<open>/work/skills\<close>, one with a name and a
  description and one without a description, and a \<open>glob\<close> that finds both there,
  finds nothing under \<open>/work/empty\<close> and throws for every other search path.
\<close>

definition docs_world :: world where
  "docs_world =
     fresh_world
       \<lparr>dirs := dirs fresh_world
                  \<union> {[''work'', ''empty''], [''work'', ''skills''],
                     [''work'', ''skills'', ''notes''], [''work'', ''skills'', ''draft'']},
        files := [[''work'', ''skills'', ''notes'', ''SKILL.md'']
                     \<mapsto> FrontMatter (example_md ''notes''),
                  [''work'', ''skills'', ''draft'', ''SKILL.md'']
                     \<mapsto> FrontMatter ((example_md ''draft'')\<lparr>description := None\<rparr>)]\<rparr>"

definition docs_glob :: "string \<Rightarrow> nat \<Rightarrow> error + string list" where
  "docs_glob pattern depth =
     (if pattern = ''/work/skills/**/SKILL.md''
      then Inr [''/work/skills/draft/SKILL.md'', ''/work/skills/notes/SKILL.md'']
      else if pattern = ''/work/empty/**/SKILL.md'' then Inr []
      else Inl GlobError)"

text \<open>
  A repository without an index file: the request for \<open>skills-index.json\<close> is answered
  with 404, the directory listing names the directory \<open>skills/pdf\<close> and a file, and
  every \<open>SKILL.md\<close> is the document below.
\<close>

definition pdf_document :: string where
  "pdf_document =
     ''---'' @ [CHR 0x0A] @ ''name: pdf'' @ [CHR 0x0A]
       @ ''description: Read and fill in PDF forms.'' @ [CHR 0x0A] @ ''---'' @ [CHR 0x0A]"

definition listing_network :: network where
  "listing_network =
     offline
       \<lparr>get_index := (\<lambda>url. NotOk 404),
        get_contents := (\<lambda>url. Ok [\<lparr>name_ci = ''pdf'', path_ci = ''skills/pdf'', type_ci = ''dir''\<rparr>,
                                    \<lparr>name_ci = ''README.md'', path_ci = ''skills/README.md'',
                                     type_ci = ''file''\<rparr>]),
        get_text := (\<lambda>url. Ok pdf_document)\<rparr>"

text \<open>A SkillsMP answer with one skill out of 120, and a network that gives it.\<close>

definition pdf_answer :: SkillsMPResponse where
  "pdf_answer =
     \<lparr>skills_mp = [\<lparr>id_mp = ''acme-pdf'', name_mp = ''pdf'', author_mp = ''acme'',
                     description_mp = ''Read and fill in PDF forms.'',
                     githubUrl_mp = ''https://github.com/acme/agent-skills/tree/main/skills/pdf'',
                     stars_mp = 7\<rparr>],
      pagination_mp = Some (120, True)\<rparr>"



definition no_options :: mp_options where
  "no_options = \<lparr>search = None, page = None, limit = None, sortBy = None\<rparr>"

text \<open>
  The address of the skill \<open>pdf\<close> in the repository of the community source, and what
  \<open>gray-matter\<close> reads in the document above.
\<close>

definition pdf_url :: string where
  "pdf_url = ''https://github.com/acme/agent-skills/tree/main/skills/pdf''"

definition pdf_matter :: "string \<Rightarrow> skill_md" where
  "pdf_matter body =
     (if body = pdf_document
      then FrontMatter \<lparr>name = Some ''pdf'', description = Some ''Read and fill in PDF forms.'',
                        license = None, compatibility = None, metadata = None,
                        allowedTools = None\<rparr>
      else BadFrontmatter)"

section \<open>Properties of the string and pattern functions\<close>

lemma startsWith_iff: "startsWith s w \<longleftrightarrow> (\<exists>t. s = w @ t)"
  by (induction s w rule: startsWith.induct) auto

lemma includes_iff: "includes_str s w \<longleftrightarrow> (\<exists>a b. s = a @ w @ b)"
proof (induction s)
  case Nil
  then show ?case by auto
next
  case (Cons c s)
  show ?case
  proof
    assume "includes_str (c # s) w"
    then consider "startsWith (c # s) w" | "includes_str s w" by auto
    then show "\<exists>a b. c # s = a @ w @ b"
    proof cases
      case 1
      then obtain t where "c # s = w @ t" by (auto simp: startsWith_iff)
      then have "c # s = [] @ w @ t" by simp
      then show ?thesis by blast
    next
      case 2
      then obtain a b where "s = a @ w @ b" using Cons.IH by blast
      then have "c # s = (c # a) @ w @ b" by simp
      then show ?thesis by blast
    qed
  next
    assume "\<exists>a b. c # s = a @ w @ b"
    then obtain a b where ab: "c # s = a @ w @ b" by blast
    show "includes_str (c # s) w"
    proof (cases a)
      case Nil
      with ab have "startsWith (c # s) w" by (auto simp: startsWith_iff)
      then show ?thesis by simp
    next
      case (Cons d a')
      with ab have "s = a' @ w @ b" by simp
      then have "includes_str s w" using Cons.IH by blast
      then show ?thesis by simp
    qed
  qed
qed

lemma nullable_iff: "nullable r \<longleftrightarrow> [] \<in> lang r"
  by (induction r) (auto simp: lang_conc_def lang_star_def intro: exI[of _ "[]"])

lemma star_Cons_iff:
  "c # w \<in> lang_star A \<longleftrightarrow> (\<exists>u v. w = u @ v \<and> c # u \<in> A \<and> v \<in> lang_star A)"
proof
  assume "c # w \<in> lang_star A"
  then obtain ws where ws: "c # w = concat ws" "set ws \<subseteq> A"
    by (auto simp: lang_star_def)
  then show "\<exists>u v. w = u @ v \<and> c # u \<in> A \<and> v \<in> lang_star A"
  proof (induction ws)
    case Nil
    then show ?case by simp
  next
    case (Cons x xs)
    show ?case
    proof (cases x)
      case Nil
      with Cons show ?thesis by simp
    next
      case (Cons d u)
      with Cons.prems have "d = c" "w = u @ concat xs" "c # u \<in> A" "set xs \<subseteq> A"
        by auto
      then show ?thesis unfolding lang_star_def by blast
    qed
  qed
next
  assume "\<exists>u v. w = u @ v \<and> c # u \<in> A \<and> v \<in> lang_star A"
  then obtain u v ws where "w = u @ v" "c # u \<in> A" "v = concat ws" "set ws \<subseteq> A"
    by (auto simp: lang_star_def)
  then have "c # w = concat ((c # u) # ws)" "set ((c # u) # ws) \<subseteq> A" by auto
  then show "c # w \<in> lang_star A" unfolding lang_star_def by blast
qed

lemma conc_Cons_iff:
  "c # w \<in> lang_conc A B \<longleftrightarrow>
     ([] \<in> A \<and> c # w \<in> B) \<or> (\<exists>u v. w = u @ v \<and> c # u \<in> A \<and> v \<in> B)"
  unfolding lang_conc_def by (auto simp: Cons_eq_append_conv)

lemma deriv_lang: "w \<in> lang (deriv c r) \<longleftrightarrow> c # w \<in> lang r"
proof (induction r arbitrary: w)
  case (Seq r s)
  then show ?case
    by (auto simp: conc_Cons_iff nullable_iff) (auto simp: lang_conc_def)
next
  case (Star r)
  then show ?case
    by (auto simp: star_Cons_iff) (auto simp: lang_conc_def)
qed auto

lemma matches_iff: "matches r s \<longleftrightarrow> s \<in> lang r"
  by (induction s arbitrary: r) (auto simp: nullable_iff deriv_lang)

text \<open>Words over an alphabet.\<close>

lemma conc_lists: "A \<subseteq> lists S \<Longrightarrow> B \<subseteq> lists S \<Longrightarrow> lang_conc A B \<subseteq> lists S"
  by (fastforce simp: lang_conc_def subset_iff in_lists_conv_set)

lemma star_lists: "A \<subseteq> lists S \<Longrightarrow> lang_star A \<subseteq> lists S"
  by (fastforce simp: lang_star_def subset_iff in_lists_conv_set)

lemma atom_lists: "(\<And>c. P c \<Longrightarrow> c \<in> S) \<Longrightarrow> lang (Atom P) \<subseteq> lists S"
  by auto

lemma NAME_PATTERN_chars:
  assumes "test_full NAME_PATTERN nm"
  shows "nm \<noteq> [] \<and> (\<forall>c \<in> set nm. lower_digit c \<or> c = CHR ''-'')"
proof -
  let ?S = "{c. lower_digit c \<or> c = CHR ''-''}"
  have in_lang: "nm \<in> lang NAME_PATTERN"
    using assms by (simp add: test_full_def matches_iff)
  have "lang NAME_PATTERN \<subseteq> lists ?S"
    unfolding NAME_PATTERN_def Plus_def lang.simps(5,6)
    by (intro conc_lists star_lists atom_lists) (auto simp: lower_def lower_digit_def is_char_def)
  then have "set nm \<subseteq> ?S" using in_lang by auto
  moreover have "nm \<noteq> []"
    using in_lang by (auto simp: NAME_PATTERN_def lang_conc_def)
  ultimately show ?thesis by auto
qed

lemma XML_TAG_needs_lt:
  assumes "test_search XML_TAG s"
  shows "CHR ''<'' \<in> set s"
proof -
  have "s \<in> lang (Seq (Star (Atom any_char)) (Seq XML_TAG (Star (Atom any_char))))"
    using assms by (simp add: test_search_def matches_iff)
  then obtain a b c where "s = a @ b @ c" "b \<in> lang XML_TAG"
    by (auto simp: lang_conc_def)
  moreover from this obtain t where "b = CHR ''<'' # t"
    by (auto simp: XML_TAG_def lang_conc_def is_char_def)
  ultimately show ?thesis by simp
qed

lemma toLowerCase_char_id: "lower_digit c \<or> c = CHR ''-'' \<Longrightarrow> toLowerCase_char c = c"
  by (auto simp: toLowerCase_char_def lower_digit_def less_eq_char_def Let_def)

lemma toLowerCase_id: "\<forall>c \<in> set s. lower_digit c \<or> c = CHR ''-'' \<Longrightarrow> toLowerCase s = s"
  by (induction s) (auto simp: toLowerCase_def toLowerCase_char_id)

lemma includes_map:
  "includes_str s w \<Longrightarrow> includes_str (map f s) (map f w)"
  by (auto simp: includes_iff) (metis map_append)

lemma toLowerCase_reserved: "w \<in> set RESERVED_WORDS \<Longrightarrow> toLowerCase w = w"
  by (auto simp: RESERVED_WORDS_def toLowerCase_def toLowerCase_char_def)

lemma includes_toLowerCase:
  "w \<in> set RESERVED_WORDS \<Longrightarrow> includes_str nm w \<Longrightarrow> includes_str (toLowerCase nm) w"
  using includes_map[of nm w toLowerCase_char] toLowerCase_reserved[of w]
  by (simp add: toLowerCase_def)


lemma reserved_loop_eq:
  "reserved_loop nm ws errs =
     errs @ map (reserved_error nm) (filter (\<lambda>w. includes_str (toLowerCase nm) w) ws)"
  by (induction ws arbitrary: errs) auto

lemma name_checks_Some:
  "nm \<noteq> [] \<Longrightarrow>
   name_checks (Some nm) errs0 =
     errs0
     @ (if length nm > 64
        then [\<lparr>field = ''name'', message = ''Name must be 64 characters or less'',
               val = Some (Num (length nm))\<rparr>] else [])
     @ (if \<not> test_full NAME_PATTERN nm
        then [\<lparr>field = ''name'',
               message = ''Name must contain only lowercase letters, numbers, and hyphens. Cannot start/end with hyphen or have consecutive hyphens.'',
               val = Some (Str nm)\<rparr>] else [])
     @ map (reserved_error nm) (filter (\<lambda>w. includes_str (toLowerCase nm) w) RESERVED_WORDS)
     @ (if test_search XML_TAG nm
        then [\<lparr>field = ''name'', message = ''Name cannot contain XML tags'',
               val = Some (Str nm)\<rparr>] else [])"
  by (simp add: name_checks_def Let_def reserved_loop_eq)

lemma description_checks_errors:
  "\<exists>ds. fst (description_checks d (errs, ws)) = errs @ ds
        \<and> (\<forall>e \<in> set ds. field e = ''description'')"
  by (simp add: description_checks_def Let_def)

lemma compatibility_checks_errors:
  "\<exists>cs. compatibility_checks c errs = errs @ cs
        \<and> (\<forall>e \<in> set cs. field e = ''compatibility'')"
  by (simp add: compatibility_checks_def)

lemma validateMetadata_errors:
  "\<exists>rest. errors (validateMetadata m) = name_checks (name m) [] @ rest
          \<and> (\<forall>e \<in> set rest. field e \<noteq> ''name'')"
proof -
  obtain ds where ds: "fst (description_checks (description m) (name_checks (name m) [], []))
      = name_checks (name m) [] @ ds" "\<forall>e \<in> set ds. field e = ''description''"
    using description_checks_errors by blast
  obtain cs where cs: "compatibility_checks (compatibility m) (name_checks (name m) [] @ ds)
      = (name_checks (name m) [] @ ds) @ cs" "\<forall>e \<in> set cs. field e = ''compatibility''"
    using compatibility_checks_errors by blast
  have "errors (validateMetadata m) = name_checks (name m) [] @ (ds @ cs)"
    using ds(1) cs(1) by (auto simp: validateMetadata_def Let_def split: prod.splits)
  moreover have "\<forall>e \<in> set (ds @ cs). field e \<noteq> ''name''"
    using ds(2) cs(2) by auto
  ultimately show ?thesis by blast
qed

lemma name_errors_eq:
  "filter (\<lambda>e. field e = ''name'' \<and> P e) (errors (validateMetadata m))
     = filter (\<lambda>e. field e = ''name'' \<and> P e) (name_checks (name m) [])"
proof -
  obtain rest where "errors (validateMetadata m) = name_checks (name m) [] @ rest"
    "\<forall>e \<in> set rest. field e \<noteq> ''name''"
    using validateMetadata_errors by blast
  then show ?thesis by (simp add: filter_empty_conv)
qed

lemma fixed_messages_no_word:
  "\<forall>w \<in> set RESERVED_WORDS.
     \<not> includes_str ''Name must be 64 characters or less'' w
     \<and> \<not> includes_str ''Name must contain only lowercase letters, numbers, and hyphens. Cannot start/end with hyphen or have consecutive hyphens.'' w
     \<and> \<not> includes_str ''Name cannot contain XML tags'' w"
  by (simp add: RESERVED_WORDS_def)

lemma reserved_message_word:
  "\<forall>w \<in> set RESERVED_WORDS. \<forall>w' \<in> set RESERVED_WORDS.
     includes_str (message (reserved_error nm w')) w = (w' = w)"
  by (simp add: RESERVED_WORDS_def reserved_error_def)

lemma distinct_RESERVED_WORDS: "distinct RESERVED_WORDS"
  by (simp add: RESERVED_WORDS_def)

lemma filter_map_single:
  "distinct ws \<Longrightarrow> w \<in> set ws \<Longrightarrow> Q w \<Longrightarrow> \<forall>w' \<in> set ws. hit (f w') = (w' = w)
     \<Longrightarrow> filter hit (map f (filter Q ws)) = [f w]"
  by (induction ws) (auto simp: filter_empty_conv)


section \<open>C2: name errors of \<open>validateMetadata\<close>\<close>

text \<open>
  C2, as amended. Let the name of the metadata be \<open>nm\<close>. If \<open>nm\<close> matches
  \<open>NAME_PATTERN\<close>, has at most 64 characters and contains no reserved word, then
  \<open>validateMetadata\<close> reports no error on the field \<open>name\<close>. If \<open>nm\<close> contains a
  reserved word \<open>w\<close>, then exactly one of the reported name errors has a message that
  mentions \<open>w\<close>: the error \<open>Name cannot contain reserved word: w\<close> (other name errors may
  stand beside it).
\<close>

theorem validateMetadata_name_errors:
  assumes "name m = Some nm"
  shows "(test_full NAME_PATTERN nm \<and> length nm \<le> 64
            \<and> \<not> (\<exists>w \<in> set RESERVED_WORDS. includes_str nm w)
          \<longrightarrow> filter (\<lambda>e. field e = ''name'') (errors (validateMetadata m)) = [])
       \<and> (\<forall>w \<in> set RESERVED_WORDS. includes_str nm w
          \<longrightarrow> filter (\<lambda>e. field e = ''name'' \<and> includes_str (message e) w)
                (errors (validateMetadata m)) = [reserved_error nm w])"
proof (intro conjI impI ballI)
  assume ok: "test_full NAME_PATTERN nm \<and> length nm \<le> 64
      \<and> \<not> (\<exists>w \<in> set RESERVED_WORDS. includes_str nm w)"
  then have chars: "nm \<noteq> []" "\<forall>c \<in> set nm. lower_digit c \<or> c = CHR ''-''"
    using NAME_PATTERN_chars by blast+
  have low: "toLowerCase nm = nm" using chars(2) by (rule toLowerCase_id)
  have no_xml: "\<not> test_search XML_TAG nm"
  proof
    assume "test_search XML_TAG nm"
    then have "CHR ''<'' \<in> set nm" by (rule XML_TAG_needs_lt)
    with chars(2) show False by (auto simp: lower_digit_def less_eq_char_def)
  qed
  have "filter (\<lambda>w. includes_str (toLowerCase nm) w) RESERVED_WORDS = []"
    using ok low by (auto simp: filter_empty_conv)
  then have "name_checks (Some nm) [] = []"
    using ok chars(1) no_xml by (simp add: name_checks_Some)
  moreover have "filter (\<lambda>e. field e = ''name'' \<and> True) (errors (validateMetadata m))
      = filter (\<lambda>e. field e = ''name'' \<and> True) (name_checks (name m) [])"
    by (rule name_errors_eq)
  ultimately show "filter (\<lambda>e. field e = ''name'') (errors (validateMetadata m)) = []"
    using assms by simp
next
  fix w
  assume w: "w \<in> set RESERVED_WORDS" and inc: "includes_str nm w"
  have ne: "nm \<noteq> []"
    using w inc by (auto simp: RESERVED_WORDS_def)
  have low: "includes_str (toLowerCase nm) w"
    using w inc by (rule includes_toLowerCase)
  let ?hit = "\<lambda>e. field e = ''name'' \<and> includes_str (message e) w"
  have hit_iff: "\<forall>w' \<in> set RESERVED_WORDS. ?hit (reserved_error nm w') = (w' = w)"
    using reserved_message_word[of nm] w by (simp add: reserved_error_def del: includes_str.simps)
  have res: "filter ?hit
       (map (reserved_error nm) (filter (\<lambda>w. includes_str (toLowerCase nm) w) RESERVED_WORDS))
     = [reserved_error nm w]"
    using distinct_RESERVED_WORDS w low hit_iff by (rule filter_map_single)
  have fixed: "\<not> includes_str ''Name must be 64 characters or less'' w"
    "\<not> includes_str ''Name must contain only lowercase letters, numbers, and hyphens. Cannot start/end with hyphen or have consecutive hyphens.'' w"
    "\<not> includes_str ''Name cannot contain XML tags'' w"
    using fixed_messages_no_word w by blast+
  have "filter ?hit (name_checks (Some nm) []) = [reserved_error nm w]"
    using ne fixed res by (simp add: name_checks_Some del: includes_str.simps)
  then show "filter ?hit (errors (validateMetadata m)) = [reserved_error nm w]"
    using assms name_errors_eq[of "\<lambda>e. includes_str (message e) w" m] by simp
qed

theorem validateMetadata_name_errors_witness:
  "name \<lparr>name = Some ''pdf-tools'', description = None, license = None,
          compatibility = None, metadata = None, allowedTools = None\<rparr> = Some ''pdf-tools''
   \<and> test_full NAME_PATTERN ''pdf-tools'' \<and> length ''pdf-tools'' \<le> 64
   \<and> \<not> (\<exists>w \<in> set RESERVED_WORDS. includes_str ''pdf-tools'' w)
   \<and> filter (\<lambda>e. field e = ''name'')
        (errors (validateMetadata \<lparr>name = Some ''pdf-tools'', description = None, license = None,
          compatibility = None, metadata = None, allowedTools = None\<rparr>)) = []
   \<and> ''claude'' \<in> set RESERVED_WORDS
   \<and> includes_str ''my-claude-kit'' ''claude''
   \<and> filter (\<lambda>e. field e = ''name'' \<and> includes_str (message e) ''claude'')
        (errors (validateMetadata \<lparr>name = Some ''my-claude-kit'', description = None,
          license = None, compatibility = None, metadata = None, allowedTools = None\<rparr>))
      = [reserved_error ''my-claude-kit'' ''claude'']"
proof -
  let ?a = "\<lparr>name = Some ''pdf-tools'', description = None, license = None,
          compatibility = None, metadata = None, allowedTools = None\<rparr>"
  let ?b = "\<lparr>name = Some ''my-claude-kit'', description = None,
          license = None, compatibility = None, metadata = None, allowedTools = None\<rparr>"
  have pat: "test_full NAME_PATTERN ''pdf-tools''" by code_simp
  have len: "length ''pdf-tools'' \<le> 64" by simp
  have free: "\<not> (\<exists>w \<in> set RESERVED_WORDS. includes_str ''pdf-tools'' w)"
    by (simp add: RESERVED_WORDS_def)
  have mem: "''claude'' \<in> set RESERVED_WORDS" by (simp add: RESERVED_WORDS_def)
  have inc: "includes_str ''my-claude-kit'' ''claude''" by simp
  from validateMetadata_name_errors[of ?a "''pdf-tools''"] pat len free
  have a: "filter (\<lambda>e. field e = ''name'') (errors (validateMetadata ?a)) = []" by simp
  from validateMetadata_name_errors[of ?b "''my-claude-kit''"] mem inc
  have b: "filter (\<lambda>e. field e = ''name'' \<and> includes_str (message e) ''claude'')
        (errors (validateMetadata ?b)) = [reserved_error ''my-claude-kit'' ''claude'']"
    by simp
  show ?thesis using pat len free mem inc a b by simp
qed

text \<open>
  C2 as stated fails: the name \<open>claude\<close> matches \<open>NAME_PATTERN\<close>, and
  \<open>validateMetadata\<close> reports a name error for it, the one for the reserved word.
\<close>

theorem validateMetadata_pattern_counterexample:
  "test_full NAME_PATTERN ''claude''
   \<and> map message (filter (\<lambda>e. field e = ''name'')
        (errors (validateMetadata \<lparr>name = Some ''claude'',
           description = Some ''Helps with reviewing pull requests and summarising the changes.'',
           license = None, compatibility = None, metadata = None, allowedTools = None\<rparr>)))
      = [''Name cannot contain reserved word: claude'']"
  by code_simp

section \<open>C5: what \<open>loadConfig\<close> returns\<close>

lemma ensure_defaults_keeps: "set srcs \<subseteq> set (ensure_defaults ds srcs)"
proof (induction ds arbitrary: srcs)
  case Nil
  then show ?case by simp
next
  case (Cons d ds)
  let ?srcs = "if find (\<lambda>s. id_src s = id_src d) srcs = None then srcs @ [d] else srcs"
  have "set srcs \<subseteq> set ?srcs" by auto
  also have "\<dots> \<subseteq> set (ensure_defaults ds ?srcs)" by (rule Cons.IH)
  finally show ?case by simp
qed

lemma ensure_defaults_has:
  "\<forall>d \<in> set ds. \<exists>s \<in> set (ensure_defaults ds srcs). id_src s = id_src d"
proof (induction ds arbitrary: srcs)
  case Nil
  then show ?case by simp
next
  case (Cons d ds)
  let ?srcs = "if find (\<lambda>s. id_src s = id_src d) srcs = None then srcs @ [d] else srcs"
  have "\<exists>s \<in> set ?srcs. id_src s = id_src d"
    by (auto simp: find_None_iff)
  then have "\<exists>s \<in> set (ensure_defaults ds ?srcs). id_src s = id_src d"
    using ensure_defaults_keeps[of ?srcs ds] by blast
  with Cons.IH[of ?srcs] show ?case by simp
qed

lemma defaults_not_deprecated: "\<forall>d \<in> set DEFAULT_MARKETPLACES. id_src d \<notin> set deprecatedIds"
  by (simp add: DEFAULT_MARKETPLACES_def deprecatedIds_def)

lemma existsSync_manifest: "config_file w \<noteq> Missing \<Longrightarrow> existsSync (CONFIG_FILE w) w"
  by (simp add: existsSync_def)

lemma loadConfig_cases:
  "loadConfig w =
     (case config_file w of
        Stored config \<Rightarrow>
          config\<lparr>sources := filter (\<lambda>s. id_src s \<notin> set deprecatedIds)
                               (ensure_defaults DEFAULT_MARKETPLACES (sources config))\<rparr>
      | _ \<Rightarrow> default_config w)"
  by (cases "config_file w")
     (simp_all add: loadConfig_def loadConfig_try_def Let_def existsSync_manifest)

lemma home_paths:
  "join ''/home/user'' ''.antigravity'' = ''/home/user/.antigravity''"
  "join ''/home/user/.antigravity'' ''skills'' = ''/home/user/.antigravity/skills''"
  "join ''/home/user/.antigravity'' ''marketplace.json''
     = ''/home/user/.antigravity/marketplace.json''"
  by code_simp+

text \<open>
  C5. Whatever the state of the manifest file, the config that \<open>loadConfig\<close> returns
  has a source with the id of every built-in default source and has no source whose
  id is on the deprecation list. When the file is missing or cannot be parsed (or
  parses to something whose \<open>sources\<close> is no array), the result is the default config:
  the built-in sources, no installed skill, the default install directory.
  \<open>loadConfig\<close> returns a config in every case: the \<open>catch\<close> block leaves no path
  on which it throws.
\<close>

theorem loadConfig_defaults_and_deprecated:
  "(\<forall>d \<in> set DEFAULT_MARKETPLACES. \<exists>s \<in> set (sources (loadConfig w)). id_src s = id_src d)
   \<and> (\<forall>s \<in> set (sources (loadConfig w)). id_src s \<notin> set deprecatedIds)
   \<and> (config_file w = Missing \<or> config_file w = Corrupt \<or> config_file w = IllShaped
        \<longrightarrow> sources (loadConfig w) = DEFAULT_MARKETPLACES
            \<and> installed (loadConfig w) = []
            \<and> installDir (loadConfig w) = DEFAULT_INSTALL_DIR w)"
proof (cases "config_file w")
  case (Stored config)
  have "\<forall>d \<in> set DEFAULT_MARKETPLACES.
          \<exists>s \<in> set (filter (\<lambda>s. id_src s \<notin> set deprecatedIds)
                        (ensure_defaults DEFAULT_MARKETPLACES (sources config))).
            id_src s = id_src d"
  proof
    fix d assume d: "d \<in> set DEFAULT_MARKETPLACES"
    then obtain s where "s \<in> set (ensure_defaults DEFAULT_MARKETPLACES (sources config))"
        "id_src s = id_src d"
      using ensure_defaults_has by blast
    moreover have "id_src d \<notin> set deprecatedIds" using d defaults_not_deprecated by blast
    ultimately show "\<exists>s \<in> set (filter (\<lambda>s. id_src s \<notin> set deprecatedIds)
                        (ensure_defaults DEFAULT_MARKETPLACES (sources config))).
            id_src s = id_src d"
      by auto
  qed
  then show ?thesis using Stored by (simp add: loadConfig_cases)
qed (use defaults_not_deprecated in \<open>auto simp: loadConfig_cases default_config_def\<close>)

theorem loadConfig_defaults_and_deprecated_witness:
  "map id_src (sources (loadConfig (fresh_world\<lparr>config_file :=
       Stored \<lparr>sources = [deprecated_source, community_source], installed = [],
               installDir = ''/opt/skills''\<rparr>\<rparr>)))
     = [''community'', ''anthropic-skills'']
   \<and> config_file fresh_world = Missing
   \<and> sources (loadConfig fresh_world) = DEFAULT_MARKETPLACES
   \<and> installed (loadConfig fresh_world) = []
   \<and> installDir (loadConfig fresh_world) = ''/home/user/.antigravity/skills''"
proof -
  have m: "config_file fresh_world = Missing" by (simp add: fresh_world_def)
  have d: "DEFAULT_INSTALL_DIR fresh_world = ''/home/user/.antigravity/skills''"
    by (simp add: DEFAULT_INSTALL_DIR_def CONFIG_DIR_def home_paths or_default_def fresh_world_def)
  have "map id_src (sources (loadConfig (fresh_world\<lparr>config_file :=
       Stored \<lparr>sources = [deprecated_source, community_source], installed = [],
               installDir = ''/opt/skills''\<rparr>\<rparr>)))
     = [''community'', ''anthropic-skills'']"
    by (simp add: loadConfig_cases DEFAULT_MARKETPLACES_def deprecatedIds_def
        deprecated_source_def community_source_def)
  then show ?thesis
    using loadConfig_defaults_and_deprecated[of fresh_world] m d by simp
qed

section \<open>C8: the failures of \<open>removeMarketplace\<close>\<close>

lemma findIndex_None: "findIndex P xs = None \<longleftrightarrow> \<not> (\<exists>x \<in> set xs. P x)"
  by (induction xs) auto

lemma findIndex_Some:
  "findIndex P xs = Some k \<Longrightarrow> k < length xs \<and> P (xs ! k) \<and> find P xs = Some (xs ! k)"
  by (induction xs arbitrary: k) (auto split: if_splits)

lemma find_findIndex: "find P xs = Some x \<Longrightarrow> \<exists>k. findIndex P xs = Some k \<and> xs ! k = x"
  by (induction xs) (auto split: if_splits)

text \<open>
  C8. \<open>removeMarketplace i\<close> fails with the not-found error when no registered source
  (no source of the loaded config) has the id \<open>i\<close>, and with the protected-source
  error when the source found for \<open>i\<close> is verified. In both cases the world it leaves
  is the world it found: nothing is written, so the next \<open>loadConfig\<close> reads the same
  manifest.
\<close>

theorem removeMarketplace_failures:
  "(\<not> (\<exists>s \<in> set (sources (loadConfig w)). id_src s = i)
      \<longrightarrow> removeMarketplace i w = (Inl (MarketplaceNotFound i), w))
   \<and> (\<forall>s. find (\<lambda>s. id_src s = i) (sources (loadConfig w)) = Some s \<and> verified s = Some True
      \<longrightarrow> removeMarketplace i w = (Inl (CannotRemoveVerified i), w))"
proof (intro conjI impI allI)
  assume "\<not> (\<exists>s \<in> set (sources (loadConfig w)). id_src s = i)"
  then have "findIndex (\<lambda>s. id_src s = i) (sources (loadConfig w)) = None"
    by (simp add: findIndex_None)
  then show "removeMarketplace i w = (Inl (MarketplaceNotFound i), w)"
    by (simp add: removeMarketplace_def)
next
  fix s
  assume "find (\<lambda>s. id_src s = i) (sources (loadConfig w)) = Some s \<and> verified s = Some True"
  then obtain k where "findIndex (\<lambda>s. id_src s = i) (sources (loadConfig w)) = Some k"
      "verified (sources (loadConfig w) ! k) = Some True"
    using find_findIndex by fastforce
  then show "removeMarketplace i w = (Inl (CannotRemoveVerified i), w)"
    by (simp add: removeMarketplace_def)
qed

theorem removeMarketplace_failures_witness:
  "\<not> (\<exists>s \<in> set (sources (loadConfig fresh_world)). id_src s = ''missing-source'')
   \<and> removeMarketplace ''missing-source'' fresh_world
        = (Inl (MarketplaceNotFound ''missing-source''), fresh_world)
   \<and> find (\<lambda>s. id_src s = ''anthropic-skills'') (sources (loadConfig fresh_world))
        = Some (hd DEFAULT_MARKETPLACES)
   \<and> verified (hd DEFAULT_MARKETPLACES) = Some True
   \<and> removeMarketplace ''anthropic-skills'' fresh_world
        = (Inl (CannotRemoveVerified ''anthropic-skills''), fresh_world)"
proof -
  have src: "sources (loadConfig fresh_world) = DEFAULT_MARKETPLACES"
    by (simp add: loadConfig_cases default_config_def fresh_world_def)
  have a: "\<not> (\<exists>s \<in> set (sources (loadConfig fresh_world)). id_src s = ''missing-source'')"
    by (simp add: src DEFAULT_MARKETPLACES_def)
  have b: "find (\<lambda>s. id_src s = ''anthropic-skills'') (sources (loadConfig fresh_world))
        = Some (hd DEFAULT_MARKETPLACES)"
    by (simp add: src DEFAULT_MARKETPLACES_def)
  have c: "verified (hd DEFAULT_MARKETPLACES) = Some True"
    by (simp add: DEFAULT_MARKETPLACES_def)
  show ?thesis
    using removeMarketplace_failures[of fresh_world "''missing-source''"]
      removeMarketplace_failures[of fresh_world "''anthropic-skills''"] a b c
    by blast
qed

section \<open>C3: \<open>hasUpdate\<close> in \<open>checkUpdates\<close>\<close>

lemma updates_loop_acc:
  "updates_loop net xs ups w
     = (ups @ fst (updates_loop net xs [] w), snd (updates_loop net xs [] w))"
proof (induction xs arbitrary: ups w)
  case Nil
  then show ?case by simp
next
  case (Cons inst xs)
  note IH = Cons.IH
  show ?case
  proof (cases "source_inst inst")
    case None
    then show ?thesis using IH[of ups w] by simp
  next
    case (Some src)
    obtain r w1 where f: "fetchSkillsFromSource net src w = (r, w1)" by (cases "fetchSkillsFromSource net src w")
    show ?thesis
    proof (cases r)
      case (Inl e)
      then show ?thesis using Some f IH[of ups w1] by simp
    next
      case (Inr remotes)
      show ?thesis
      proof (cases "find (\<lambda>s. name_skill s = name_inst inst) remotes")
        case None
        then show ?thesis using Some f Inr IH[of ups w1] by simp
      next
        case (Some remote)
        let ?e = "\<lparr>skill = inst, currentVersion = version_inst inst,
          latestVersion = version_skill remote,
          hasUpdate = (version_skill remote \<noteq> version_inst inst \<and> truthy (version_skill remote))\<rparr>"
        have "updates_loop net (inst # xs) ups w = updates_loop net xs (ups @ [?e]) w1"
          using \<open>source_inst inst = Some src\<close> f Inr Some by simp
        moreover have "updates_loop net (inst # xs) [] w = updates_loop net xs [?e] w1"
          using \<open>source_inst inst = Some src\<close> f Inr Some by simp
        ultimately show ?thesis
          using IH[of "ups @ [?e]" w1] IH[of "[?e]" w1] by simp
      qed
    qed
  qed
qed

lemma updates_loop_append:
  "updates_loop net (xs @ ys) ups w
     = (case updates_loop net xs ups w of (u1, w1) \<Rightarrow> updates_loop net ys u1 w1)"
  by (induction xs arbitrary: ups w) (simp_all split: option.splits prod.splits sum.splits)

text \<open>
  C3, as amended. Let \<open>inst\<close> be an installed skill of the manifest with a source, and
  let the listing of that source, fetched when the scan reaches \<open>inst\<close>, have a skill
  \<open>remote\<close> of the same name. Then \<open>checkUpdates\<close> reports, after the entries of the
  skills before \<open>inst\<close>, an entry for \<open>inst\<close> with the installed and the remote
  version, and its \<open>hasUpdate\<close> is true exactly when the remote version is a
  non-empty string different from the installed version. An undefined remote version
  gives \<open>hasUpdate = false\<close>.
\<close>

theorem checkUpdates_hasUpdate:
  assumes "installed (loadConfig w) = pre @ inst # post"
    and "updates_loop net pre [] w = (ups, w1)"
    and "source_inst inst = Some src"
    and "fetchSkillsFromSource net src w1 = (Inr remotes, w2)"
    and "find (\<lambda>s. name_skill s = name_inst inst) remotes = Some remote"
  shows "\<exists>more. fst (checkUpdates net w)
           = ups @ [\<lparr>skill = inst,
                     currentVersion = version_inst inst,
                     latestVersion = version_skill remote,
                     hasUpdate = (\<exists>v. version_skill remote = Some v \<and> v \<noteq> []
                                    \<and> version_skill remote \<noteq> version_inst inst)\<rparr>] @ more"
proof -
  let ?entry = "\<lparr>skill = inst, currentVersion = version_inst inst,
       latestVersion = version_skill remote,
       hasUpdate = (version_skill remote \<noteq> version_inst inst \<and> truthy (version_skill remote))\<rparr>"
  have t: "truthy (version_skill remote) = (\<exists>v. version_skill remote = Some v \<and> v \<noteq> [])"
    by (cases "version_skill remote") auto
  have "checkUpdates net w = updates_loop net (inst # post) ups w1"
    using assms(1,2) by (simp add: checkUpdates_def updates_loop_append)
  also have "\<dots> = updates_loop net post (ups @ [?entry]) w2"
    using assms(3,4,5) by simp
  also have "\<dots> = ((ups @ [?entry]) @ fst (updates_loop net post [] w2),
                     snd (updates_loop net post [] w2))"
    by (rule updates_loop_acc)
  finally have "fst (checkUpdates net w) = ups @ [?entry] @ fst (updates_loop net post [] w2)"
    by simp
  moreover have "hasUpdate ?entry = (\<exists>v. version_skill remote = Some v \<and> v \<noteq> []
                                    \<and> version_skill remote \<noteq> version_inst inst)"
    using t by auto
  ultimately show ?thesis by auto
qed

lemma pdf_fetch:
  "fst (fetchSkillsFromSource (index_network v) community_source pdf_world)
     = Inr [index_skill community_source (pdf_entry v)]"
  by (simp add: fetchSkillsFromSource_def fetch_uncached_def index_network_def offline_def
      pdf_world_def fresh_world_def community_source_def Let_def request_def)

lemma pdf_loaded: "installed (loadConfig pdf_world) = [] @ pdf_installed # []"
  by (simp add: loadConfig_cases pdf_world_def fresh_world_def)

lemma pdf_found:
  "find (\<lambda>s. name_skill s = name_inst pdf_installed) [index_skill community_source (pdf_entry v)]
     = Some (index_skill community_source (pdf_entry v))"
  by (simp add: index_skill_def pdf_entry_def pdf_installed_def)

theorem checkUpdates_hasUpdate_witness:
  "(\<exists>more. fst (checkUpdates (index_network (Some ''1.1'')) pdf_world)
      = [] @ [\<lparr>skill = pdf_installed, currentVersion = Some ''1.0'',
                latestVersion = Some ''1.1'', hasUpdate = True\<rparr>] @ more)
   \<and> (\<exists>more. fst (checkUpdates (index_network None) pdf_world)
      = [] @ [\<lparr>skill = pdf_installed, currentVersion = Some ''1.0'',
                latestVersion = None, hasUpdate = False\<rparr>] @ more)"
proof -
  have src: "source_inst pdf_installed = Some community_source"
    by (simp add: pdf_installed_def)
  have start: "updates_loop net [] [] pdf_world = ([], pdf_world)" for net by simp
  have fetched: "fetchSkillsFromSource (index_network v) community_source pdf_world
      = (Inr [index_skill community_source (pdf_entry v)],
         snd (fetchSkillsFromSource (index_network v) community_source pdf_world))" for v
    using pdf_fetch[of v] by (simp add: prod_eq_iff)
  have vi: "version_inst pdf_installed = Some ''1.0''" by (simp add: pdf_installed_def)
  have vs: "version_skill (index_skill community_source (pdf_entry v)) = v" for v
    by (simp add: index_skill_def pdf_entry_def)
  show ?thesis
    using checkUpdates_hasUpdate[OF pdf_loaded start[of "index_network (Some ''1.1'')"] src
        fetched[of "Some ''1.1''"] pdf_found[of "Some ''1.1''"]]
      checkUpdates_hasUpdate[OF pdf_loaded start[of "index_network None"] src
        fetched[of None] pdf_found[of None]]
    by (simp add: vi vs)
qed

text \<open>
  C3 as stated fails for a remote version that is the empty string: it is a defined
  string different from the installed \<open>1.0\<close>, and \<open>hasUpdate\<close> is false.
\<close>

theorem checkUpdates_empty_version_counterexample:
  "map (\<lambda>u. (currentVersion u, latestVersion u, hasUpdate u))
     (fst (checkUpdates (index_network (Some [])) pdf_world))
   = [(Some ''1.0'', Some [], False)]"
  by code_simp

section \<open>What listing the marketplaces leaves alone\<close>

lemma same_disk_refl: "same_disk w w"
  by (simp add: same_disk_def)

lemma same_disk_date_now: "same_disk w0 (snd (date_now w)) = same_disk w0 w"
  by (simp add: same_disk_def date_now_def)

lemma same_disk_request: "same_disk w0 (request url w) = same_disk w0 w"
  by (simp add: same_disk_def request_def)

lemma same_disk_console_warn: "same_disk w0 (console_warn l w) = same_disk w0 w"
  by (simp add: same_disk_def console_warn_def)

lemma same_disk_cache_set: "same_disk w0 (cache_set k v w) = same_disk w0 w"
  by (simp add: same_disk_def cache_set_def date_now_def)

lemmas same_disk_basic =
  same_disk_date_now same_disk_request same_disk_console_warn same_disk_cache_set

lemma same_disk_fetch_dir:
  "same_disk w0 (snd (fetch_dir net source b dir w)) = same_disk w0 w"
  by (simp add: fetch_dir_def Let_def same_disk_basic split: response.splits option.splits)

lemma same_disk_fetch_batch:
  "same_disk w0 (snd (fetch_batch net source b ds w)) = same_disk w0 w"
  by (induction ds arbitrary: w) (simp_all add: split_beta Let_def same_disk_fetch_dir)

lemma same_disk_fetch_batches:
  "same_disk w0 (snd (fetch_batches net source b ds acc w)) = same_disk w0 w"
proof (induction net source b ds acc w rule: fetch_batches.induct)
  case (1 net source b ds acc w)
  show ?case
  proof (cases "ds = []")
    case True
    then show ?thesis by (subst fetch_batches.simps) simp
  next
    case False
    then show ?thesis
      using "1.IH"[OF False prod.collapse refl]
      by (subst fetch_batches.simps) (simp add: split_beta same_disk_fetch_batch)
  qed
qed

lemma fetch_listing_result:
  obtains (failed) e u2 where
      "fetch_listing net source k b p w1 = (Inl e, request u2 w1)"
  | (listed) u2 ds where
      "fetch_listing net source k b p w1
        = (Inr (fst (fetch_batches net source b ds [] (request u2 w1))),
           cache_set k (fst (fetch_batches net source b ds [] (request u2 w1)))
             (snd (fetch_batches net source b ds [] (request u2 w1))))"
proof -
  let ?u2 = "''https://api.github.com/repos/'' @ owner source @ ''/''
                    @ repo source @ ''/contents/'' @ p @ ''?ref='' @ b"
  show ?thesis
  proof (cases "get_contents net ?u2")
    case (Ok contents)
    let ?ds = "filter (\<lambda>item. type_ci item = ''dir'') contents"
    have "fetch_listing net source k b p w1
        = (Inr (fst (fetch_batches net source b ?ds [] (request ?u2 w1))),
           cache_set k (fst (fetch_batches net source b ?ds [] (request ?u2 w1)))
             (snd (fetch_batches net source b ?ds [] (request ?u2 w1))))"
      using Ok by (simp add: fetch_listing_def Let_def split_beta)
    then show ?thesis by (rule listed)
  next
    case Rejected
    then have "fetch_listing net source k b p w1
        = (Inl (FailedToFetch (owner source) (repo source) FetchRejected), request ?u2 w1)"
      by (simp add: fetch_listing_def Let_def)
    then show ?thesis by (rule failed)
  next
    case (NotOk status)
    then have "fetch_listing net source k b p w1
        = (Inl (FailedToFetch (owner source) (repo source) (GitHubApiError status)),
           request ?u2 w1)"
      by (simp add: fetch_listing_def Let_def)
    then show ?thesis by (rule failed)
  next
    case (Malformed e)
    then have "fetch_listing net source k b p w1
        = (Inl (FailedToFetch (owner source) (repo source) e), request ?u2 w1)"
      by (simp add: fetch_listing_def Let_def)
    then show ?thesis by (rule failed)
  qed
qed

lemma fetch_uncached_result:
  obtains (index) u sk where
      "fetch_uncached net source k w = (Inr sk, cache_set k sk (request u w))"
  | (fallback) u b p where
      "fetch_uncached net source k w = fetch_listing net source k b p (request u w)"
proof -
  let ?b = "or_default (branch source) ''main''"
  let ?p = "or_default (skillsPath source) ''skills''"
  let ?u1 = "''https://raw.githubusercontent.com/'' @ owner source @ ''/''
            @ repo source @ ''/'' @ ?b @ ''/'' @ ?p @ ''/skills-index.json''"
  show ?thesis
  proof (cases "get_index net ?u1")
    case (Ok ix)
    then have "fetch_uncached net source k w
        = (Inr (map (index_skill source) ix),
           cache_set k (map (index_skill source) ix) (request ?u1 w))"
      by (simp add: fetch_uncached_def Let_def)
    then show ?thesis by (rule index)
  next
    case Rejected
    then have "fetch_uncached net source k w = fetch_listing net source k ?b ?p (request ?u1 w)"
      by (simp add: fetch_uncached_def Let_def)
    then show ?thesis by (rule fallback)
  next
    case (NotOk status)
    then have "fetch_uncached net source k w = fetch_listing net source k ?b ?p (request ?u1 w)"
      by (simp add: fetch_uncached_def Let_def)
    then show ?thesis by (rule fallback)
  next
    case (Malformed e)
    then have "fetch_uncached net source k w = fetch_listing net source k ?b ?p (request ?u1 w)"
      by (simp add: fetch_uncached_def Let_def)
    then show ?thesis by (rule fallback)
  qed
qed

lemma same_disk_fetch_listing:
  "same_disk w0 (snd (fetch_listing net source k b p w)) = same_disk w0 w"
  by (cases rule: fetch_listing_result[of net source k b p w])
     (simp_all add: same_disk_basic same_disk_fetch_batches)

lemma same_disk_fetch_uncached:
  "same_disk w0 (snd (fetch_uncached net source k w)) = same_disk w0 w"
  by (cases rule: fetch_uncached_result[of net source k w])
     (simp_all add: same_disk_basic same_disk_fetch_listing)

lemma same_disk_fetchSkillsFromSource:
  "same_disk w0 (snd (fetchSkillsFromSource net source w)) = same_disk w0 w"
proof (cases "skillsCache w (owner source @ ''/'' @ repo source)")
  case None
  then show ?thesis
    by (simp add: fetchSkillsFromSource_def same_disk_fetch_uncached)
next
  case (Some e)
  obtain sk ts where e: "e = (sk, ts)" by (cases e)
  show ?thesis
    using Some e
    by (simp add: fetchSkillsFromSource_def split_beta same_disk_fetch_uncached
        same_disk_date_now)
qed

lemma same_disk_list_loop:
  "same_disk w0 (snd (list_loop net srcs acc w)) = same_disk w0 w"
proof (induction srcs arbitrary: acc w)
  case Nil
  then show ?case by simp
next
  case (Cons src srcs)
  obtain r w1 where f: "fetchSkillsFromSource net src w = (r, w1)"
    by (cases "fetchSkillsFromSource net src w")
  have w1: "same_disk w0 w1 = same_disk w0 w"
    using same_disk_fetchSkillsFromSource[of w0 net src w] f by simp
  show ?case
    by (cases r) (simp_all add: f Cons.IH w1 same_disk_console_warn)
qed

lemma same_disk_listMarketplaceSkills:
  "same_disk w0 (snd (listMarketplaceSkills net sid w)) = same_disk w0 w"
  by (simp add: listMarketplaceSkills_def Let_def same_disk_list_loop)


lemma loadConfig_same:
  "config_file w' = config_file w \<Longrightarrow> env_HOME w' = env_HOME w \<Longrightarrow> loadConfig w' = loadConfig w"
  by (simp add: loadConfig_cases default_config_def DEFAULT_INSTALL_DIR_def CONFIG_DIR_def
      split: config_file.splits)

lemma loadConfig_Stored:
  "config_file w = Stored c \<Longrightarrow> installed (loadConfig w) = installed c
     \<and> installDir (loadConfig w) = installDir c"
  by (simp add: loadConfig_cases)

section \<open>The shape of a fetch\<close>

text \<open>
  What a listing answers does not depend on the world it runs in, and all it does to
  the world is to log its requests.
\<close>

lemma requests_nil: "w\<lparr>requests := requests w @ []\<rparr> = w"
  by simp

lemma fetch_dir_shape:
  obtains r u where "\<And>w. fetch_dir net source b dir w = (r, request u w)"
proof -
  let ?u = "''https://raw.githubusercontent.com/'' @ owner source @ ''/''
            @ repo source @ ''/'' @ b @ ''/'' @ path_ci dir @ ''/SKILL.md''"
  have "fetch_dir net source b dir w = (fst (fetch_dir net source b dir x), request ?u w)" for w x
    by (simp add: fetch_dir_def Let_def split: response.splits option.splits)
  then show ?thesis using that by blast
qed

lemma fetch_batch_shape:
  "\<exists>sk rs. \<forall>w. fetch_batch net source b ds w = (sk, w\<lparr>requests := requests w @ rs\<rparr>)"
proof (induction ds)
  case Nil
  have "\<forall>w. fetch_batch net source b [] w = ([], w\<lparr>requests := requests w @ []\<rparr>)"
    by simp
  then show ?case by blast
next
  case (Cons d ds)
  obtain r u where d: "\<And>w. fetch_dir net source b d w = (r, request u w)"
    using fetch_dir_shape[of net source b d] by blast
  from Cons.IH obtain sk rs where
    t: "\<And>w. fetch_batch net source b ds w = (sk, w\<lparr>requests := requests w @ rs\<rparr>)"
    by blast
  have "\<forall>w. fetch_batch net source b (d # ds) w
      = (case r of Some s \<Rightarrow> s # sk | None \<Rightarrow> sk, w\<lparr>requests := requests w @ (u # rs)\<rparr>)"
    by (simp add: d t request_def)
  then show ?case by blast
qed

lemma fetch_batches_shape:
  "\<exists>sk rs. \<forall>w. fetch_batches net source b ds acc w = (sk, w\<lparr>requests := requests w @ rs\<rparr>)"
proof (induction "length ds" arbitrary: ds acc rule: less_induct)
  case less
  show ?case
  proof (cases "ds = []")
    case True
    have "\<forall>w. fetch_batches net source b ds acc w = (acc, w\<lparr>requests := requests w @ []\<rparr>)"
      using True by (simp add: fetch_batches.simps)
    then show ?thesis by blast
  next
    case False
    obtain sk1 rs1 where
      h: "\<And>w. fetch_batch net source b (take BATCH_SIZE ds) w
              = (sk1, w\<lparr>requests := requests w @ rs1\<rparr>)"
      using fetch_batch_shape[of net source b "take BATCH_SIZE ds"] by blast
    have "length (drop BATCH_SIZE ds) < length ds"
      using False by (simp add: BATCH_SIZE_def)
    from less[OF this, of "acc @ sk1"] obtain sk2 rs2 where
      t: "\<And>w. fetch_batches net source b (drop BATCH_SIZE ds) (acc @ sk1) w
              = (sk2, w\<lparr>requests := requests w @ rs2\<rparr>)"
      by blast
    have "\<forall>w. fetch_batches net source b ds acc w = (sk2, w\<lparr>requests := requests w @ (rs1 @ rs2)\<rparr>)"
      using False by (subst fetch_batches.simps) (simp add: h t)
    then show ?thesis by blast
  qed
qed

lemma fetch_listing_shape:
  obtains (failed) e rs where
      "\<And>k w. fetch_listing net source k b p w = (Inl e, w\<lparr>requests := requests w @ rs\<rparr>)"
  | (listed) sk rs where
      "\<And>k w. fetch_listing net source k b p w
              = (Inr sk, cache_set k sk (w\<lparr>requests := requests w @ rs\<rparr>))"
proof -
  let ?u2 = "''https://api.github.com/repos/'' @ owner source @ ''/''
                    @ repo source @ ''/contents/'' @ p @ ''?ref='' @ b"
  show ?thesis
  proof (cases "get_contents net ?u2")
    case (Ok contents)
    obtain sk rs where
      t: "\<And>w. fetch_batches net source b (filter (\<lambda>item. type_ci item = ''dir'') contents) [] w
              = (sk, w\<lparr>requests := requests w @ rs\<rparr>)"
      using fetch_batches_shape[of net source b _ "[]"] by blast
    have "fetch_listing net source k b p w
        = (Inr sk, cache_set k sk (w\<lparr>requests := requests w @ (?u2 # rs)\<rparr>))" for k w
      using Ok by (simp add: fetch_listing_def Let_def t request_def)
    then show ?thesis by (rule listed)
  next
    case Rejected
    then have "fetch_listing net source k b p w
        = (Inl (FailedToFetch (owner source) (repo source) FetchRejected),
           w\<lparr>requests := requests w @ [?u2]\<rparr>)" for k w
      by (simp add: fetch_listing_def Let_def request_def)
    then show ?thesis by (rule failed)
  next
    case (NotOk status)
    then have "fetch_listing net source k b p w
        = (Inl (FailedToFetch (owner source) (repo source) (GitHubApiError status)),
           w\<lparr>requests := requests w @ [?u2]\<rparr>)" for k w
      by (simp add: fetch_listing_def Let_def request_def)
    then show ?thesis by (rule failed)
  next
    case (Malformed e)
    then have "fetch_listing net source k b p w
        = (Inl (FailedToFetch (owner source) (repo source) e),
           w\<lparr>requests := requests w @ [?u2]\<rparr>)" for k w
      by (simp add: fetch_listing_def Let_def request_def)
    then show ?thesis by (rule failed)
  qed
qed

lemma fetch_uncached_shape:
  obtains (failed) e rs where
      "\<And>k w. fetch_uncached net source k w = (Inl e, w\<lparr>requests := requests w @ rs\<rparr>)"
  | (fetched) sk rs where
      "\<And>k w. fetch_uncached net source k w
              = (Inr sk, cache_set k sk (w\<lparr>requests := requests w @ rs\<rparr>))"
proof -
  let ?b = "or_default (branch source) ''main''"
  let ?p = "or_default (skillsPath source) ''skills''"
  let ?u1 = "''https://raw.githubusercontent.com/'' @ owner source @ ''/''
            @ repo source @ ''/'' @ ?b @ ''/'' @ ?p @ ''/skills-index.json''"
  have fall: "fetch_uncached net source k w
        = fetch_listing net source k ?b ?p (w\<lparr>requests := requests w @ [?u1]\<rparr>)"
    if "\<And>ix. get_index net ?u1 \<noteq> Ok ix" for k w
    using that by (cases "get_index net ?u1") (simp_all add: fetch_uncached_def Let_def request_def)
  show ?thesis
  proof (cases "\<exists>ix. get_index net ?u1 = Ok ix")
    case True
    then obtain ix where "get_index net ?u1 = Ok ix" by blast
    then have "fetch_uncached net source k w
        = (Inr (map (index_skill source) ix),
           cache_set k (map (index_skill source) ix) (w\<lparr>requests := requests w @ [?u1]\<rparr>))" for k w
      by (simp add: fetch_uncached_def Let_def request_def)
    then show ?thesis by (rule fetched)
  next
    case False
    then have f: "fetch_uncached net source k w
        = fetch_listing net source k ?b ?p (w\<lparr>requests := requests w @ [?u1]\<rparr>)" for k w
      using fall by blast
    show ?thesis
    proof (cases rule: fetch_listing_shape[of net source ?b ?p])
      case (failed e rs)
      have "fetch_uncached net source k w = (Inl e, w\<lparr>requests := requests w @ (?u1 # rs)\<rparr>)" for k w
        by (simp add: f failed)
      then show ?thesis by (rule that(1))
    next
      case (listed sk rs)
      have "fetch_uncached net source k w
          = (Inr sk, cache_set k sk (w\<lparr>requests := requests w @ (?u1 # rs)\<rparr>))" for k w
        by (simp add: f listed)
      then show ?thesis by (rule that(2))
    qed
  qed
qed

lemma fetch_uncached_fst:
  "fst (fetch_uncached net source k w) = fst (fetch_uncached net source k' w')"
  by (cases rule: fetch_uncached_shape[of net source]) simp_all

lemma cache_set_fields:
  "skillsCache (cache_set k sk w) = (skillsCache w)(k \<mapsto> (sk, clock w (ticks w)))"
  "ticks (cache_set k sk w) = ticks w + 1"
  "clock (cache_set k sk w) = clock w"
  "requests (cache_set k sk w) = requests w"
  "config_file (cache_set k sk w) = config_file w"
  "env_HOME (cache_set k sk w) = env_HOME w"
  "cache (cache_set k sk w) = cache w"
  "dirs (cache_set k sk w) = dirs w"
  "files (cache_set k sk w) = files w"
  "cwd (cache_set k sk w) = cwd w"
  "os_tmpdir (cache_set k sk w) = os_tmpdir w"
  by (simp_all add: cache_set_def date_now_def)


section \<open>C4: the caches\<close>

lemma fetch_hit:
  assumes "skillsCache w (owner source @ ''/'' @ repo source) = Some (sk, ts)"
    and "clock w (ticks w) - ts < CACHE_TTL"
  shows "fetchSkillsFromSource net source w = (Inr sk, w\<lparr>ticks := ticks w + 1\<rparr>)"
  using assms by (simp add: fetchSkillsFromSource_def date_now_def)

lemma fetch_stale:
  assumes "skillsCache w (owner source @ ''/'' @ repo source) = Some (sk, ts)"
    and "\<not> clock w (ticks w) - ts < CACHE_TTL"
  shows "fetchSkillsFromSource net source w
    = fetch_uncached net source (owner source @ ''/'' @ repo source) (w\<lparr>ticks := ticks w + 1\<rparr>)"
  using assms by (simp add: fetchSkillsFromSource_def date_now_def)

lemma fetch_miss:
  assumes "skillsCache w (owner source @ ''/'' @ repo source) = None"
  shows "fetchSkillsFromSource net source w
    = fetch_uncached net source (owner source @ ''/'' @ repo source) w"
  using assms by (simp add: fetchSkillsFromSource_def)




























text \<open>
  A call of \<open>fetchSkillsMP\<close> that fails can leave an entry behind: the entry is written
  before \<open>data.pagination\<close> is read.
\<close>

lemma fetchSkillsMP_failure_cached:
  "\<exists>w1. fetchSkillsMP (offline\<lparr>get_skillsmp := (\<lambda>url. Ok (pdf_answer\<lparr>pagination_mp := None\<rparr>))\<rparr>)
            no_options fresh_world = (Inl TypeError, w1)
     \<and> cache w1 (mp_cacheKey no_options) \<noteq> None"
proof -
  obtain s p l sb where m: "mp_defaults no_options = (s, p, l, sb)"
    by (cases "mp_defaults no_options")
  show ?thesis
    by (simp add: fetchSkillsMP_def mp_uncached_def m Let_def offline_def
        fresh_world_def request_def date_now_def)
qed


section \<open>Paths and directories\<close>

text \<open>
  Resolving a path reads the working directory and nothing else, and the places of
  the manifest read the home directory and nothing else. No operation changes either.
\<close>

lemma resolve_same: "cwd w' = cwd w \<Longrightarrow> resolve w' p = resolve w p"
  by (simp add: resolve_def)



lemma CONFIG_FILE_same: "env_HOME w' = env_HOME w \<Longrightarrow> CONFIG_FILE w' = CONFIG_FILE w"
  by (simp add: CONFIG_FILE_def CONFIG_DIR_def)

lemma mkdir_fields:
  "cwd (mkdir p w) = cwd w" "env_HOME (mkdir p w) = env_HOME w"
  "os_tmpdir (mkdir p w) = os_tmpdir w" "config_file (mkdir p w) = config_file w"
  "files (mkdir p w) = files w" "dirs (mkdir p w) = dirs w \<union> made w p"
  "clock (mkdir p w) = clock w" "ticks (mkdir p w) = ticks w"
  by (simp_all add: mkdir_def)

lemma writeFile_fields:
  "cwd (writeFile p d w) = cwd w" "env_HOME (writeFile p d w) = env_HOME w"
  "os_tmpdir (writeFile p d w) = os_tmpdir w" "config_file (writeFile p d w) = config_file w"
  "files (writeFile p d w) = (files w)(resolve w p \<mapsto> d)" "dirs (writeFile p d w) = dirs w"
  "clock (writeFile p d w) = clock w" "ticks (writeFile p d w) = ticks w"
  by (simp_all add: writeFile_def)

lemma rm_fields:
  "cwd (rm p w) = cwd w" "env_HOME (rm p w) = env_HOME w"
  "os_tmpdir (rm p w) = os_tmpdir w"
  "config_file (rm p w)
     = (if prefix (resolve w p) (resolve w (CONFIG_FILE w)) then Missing else config_file w)"
  "files (rm p w) = (\<lambda>q. if prefix (resolve w p) q then None else files w q)"
  "dirs (rm p w) = {d \<in> dirs w. \<not> prefix (resolve w p) d}"
  "clock (rm p w) = clock w" "ticks (rm p w) = ticks w"
  by (simp_all add: rm_def Let_def)

lemma cp_tree_fields:
  "cwd (cp_tree t p w) = cwd w" "env_HOME (cp_tree t p w) = env_HOME w"
  "os_tmpdir (cp_tree t p w) = os_tmpdir w" "config_file (cp_tree t p w) = config_file w"
  "dirs (cp_tree t p w) = dirs w"
  "files (cp_tree t p w)
     = (case t of None \<Rightarrow> files w | Some d \<Rightarrow> (files w)(resolve w (join p ''SKILL.md'') \<mapsto> d))"
  "clock (cp_tree t p w) = clock w" "ticks (cp_tree t p w) = ticks w"
  by (simp_all add: cp_tree_def writeFile_def split: option.splits)

lemma saveConfig_fields:
  "config_file (saveConfig c w) = Stored c"
  "dirs (saveConfig c w) = dirs w \<union> made w (CONFIG_DIR w)"
  "files (saveConfig c w) = files w"
  "env_HOME (saveConfig c w) = env_HOME w" "cwd (saveConfig c w) = cwd w"
  "os_tmpdir (saveConfig c w) = os_tmpdir w"
  by (simp_all add: saveConfig_def mkdir_def)

lemma request_fields:
  "cwd (request u w) = cwd w" "env_HOME (request u w) = env_HOME w"
  "os_tmpdir (request u w) = os_tmpdir w" "config_file (request u w) = config_file w"
  "files (request u w) = files w" "dirs (request u w) = dirs w"
  "clock (request u w) = clock w" "ticks (request u w) = ticks w"
  "skillsCache (request u w) = skillsCache w"
  by (simp_all add: request_def)

lemma resolve_ops:
  "resolve (mkdir q w) p = resolve w p" "resolve (rm q w) p = resolve w p"
  "resolve (writeFile q d w) p = resolve w p" "resolve (cp_tree t q w) p = resolve w p"
  "resolve (saveConfig c w) p = resolve w p" "resolve (w\<lparr>ticks := n\<rparr>) p = resolve w p"
  "resolve (w\<lparr>config_file := cf\<rparr>) p = resolve w p" "resolve (request u w) p = resolve w p"
  "resolve (console_warn l w) p = resolve w p" "resolve (cache_set k sk w) p = resolve w p"
  by (simp_all add: resolve_def mkdir_fields rm_fields writeFile_fields cp_tree_fields
      saveConfig_fields request_def console_warn_def cache_set_def date_now_def)

lemma made_ops:
  "made (mkdir q w) p = made w p" "made (rm q w) p = made w p"
  "made (writeFile q d w) p = made w p" "made (cp_tree t q w) p = made w p"
  "made (saveConfig c w) p = made w p" "made (w\<lparr>ticks := n\<rparr>) p = made w p"
  "made (w\<lparr>config_file := cf\<rparr>) p = made w p" "made (request u w) p = made w p"
  "made (console_warn l w) p = made w p" "made (cache_set k sk w) p = made w p"
  by (simp_all add: made_def mkdir_fields rm_fields writeFile_fields cp_tree_fields
      saveConfig_fields request_def console_warn_def cache_set_def date_now_def)

lemma CONFIG_ops:
  "CONFIG_DIR (mkdir q w) = CONFIG_DIR w" "CONFIG_DIR (rm q w) = CONFIG_DIR w"
  "CONFIG_DIR (writeFile q d w) = CONFIG_DIR w" "CONFIG_DIR (cp_tree t q w) = CONFIG_DIR w"
  "CONFIG_DIR (saveConfig c w) = CONFIG_DIR w" "CONFIG_DIR (w\<lparr>ticks := n\<rparr>) = CONFIG_DIR w"
  "CONFIG_DIR (w\<lparr>config_file := cf\<rparr>) = CONFIG_DIR w"
  "CONFIG_FILE (mkdir q w) = CONFIG_FILE w" "CONFIG_FILE (rm q w) = CONFIG_FILE w"
  "CONFIG_FILE (writeFile q d w) = CONFIG_FILE w" "CONFIG_FILE (cp_tree t q w) = CONFIG_FILE w"
  "CONFIG_FILE (saveConfig c w) = CONFIG_FILE w" "CONFIG_FILE (w\<lparr>ticks := n\<rparr>) = CONFIG_FILE w"
  "CONFIG_FILE (w\<lparr>config_file := cf\<rparr>) = CONFIG_FILE w"
  "CONFIG_DIR (request u w) = CONFIG_DIR w" "CONFIG_FILE (request u w) = CONFIG_FILE w"
  "CONFIG_DIR (cache_set k sk w) = CONFIG_DIR w" "CONFIG_FILE (cache_set k sk w) = CONFIG_FILE w"
  by (simp_all add: CONFIG_FILE_def CONFIG_DIR_def mkdir_fields rm_fields writeFile_fields
      cp_tree_fields saveConfig_fields request_fields cache_set_fields)

lemma visited_nonempty: "visited st ss \<noteq> []"
  by (cases ss) simp_all

lemma visited_last: "last (visited st ss) = foldl (step False) st ss"
  by (induction ss arbitrary: st) (simp_all add: visited_nonempty)

lemma resolve_made: "resolve w p \<in> made w p"
proof -
  let ?st = "if absolute p then [] else walk [] (cwd w)"
  have "last (visited ?st (segments p)) \<in> set (visited ?st (segments p))"
    by (rule last_in_set) (rule visited_nonempty)
  then have "resolve w p \<in> set (visited ?st (segments p))"
    by (simp add: visited_last resolve_def walk_def)
  then show ?thesis
    unfolding made_def by (auto intro!: bexI[of _ "resolve w p"])
qed



lemma existsSync_same:
  assumes "cwd w' = cwd w" "env_HOME w' = env_HOME w" "dirs w' = dirs w" "files w' = files w"
    "config_file w' = config_file w"
  shows "existsSync p w' = existsSync p w"
  using assms resolve_same[OF assms(1)] CONFIG_FILE_same[OF assms(2)]
  by (simp add: existsSync_def is_dir_def)

lemma existsSync_rm:
  "resolve w p \<noteq> [] \<Longrightarrow> \<not> existsSync p (rm p w)"
  by (simp add: existsSync_def is_dir_def Let_def rm_fields resolve_ops CONFIG_ops)

lemma existsSync_mkdir: "existsSync p (mkdir p w)"
  by (simp add: existsSync_def is_dir_def Let_def mkdir_fields resolve_ops resolve_made)

text \<open>The paths of the example machines.\<close>

lemma home_resolved:
  "resolve w ''/home/user/.antigravity'' = [''home'', ''user'', ''.antigravity'']"
  "resolve w ''/home/user/.antigravity/marketplace.json''
     = [''home'', ''user'', ''.antigravity'', ''marketplace.json'']"
  "resolve w ''/home/user/.antigravity/skills''
     = [''home'', ''user'', ''.antigravity'', ''skills'']"
  "resolve w ''/home/user/.antigravity/skills/notes''
     = [''home'', ''user'', ''.antigravity'', ''skills'', ''notes'']"
  "resolve w ''/home/user/.antigravity/skills/notes/SKILL.md''
     = [''home'', ''user'', ''.antigravity'', ''skills'', ''notes'', ''SKILL.md'']"
  "resolve w ''/home/user/.antigravity/skills/pdf''
     = [''home'', ''user'', ''.antigravity'', ''skills'', ''pdf'']"
  "resolve w ''/home/user/.antigravity/SKILL.md''
     = [''home'', ''user'', ''.antigravity'', ''SKILL.md'']"
proof -
  have a: "absolute ''/home/user/.antigravity''"
    "absolute ''/home/user/.antigravity/marketplace.json''"
    "absolute ''/home/user/.antigravity/skills''"
    "absolute ''/home/user/.antigravity/skills/notes''"
    "absolute ''/home/user/.antigravity/skills/notes/SKILL.md''"
    "absolute ''/home/user/.antigravity/skills/pdf''"
    "absolute ''/home/user/.antigravity/SKILL.md''"
    by (simp_all add: absolute_def)
  have b: "walk [] ''/home/user/.antigravity'' = [''home'', ''user'', ''.antigravity'']"
    "walk [] ''/home/user/.antigravity/marketplace.json''
       = [''home'', ''user'', ''.antigravity'', ''marketplace.json'']"
    "walk [] ''/home/user/.antigravity/skills'' = [''home'', ''user'', ''.antigravity'', ''skills'']"
    "walk [] ''/home/user/.antigravity/skills/notes''
       = [''home'', ''user'', ''.antigravity'', ''skills'', ''notes'']"
    "walk [] ''/home/user/.antigravity/skills/notes/SKILL.md''
       = [''home'', ''user'', ''.antigravity'', ''skills'', ''notes'', ''SKILL.md'']"
    "walk [] ''/home/user/.antigravity/skills/pdf''
       = [''home'', ''user'', ''.antigravity'', ''skills'', ''pdf'']"
    "walk [] ''/home/user/.antigravity/SKILL.md''
       = [''home'', ''user'', ''.antigravity'', ''SKILL.md'']"
    by code_simp+
  show "resolve w ''/home/user/.antigravity'' = [''home'', ''user'', ''.antigravity'']"
    "resolve w ''/home/user/.antigravity/marketplace.json''
       = [''home'', ''user'', ''.antigravity'', ''marketplace.json'']"
    "resolve w ''/home/user/.antigravity/skills''
       = [''home'', ''user'', ''.antigravity'', ''skills'']"
    "resolve w ''/home/user/.antigravity/skills/notes''
       = [''home'', ''user'', ''.antigravity'', ''skills'', ''notes'']"
    "resolve w ''/home/user/.antigravity/skills/notes/SKILL.md''
       = [''home'', ''user'', ''.antigravity'', ''skills'', ''notes'', ''SKILL.md'']"
    "resolve w ''/home/user/.antigravity/skills/pdf''
       = [''home'', ''user'', ''.antigravity'', ''skills'', ''pdf'']"
    "resolve w ''/home/user/.antigravity/SKILL.md''
       = [''home'', ''user'', ''.antigravity'', ''SKILL.md'']"
    unfolding resolve_def using a b by simp_all
qed

section \<open>The steps of \<open>installSkill\<close>\<close>




lemma installSkill_forward:
  assumes "find (\<lambda>s. name_skill s = n) (fst (listMarketplaceSkills net sid w)) = Some sk"
    and "find (\<lambda>i. name_inst i = n) (installed (loadConfig w)) = None"
    and "downloadSkill net sk (join (installDir (loadConfig w)) n)
           (mkdir (installDir (loadConfig w)) (snd (listMarketplaceSkills net sid w))) = (Inr (), w3)"
  shows "installSkill net n sid w
           = validate_installed (loadConfig w) n (join (installDir (loadConfig w)) n) sk w3"
proof -
  obtain all' w1 where l: "listMarketplaceSkills net sid w = (all', w1)"
    by (cases "listMarketplaceSkills net sid w")
  with assms have f: "find (\<lambda>s. name_skill s = n) all' = Some sk"
    and d: "downloadSkill net sk (join (installDir (loadConfig w)) n)
              (mkdir (installDir (loadConfig w)) w1) = (Inr (), w3)"
    by simp_all
  show ?thesis
    by (simp add: installSkill_def Let_def l f assms(2) d)
qed

lemma downloadSkill_checkout:
  assumes "git net (''https://github.com/'' @ owner (source_skill sk) @ ''/''
             @ repo (source_skill sk) @ ''.git'')
             (or_default (branch (source_skill sk)) ''main'') (path_skill sk) = Checkout (Some tree)"
  shows "downloadSkill net sk dest w =
     (Inr (), rm (join (os_tmpdir w) (''skill-'' @ show_int (clock w (ticks w))))
               (cp_tree tree dest
                 (mkdir dest
                   (mkdir (join (os_tmpdir w) (''skill-'' @ show_int (clock w (ticks w))))
                     (w\<lparr>ticks := ticks w + 1\<rparr>)))))"
  using assms by (simp add: downloadSkill_def Let_def date_now_def mkdir_fields)




text \<open>
  The world after a download that checks out a tree, field by field: \<open>T\<close> is where the
  temporary directory is.
\<close>

lemma downloadSkill_world:
  assumes "git net (''https://github.com/'' @ owner (source_skill sk) @ ''/''
             @ repo (source_skill sk) @ ''.git'')
             (or_default (branch (source_skill sk)) ''main'') (path_skill sk) = Checkout (Some tree)"
    and "tmp = join (os_tmpdir w) (''skill-'' @ show_int (clock w (ticks w)))"
    and "T = resolve w tmp"
  shows "fst (downloadSkill net sk dest w) = Inr ()"
    and "cwd (snd (downloadSkill net sk dest w)) = cwd w"
    and "env_HOME (snd (downloadSkill net sk dest w)) = env_HOME w"
    and "os_tmpdir (snd (downloadSkill net sk dest w)) = os_tmpdir w"
    and "clock (snd (downloadSkill net sk dest w)) = clock w"
    and "ticks (snd (downloadSkill net sk dest w)) = ticks w + 1"
    and "dirs (snd (downloadSkill net sk dest w))
          = {d \<in> dirs w \<union> made w tmp \<union> made w dest. \<not> prefix T d}"
    and "files (snd (downloadSkill net sk dest w))
          = (\<lambda>q. if prefix T q then None
                 else case tree of
                        None \<Rightarrow> files w q
                      | Some d \<Rightarrow> ((files w)(resolve w (join dest ''SKILL.md'') \<mapsto> d)) q)"
    and "config_file (snd (downloadSkill net sk dest w))
          = (if prefix T (resolve w (CONFIG_FILE w)) then Missing else config_file w)"
proof -
  let ?w1 = "w\<lparr>ticks := ticks w + 1\<rparr>"
  let ?w2 = "mkdir tmp ?w1"
  let ?w3 = "mkdir dest ?w2"
  let ?w4 = "cp_tree tree dest ?w3"
  have run: "downloadSkill net sk dest w = (Inr (), rm tmp ?w4)"
    using assms(1) unfolding assms(2) by (rule downloadSkill_checkout)
  show "fst (downloadSkill net sk dest w) = Inr ()" by (simp add: run)
  show "cwd (snd (downloadSkill net sk dest w)) = cwd w"
    "env_HOME (snd (downloadSkill net sk dest w)) = env_HOME w"
    "os_tmpdir (snd (downloadSkill net sk dest w)) = os_tmpdir w"
    "clock (snd (downloadSkill net sk dest w)) = clock w"
    "ticks (snd (downloadSkill net sk dest w)) = ticks w + 1"
    by (simp_all add: run rm_fields cp_tree_fields mkdir_fields)
  show "dirs (snd (downloadSkill net sk dest w))
          = {d \<in> dirs w \<union> made w tmp \<union> made w dest. \<not> prefix T d}"
    by (simp add: run rm_fields cp_tree_fields mkdir_fields resolve_ops made_ops assms(3))
  show "files (snd (downloadSkill net sk dest w))
          = (\<lambda>q. if prefix T q then None
                 else case tree of
                        None \<Rightarrow> files w q
                      | Some d \<Rightarrow> ((files w)(resolve w (join dest ''SKILL.md'') \<mapsto> d)) q)"
  proof (rule ext)
    fix q
    show "files (snd (downloadSkill net sk dest w)) q
          = (if prefix T q then None
             else case tree of
                    None \<Rightarrow> files w q
                  | Some d \<Rightarrow> ((files w)(resolve w (join dest ''SKILL.md'') \<mapsto> d)) q)"
      by (cases "prefix T q"; cases tree)
         (simp_all add: run rm_fields cp_tree_fields mkdir_fields resolve_ops assms(3))
  qed
  show "config_file (snd (downloadSkill net sk dest w))
          = (if prefix T (resolve w (CONFIG_FILE w)) then Missing else config_file w)"
    by (simp add: run rm_fields cp_tree_fields mkdir_fields resolve_ops CONFIG_ops assms(3))
qed


text \<open>
  A path whose names are all proper names (neither \<open>.\<close> nor \<open>..\<close>) resolves to its
  names, and \<open>mkdir\<close> makes the directories of its prefixes.
\<close>

lemma foldl_step_plain:
  "\<forall>s \<in> set ss. s \<noteq> ''.'' \<and> s \<noteq> ''..'' \<Longrightarrow> foldl (step a) st ss = st @ ss"
  by (induction ss arbitrary: st) (simp_all add: step_def)

lemma visited_plain:
  "\<forall>s \<in> set ss. s \<noteq> ''.'' \<and> s \<noteq> ''..'' \<Longrightarrow> visited st ss = map ((@) st) (prefixes ss)"
proof (induction ss arbitrary: st)
  case Nil
  then show ?case by simp
next
  case (Cons s ss)
  then have "step False st s = st @ [s]" by (simp add: step_def)
  with Cons show ?case by (simp add: comp_def)
qed

lemma plain_path:
  assumes "absolute p" and "\<forall>s \<in> set (segments p). s \<noteq> ''.'' \<and> s \<noteq> ''..''"
  shows "resolve w p = segments p" and "made w p = set (prefixes (segments p))"
proof -
  show "resolve w p = segments p"
    using assms by (simp add: resolve_def walk_def foldl_step_plain)
  have "made w p = (\<Union>v \<in> set (prefixes (segments p)). set (prefixes v))"
    using assms by (simp add: made_def visited_plain)
  also have "\<dots> = set (prefixes (segments p))"
    by (auto simp: in_set_prefixes dest: prefix_order.trans)
  finally show "made w p = set (prefixes (segments p))" .
qed

section \<open>An install from an index, step by step\<close>

lemma listing_one:
  assumes "(if truthy sid then filter (\<lambda>s. id_src s = the sid) (sources (loadConfig w))
            else sources (loadConfig w)) = [src]"
    and "skillsCache w (owner src @ ''/'' @ repo src) = None"
    and "get_index net (''https://raw.githubusercontent.com/'' @ owner src @ ''/''
             @ repo src @ ''/'' @ or_default (branch src) ''main'' @ ''/''
             @ or_default (skillsPath src) ''skills'' @ ''/skills-index.json'') = Ok ix"
  shows "listMarketplaceSkills net sid w
     = (map (index_skill src) ix,
        cache_set (owner src @ ''/'' @ repo src) (map (index_skill src) ix)
          (request (''https://raw.githubusercontent.com/'' @ owner src @ ''/''
             @ repo src @ ''/'' @ or_default (branch src) ''main'' @ ''/''
             @ or_default (skillsPath src) ''skills'' @ ''/skills-index.json'') w))"
proof -
  have "fetchSkillsFromSource net src w
     = (Inr (map (index_skill src) ix),
        cache_set (owner src @ ''/'' @ repo src) (map (index_skill src) ix)
          (request (''https://raw.githubusercontent.com/'' @ owner src @ ''/''
             @ repo src @ ''/'' @ or_default (branch src) ''main'' @ ''/''
             @ or_default (skillsPath src) ''skills'' @ ''/skills-index.json'') w))"
    using assms(2,3) by (simp add: fetchSkillsFromSource_def fetch_uncached_def Let_def)
  then show ?thesis
    using assms(1) by (simp add: listMarketplaceSkills_def Let_def)
qed

lemma install_run:
  assumes "(if truthy sid then filter (\<lambda>s. id_src s = the sid) (sources (loadConfig w))
            else sources (loadConfig w)) = [src]"
    and "skillsCache w (owner src @ ''/'' @ repo src) = None"
    and "get_index net (''https://raw.githubusercontent.com/'' @ owner src @ ''/''
             @ repo src @ ''/'' @ or_default (branch src) ''main'' @ ''/''
             @ or_default (skillsPath src) ''skills'' @ ''/skills-index.json'') = Ok ix"
    and "find (\<lambda>s. name_skill s = n) (map (index_skill src) ix) = Some sk"
    and "find (\<lambda>i. name_inst i = n) (installed (loadConfig w)) = None"
    and "git net (''https://github.com/'' @ owner (source_skill sk) @ ''/''
             @ repo (source_skill sk) @ ''.git'')
             (or_default (branch (source_skill sk)) ''main'') (path_skill sk) = Checkout (Some tree)"
    and "tmp = join (os_tmpdir w) (''skill-'' @ show_int (clock w (ticks w + 1)))"
    and "ip = join (installDir (loadConfig w)) n"
  obtains w3 where
    "find (\<lambda>s. name_skill s = n) (fst (listMarketplaceSkills net sid w)) = Some sk"
    "downloadSkill net sk ip
       (mkdir (installDir (loadConfig w)) (snd (listMarketplaceSkills net sid w))) = (Inr (), w3)"
    "installSkill net n sid w = validate_installed (loadConfig w) n ip sk w3"
    "cwd w3 = cwd w" "env_HOME w3 = env_HOME w" "clock w3 = clock w" "ticks w3 = ticks w + 2"
    "dirs w3 = {d \<in> dirs w \<union> made w (installDir (loadConfig w)) \<union> made w tmp \<union> made w ip.
                 \<not> prefix (resolve w tmp) d}"
    "files w3 = (\<lambda>q. if prefix (resolve w tmp) q then None
                     else case tree of
                            None \<Rightarrow> files w q
                          | Some d \<Rightarrow> ((files w)(resolve w (join ip ''SKILL.md'') \<mapsto> d)) q)"
    "config_file w3 = (if prefix (resolve w tmp) (resolve w (CONFIG_FILE w)) then Missing
                       else config_file w)"
proof -
  let ?u = "''https://raw.githubusercontent.com/'' @ owner src @ ''/''
             @ repo src @ ''/'' @ or_default (branch src) ''main'' @ ''/''
             @ or_default (skillsPath src) ''skills'' @ ''/skills-index.json''"
  let ?w1 = "cache_set (owner src @ ''/'' @ repo src) (map (index_skill src) ix) (request ?u w)"
  let ?w2 = "mkdir (installDir (loadConfig w)) ?w1"
  let ?w3 = "snd (downloadSkill net sk ip ?w2)"
  have l: "listMarketplaceSkills net sid w = (map (index_skill src) ix, ?w1)"
    using assms(1,2,3) by (rule listing_one)
  have w2: "cwd ?w2 = cwd w" "env_HOME ?w2 = env_HOME w" "os_tmpdir ?w2 = os_tmpdir w"
    "clock ?w2 = clock w" "ticks ?w2 = ticks w + 1"
    "dirs ?w2 = dirs w \<union> made w (installDir (loadConfig w))" "files ?w2 = files w"
    "config_file ?w2 = config_file w"
    by (simp_all add: mkdir_fields made_ops cache_set_fields request_fields)
  have t: "tmp = join (os_tmpdir ?w2) (''skill-'' @ show_int (clock ?w2 (ticks ?w2)))"
    using assms(7) w2 by simp
  note d = downloadSkill_world[OF assms(6) t refl, of ip]
  have r: "resolve ?w2 p = resolve w p" "made ?w2 p = made w p" for p
    by (simp_all add: resolve_ops made_ops)
  have cf: "CONFIG_FILE ?w2 = CONFIG_FILE w"
    by (simp add: CONFIG_ops)
  have down: "downloadSkill net sk ip ?w2 = (Inr (), ?w3)"
    using d(1) by (metis prod.collapse)
  have f: "find (\<lambda>s. name_skill s = n) (fst (listMarketplaceSkills net sid w)) = Some sk"
    using assms(4) by (simp add: l)
  have down': "downloadSkill net sk (join (installDir (loadConfig w)) n)
       (mkdir (installDir (loadConfig w)) (snd (listMarketplaceSkills net sid w))) = (Inr (), ?w3)"
    using down by (simp add: l assms(8))
  have run: "installSkill net n sid w = validate_installed (loadConfig w) n ip sk ?w3"
    using installSkill_forward[OF f assms(5) down'] by (simp add: assms(8))
  show ?thesis
  proof (rule that[of ?w3])
    show "find (\<lambda>s. name_skill s = n) (fst (listMarketplaceSkills net sid w)) = Some sk"
      by (rule f)
    show "downloadSkill net sk ip
       (mkdir (installDir (loadConfig w)) (snd (listMarketplaceSkills net sid w))) = (Inr (), ?w3)"
      using down by (simp add: l)
    show "installSkill net n sid w = validate_installed (loadConfig w) n ip sk ?w3"
      by (rule run)
    show "cwd ?w3 = cwd w" "env_HOME ?w3 = env_HOME w" "clock ?w3 = clock w"
      "ticks ?w3 = ticks w + 2"
      using d(2,3,5,6) w2 by simp_all
    show "dirs ?w3 = {d \<in> dirs w \<union> made w (installDir (loadConfig w)) \<union> made w tmp \<union> made w ip.
                 \<not> prefix (resolve w tmp) d}"
      unfolding d(7) r w2(6) by simp
    show "files ?w3 = (\<lambda>q. if prefix (resolve w tmp) q then None
                     else case tree of
                            None \<Rightarrow> files w q
                          | Some d \<Rightarrow> ((files w)(resolve w (join ip ''SKILL.md'') \<mapsto> d)) q)"
      unfolding d(8) r w2(7) by simp
    show "config_file ?w3 = (if prefix (resolve w tmp) (resolve w (CONFIG_FILE w)) then Missing
                       else config_file w)"
      unfolding d(9) r w2(8) cf by simp
  qed
qed

section \<open>The example skill, installed\<close>

lemma example_config:
  "sources (loadConfig (example_world dir)) = [community_source, hd DEFAULT_MARKETPLACES]"
  "installed (loadConfig (example_world dir)) = []"
  "installDir (loadConfig (example_world dir)) = dir"
  "CONFIG_DIR (example_world dir) = ''/home/user/.antigravity''"
  "CONFIG_FILE (example_world dir) = ''/home/user/.antigravity/marketplace.json''"
  by (simp_all add: loadConfig_cases example_world_def fresh_world_def CONFIG_DIR_def
      CONFIG_FILE_def or_default_def home_paths DEFAULT_MARKETPLACES_def deprecatedIds_def
      community_source_def)

lemma example_fields:
  "skillsCache (example_world dir) = Map.empty"
  "dirs (example_world dir)
     = {[''home''], [''home'', ''user''], [''tmp''], [''work''],
        [''home'', ''user'', ''.antigravity'']}"
  "files (example_world dir) = Map.empty" "os_tmpdir (example_world dir) = ''/tmp''"
  "env_HOME (example_world dir) = Some ''/home/user''"
  "clock (example_world dir) n = 1000 * int n" "ticks (example_world dir) = 0"
  "cwd (example_world dir) = ''/work''"
  "config_file (example_world dir)
     = Stored \<lparr>sources = [community_source], installed = [], installDir = dir\<rparr>"
  by (auto simp: example_world_def fresh_world_def)

lemma example_paths:
  "join ''/home/user/.antigravity/skills'' ''notes'' = ''/home/user/.antigravity/skills/notes''"
  "join ''/home/user/.antigravity/skills/notes'' ''SKILL.md''
     = ''/home/user/.antigravity/skills/notes/SKILL.md''"
  "show_int 1000 = ''1000''"
  "join ''/tmp'' ''skill-1000'' = ''/tmp/skill-1000''"
  "segments ''/tmp/skill-1000'' = [''tmp'', ''skill-1000'']"
  "segments ''/home/user/.antigravity/skills'' = [''home'', ''user'', ''.antigravity'', ''skills'']"
  "segments ''/home/user/.antigravity/skills/notes''
     = [''home'', ''user'', ''.antigravity'', ''skills'', ''notes'']"
  "segments ''/home/user/.antigravity'' = [''home'', ''user'', ''.antigravity'']"
  by code_simp+

lemma example_made:
  "resolve w ''/tmp/skill-1000'' = [''tmp'', ''skill-1000'']"
  "made w ''/tmp/skill-1000'' = set (prefixes [''tmp'', ''skill-1000''])"
  "made w ''/home/user/.antigravity/skills''
     = set (prefixes [''home'', ''user'', ''.antigravity'', ''skills''])"
  "made w ''/home/user/.antigravity/skills/notes''
     = set (prefixes [''home'', ''user'', ''.antigravity'', ''skills'', ''notes''])"
  "made w ''/home/user/.antigravity'' = set (prefixes [''home'', ''user'', ''.antigravity''])"
proof -
  have a: "absolute ''/tmp/skill-1000''" "absolute ''/home/user/.antigravity/skills''"
    "absolute ''/home/user/.antigravity/skills/notes''" "absolute ''/home/user/.antigravity''"
    by (simp_all add: absolute_def)
  show "resolve w ''/tmp/skill-1000'' = [''tmp'', ''skill-1000'']"
    using plain_path(1)[OF a(1), of w] by (simp add: example_paths)
  show "made w ''/tmp/skill-1000'' = set (prefixes [''tmp'', ''skill-1000''])"
    using plain_path(2)[OF a(1), of w] by (simp add: example_paths)
  show "made w ''/home/user/.antigravity/skills''
     = set (prefixes [''home'', ''user'', ''.antigravity'', ''skills''])"
    using plain_path(2)[OF a(2), of w] by (simp add: example_paths)
  show "made w ''/home/user/.antigravity/skills/notes''
     = set (prefixes [''home'', ''user'', ''.antigravity'', ''skills'', ''notes''])"
    using plain_path(2)[OF a(3), of w] by (simp add: example_paths)
  show "made w ''/home/user/.antigravity'' = set (prefixes [''home'', ''user'', ''.antigravity''])"
    using plain_path(2)[OF a(4), of w] by (simp add: example_paths)
qed

text \<open>
  \<open>installSkill\<close> of the skill \<open>notes\<close> into \<open>/home/user/.antigravity/skills\<close>, up to
  the validation: the install directory is there, its \<open>SKILL.md\<close> is what the
  checked-out tree has, and the manifest is untouched.
\<close>

lemma notes_install:
  obtains w3 where
    "find (\<lambda>s. name_skill s = ''notes'')
       (fst (listMarketplaceSkills (example_network ''notes'' doc) (Some ''community'')
              (example_world ''/home/user/.antigravity/skills'')))
      = Some (index_skill community_source (example_entry ''notes''))"
    "downloadSkill (example_network ''notes'' doc)
       (index_skill community_source (example_entry ''notes''))
       ''/home/user/.antigravity/skills/notes''
       (mkdir ''/home/user/.antigravity/skills''
         (snd (listMarketplaceSkills (example_network ''notes'' doc) (Some ''community'')
                (example_world ''/home/user/.antigravity/skills'')))) = (Inr (), w3)"
    "installSkill (example_network ''notes'' doc) ''notes'' (Some ''community'')
            (example_world ''/home/user/.antigravity/skills'')
      = validate_installed (loadConfig (example_world ''/home/user/.antigravity/skills''))
          ''notes'' ''/home/user/.antigravity/skills/notes''
          (index_skill community_source (example_entry ''notes'')) w3"
    "existsSync ''/home/user/.antigravity/skills/notes'' w3"
    "files w3 [''home'', ''user'', ''.antigravity'', ''skills'', ''notes'', ''SKILL.md''] = doc"
    "[''home'', ''user'', ''.antigravity'', ''skills'', ''notes'', ''SKILL.md''] \<notin> dirs w3"
    "config_file w3 = config_file (example_world ''/home/user/.antigravity/skills'')"
    "env_HOME w3 = Some ''/home/user''" "cwd w3 = ''/work''"
proof -
  let ?D = "''/home/user/.antigravity/skills''"
  let ?w = "example_world ?D"
  let ?net = "example_network ''notes'' doc"
  let ?sk = "index_skill community_source (example_entry ''notes'')"
  have s: "(if truthy (Some ''community'')
            then filter (\<lambda>s. id_src s = the (Some ''community'')) (sources (loadConfig ?w))
            else sources (loadConfig ?w)) = [community_source]"
    by (simp add: example_config DEFAULT_MARKETPLACES_def community_source_def)
  have m: "skillsCache ?w (owner community_source @ ''/'' @ repo community_source) = None"
    by (simp add: example_fields)
  have i: "get_index ?net (''https://raw.githubusercontent.com/'' @ owner community_source @ ''/''
             @ repo community_source @ ''/'' @ or_default (branch community_source) ''main'' @ ''/''
             @ or_default (skillsPath community_source) ''skills'' @ ''/skills-index.json'')
            = Ok [example_entry ''notes'']"
    by (simp add: example_network_def offline_def)
  have f: "find (\<lambda>s. name_skill s = ''notes'') (map (index_skill community_source) [example_entry ''notes''])
      = Some ?sk"
    by (simp add: index_skill_def example_entry_def)
  have n: "find (\<lambda>i. name_inst i = ''notes'') (installed (loadConfig ?w)) = None"
    by (simp add: example_config)
  have g: "git ?net (''https://github.com/'' @ owner (source_skill ?sk) @ ''/''
             @ repo (source_skill ?sk) @ ''.git'')
             (or_default (branch (source_skill ?sk)) ''main'') (path_skill ?sk) = Checkout (Some doc)"
    by (simp add: example_network_def offline_def)
  have t: "''/tmp/skill-1000'' = join (os_tmpdir ?w) (''skill-'' @ show_int (clock ?w (ticks ?w + 1)))"
    by (simp add: example_fields example_paths)
  have p: "''/home/user/.antigravity/skills/notes'' = join (installDir (loadConfig ?w)) ''notes''"
    by (simp add: example_config example_paths)
  from install_run[OF s m i f n g t p] obtain w3 where
    r: "find (\<lambda>s. name_skill s = ''notes'')
          (fst (listMarketplaceSkills ?net (Some ''community'') ?w)) = Some ?sk"
      "downloadSkill ?net ?sk ''/home/user/.antigravity/skills/notes''
         (mkdir (installDir (loadConfig ?w))
           (snd (listMarketplaceSkills ?net (Some ''community'') ?w))) = (Inr (), w3)"
      "installSkill ?net ''notes'' (Some ''community'') ?w
         = validate_installed (loadConfig ?w) ''notes'' ''/home/user/.antigravity/skills/notes''
             ?sk w3"
    and e: "cwd w3 = cwd ?w" "env_HOME w3 = env_HOME ?w"
    and d: "dirs w3 = {d \<in> dirs ?w \<union> made ?w (installDir (loadConfig ?w))
                      \<union> made ?w ''/tmp/skill-1000''
                      \<union> made ?w ''/home/user/.antigravity/skills/notes''.
                 \<not> prefix (resolve ?w ''/tmp/skill-1000'') d}"
    and fl: "files w3 = (\<lambda>q. if prefix (resolve ?w ''/tmp/skill-1000'') q then None
                     else case doc of
                            None \<Rightarrow> files ?w q
                          | Some d \<Rightarrow> ((files ?w)(resolve ?w
                              (join ''/home/user/.antigravity/skills/notes'' ''SKILL.md'') \<mapsto> d)) q)"
    and c: "config_file w3 = (if prefix (resolve ?w ''/tmp/skill-1000'')
                                  (resolve ?w (CONFIG_FILE ?w)) then Missing
                       else config_file ?w)"
    by blast
  have ex: "existsSync ''/home/user/.antigravity/skills/notes'' w3"
    by (simp add: existsSync_def is_dir_def Let_def resolve_same[OF e(1)] home_resolved d
        example_made in_set_prefixes)
  have doc: "files w3 [''home'', ''user'', ''.antigravity'', ''skills'', ''notes'', ''SKILL.md''] = doc"
    by (cases doc) (simp_all add: fl example_made example_paths home_resolved example_fields)
  have nd: "[''home'', ''user'', ''.antigravity'', ''skills'', ''notes'', ''SKILL.md''] \<notin> dirs w3"
    by (simp add: d example_made example_config example_fields in_set_prefixes)
  have cf: "config_file w3 = config_file ?w"
    by (simp add: c example_made example_config home_resolved)
  show ?thesis
    using that[OF r(1) _ r(3) ex doc nd cf] r(2) e
    by (simp add: example_config example_fields)
qed


lemma example_md_rebuilt:
  "\<lparr>name = name (example_md nm), description = description (example_md nm),
    license = license (example_md nm), compatibility = compatibility (example_md nm),
    metadata = metadata (example_md nm), allowedTools = allowedTools (example_md nm)\<rparr>
   = example_md nm"
  by (simp add: example_md_def)



lemma notes_document:
  assumes "files w3 [''home'', ''user'', ''.antigravity'', ''skills'', ''notes'', ''SKILL.md'']
      = Some d" and "cwd w3 = ''/work''"
  shows "files w3 (resolve w3 (join ''/home/user/.antigravity/skills/notes'' ''SKILL.md''))
      = Some d"
  using assms(1) by (simp add: example_paths home_resolved)


section \<open>C1: a failed validation and the install directory\<close>

text \<open>
  Where the metadata of the promoted copy loads and \<open>validateMetadata\<close> rejects it,
  \<open>installSkill\<close> removes the install directory and fails, and the manifest has no
  entry for the name (the install directory is taken not to be the root).
\<close>

lemma downloadSkill_config:
  "config_file (snd (downloadSkill net sk dest w)) = config_file w
   \<or> config_file (snd (downloadSkill net sk dest w)) = Missing"
  by (simp add: downloadSkill_def Let_def split_beta date_now_def rm_fields cp_tree_fields
      mkdir_fields split: git_result.splits option.splits)

lemma no_entry_kept:
  assumes "find (\<lambda>i. name_inst i = n) (installed (loadConfig w)) = None"
    and "config_file w' = config_file w \<or> config_file w' = Missing"
  shows "find (\<lambda>i. name_inst i = n) (installed (loadConfig w')) = None"
  using assms by (auto simp: loadConfig_cases default_config_def split: config_file.splits)

lemma installSkill_invalid_rolled_back:
  assumes "find (\<lambda>s. name_skill s = n) (fst (listMarketplaceSkills net sid w)) = Some sk"
    and "find (\<lambda>i. name_inst i = n) (installed (loadConfig w)) = None"
    and "downloadSkill net sk (join (installDir (loadConfig w)) n)
           (mkdir (installDir (loadConfig w)) (snd (listMarketplaceSkills net sid w))) = (Inr (), w3)"
    and "loadSkillMetadata (join (join (installDir (loadConfig w)) n) ''SKILL.md'') w3
           = Inr (Some md)"
    and "\<not> valid (validateMetadata md)"
    and "resolve w3 (join (installDir (loadConfig w)) n) \<noteq> []"
  shows "\<exists>msg w'. installSkill net n sid w = (Inl (InstalledSkillInvalid msg), w')
           \<and> \<not> existsSync (join (installDir (loadConfig w)) n) w'
           \<and> find (\<lambda>i. name_inst i = n) (installed (loadConfig w')) = None"
proof -
  let ?path = "join (installDir (loadConfig w)) n"
  let ?w2 = "mkdir (installDir (loadConfig w)) (snd (listMarketplaceSkills net sid w))"
  have run: "installSkill net n sid w
      = (Inl (InstalledSkillInvalid (join_with '', '' (map message (errors (validateMetadata md))))),
         rm ?path w3)"
    using installSkill_forward[OF assms(1,2,3)] assms(4,5)
    by (simp add: validate_installed_def Let_def)
  have "same_disk w (snd (listMarketplaceSkills net sid w))"
    by (simp add: same_disk_listMarketplaceSkills same_disk_refl)
  then have "config_file ?w2 = config_file w"
    by (simp add: same_disk_def mkdir_fields)
  then have "config_file w3 = config_file w \<or> config_file w3 = Missing"
    using downloadSkill_config[of net sk ?path ?w2] assms(3) by auto
  then have "config_file (rm ?path w3) = config_file w \<or> config_file (rm ?path w3) = Missing"
    by (auto simp: rm_fields)
  from no_entry_kept[OF assms(2) this]
  show ?thesis using run existsSync_rm[OF assms(6)] by blast
qed

text \<open>
  C1 does not hold for a promoted copy that \<open>loadSkillMetadata\<close> itself rejects.
  The skill \<open>notes\<close> of the community source has a \<open>SKILL.md\<close> with a name and no
  description. \<open>installSkill\<close> fails with the error of \<open>loadSkillMetadata\<close> (a required
  field is missing), the manifest has no entry, and the install directory
  \<open>/home/user/.antigravity/skills/notes\<close> is still there: the exception leaves
  \<open>installSkill\<close> before the branch that removes the directory.
\<close>

theorem installSkill_missing_description_keeps_directory:
  "fst (installSkill
          (example_network ''notes''
             (Some (FrontMatter ((example_md ''notes'')\<lparr>description := None\<rparr>))))
          ''notes'' (Some ''community'') (example_world ''/home/user/.antigravity/skills''))
     = Inl MissingRequiredFields
   \<and> existsSync ''/home/user/.antigravity/skills/notes''
        (snd (installSkill
          (example_network ''notes''
             (Some (FrontMatter ((example_md ''notes'')\<lparr>description := None\<rparr>))))
          ''notes'' (Some ''community'') (example_world ''/home/user/.antigravity/skills'')))
   \<and> installed (loadConfig (snd (installSkill
          (example_network ''notes''
             (Some (FrontMatter ((example_md ''notes'')\<lparr>description := None\<rparr>))))
          ''notes'' (Some ''community'') (example_world ''/home/user/.antigravity/skills'')))) = []"
proof -
  let ?doc = "Some (FrontMatter ((example_md ''notes'')\<lparr>description := None\<rparr>))"
  let ?w = "example_world ''/home/user/.antigravity/skills''"
  obtain w3 where run: "installSkill (example_network ''notes'' ?doc) ''notes''
        (Some ''community'') ?w
      = validate_installed (loadConfig ?w) ''notes'' ''/home/user/.antigravity/skills/notes''
          (index_skill community_source (example_entry ''notes'')) w3"
    and ex: "existsSync ''/home/user/.antigravity/skills/notes'' w3"
    and doc: "files w3 [''home'', ''user'', ''.antigravity'', ''skills'', ''notes'', ''SKILL.md'']
        = ?doc"
    and cf: "config_file w3 = config_file ?w" "env_HOME w3 = Some ''/home/user''"
      "cwd w3 = ''/work''"
    by (rule notes_install[of ?doc])
  note d = notes_document[OF doc cf(3)]
  have "existsSync (join ''/home/user/.antigravity/skills/notes'' ''SKILL.md'') w3"
    using d by (simp add: existsSync_def)
  then have "loadSkillMetadata (join ''/home/user/.antigravity/skills/notes'' ''SKILL.md'') w3
      = Inl MissingRequiredFields"
    using d by (simp add: loadSkillMetadata_def example_md_def)
  with run have "installSkill (example_network ''notes'' ?doc) ''notes''
        (Some ''community'') ?w = (Inl MissingRequiredFields, w3)"
    by (simp add: validate_installed_def)
  moreover have "loadConfig w3 = loadConfig ?w"
    using cf by (intro loadConfig_same) (simp_all add: example_fields)
  ultimately show ?thesis
    using ex by (simp add: example_config)
qed

section \<open>C9: a promoted copy without \<open>SKILL.md\<close>\<close>



section \<open>C6: install, then uninstall\<close>
















section \<open>C7: discovery skips what it cannot load\<close>

lemma loadSkillMetadata_console:
  "loadSkillMetadata p (w\<lparr>console := c\<rparr>) = loadSkillMetadata p w"
  by (simp add: loadSkillMetadata_def existsSync_def is_dir_def resolve_def CONFIG_FILE_def
      CONFIG_DIR_def)

lemma discover_files_eq:
  "discover_files fs acc (w\<lparr>console := c\<rparr>)
     = (acc @ List.map_filter (skill_ref w) fs,
        w\<lparr>console := c @ List.map_filter (load_warning w) fs\<rparr>)"
proof (induction fs arbitrary: acc c)
  case Nil
  then show ?case by (simp add: List.map_filter_simps)
next
  case (Cons p fs)
  show ?case
  proof (cases "loadSkillMetadata p w")
    case (Inl e)
    then show ?thesis
      using Cons.IH[of acc "c @ [''Warning: Could not load skill at '' @ p]"]
      by (simp add: loadSkillMetadata_console console_warn_def List.map_filter_simps
          skill_ref_def load_warning_def)
  next
    case (Inr r)
    then show ?thesis
      using Cons.IH[of acc c]
        Cons.IH[of "acc @ [\<lparr>name_ref = the (name (the r)), description_ref = the (description (the r)),
                            path_ref = dirname p\<rparr>]" c]
      by (cases r)
         (simp_all add: loadSkillMetadata_console List.map_filter_simps skill_ref_def
            load_warning_def)
  qed
qed

lemma map_filter_app: "List.map_filter f (xs @ ys) = List.map_filter f xs @ List.map_filter f ys"
  by (simp add: List.map_filter_def)

lemma discover_roots_eq:
  "discover_roots glob depth roots acc (w\<lparr>console := c\<rparr>)
     = (acc @ List.map_filter (skill_ref w) (concat (map (found_files glob depth) roots)),
        w\<lparr>console := c @ List.map_filter (load_warning w)
                              (concat (map (found_files glob depth) roots))\<rparr>)"
proof (induction roots arbitrary: acc c)
  case Nil
  then show ?case by (simp add: List.map_filter_simps)
next
  case (Cons root roots)
  show ?case
  proof (cases "glob (join root ''**/SKILL.md'') depth")
    case (Inl e)
    then show ?thesis using Cons.IH[of acc c] by (simp add: found_files_def)
  next
    case (Inr fs)
    then show ?thesis
      using Cons.IH[of "acc @ List.map_filter (skill_ref w) fs"
          "c @ List.map_filter (load_warning w) fs"]
      by (simp add: found_files_def discover_files_eq map_filter_app)
  qed
qed

text \<open>
  C7. \<open>discoverSkills\<close> returns, for every list of search paths and every state of the
  disk (it has no path on which it throws): the references of the documents whose
  metadata loads, in the order in which \<open>glob\<close> finds them, search path after search
  path. A search path for which \<open>glob\<close> throws or finds nothing contributes nothing; a
  document whose metadata fails to load contributes a warning on the console and
  nothing else, and the documents after it are still processed. When every search
  path is empty or missing, the result is the empty list and the world is unchanged.
\<close>

theorem discoverSkills_skips:
  "fst (discoverSkills glob config w)
     = List.map_filter (skill_ref w)
         (concat (map (found_files glob (search_depth config)) (search_roots config w)))
   \<and> snd (discoverSkills glob config w)
     = w\<lparr>console := console w
          @ List.map_filter (load_warning w)
              (concat (map (found_files glob (search_depth config)) (search_roots config w)))\<rparr>
   \<and> ((\<forall>root \<in> set (search_roots config w). found_files glob (search_depth config) root = [])
      \<longrightarrow> discoverSkills glob config w = ([], w))"
proof -
  have w: "w = w\<lparr>console := console w\<rparr>" by simp
  have run: "discoverSkills glob config w
      = ([] @ List.map_filter (skill_ref w)
           (concat (map (found_files glob (search_depth config)) (search_roots config w))),
         w\<lparr>console := console w
          @ List.map_filter (load_warning w)
              (concat (map (found_files glob (search_depth config)) (search_roots config w)))\<rparr>)"
    unfolding discoverSkills_def Let_def search_roots_def[symmetric] search_depth_def[symmetric]
    by (subst w) (rule discover_roots_eq)
  have "discoverSkills glob config w = ([], w)"
    if "\<forall>root \<in> set (search_roots config w). found_files glob (search_depth config) root = []"
  proof -
    from that
    have e: "concat (map (found_files glob (search_depth config)) (search_roots config w)) = []"
      by simp
    show ?thesis unfolding run e by (simp add: List.map_filter_simps)
  qed
  then show ?thesis
    using run by simp
qed

lemma docs_found:
  "found_files docs_glob d ''/work/none'' = []"
  "found_files docs_glob d ''/work/empty'' = []"
  "found_files docs_glob d ''/work/skills''
     = [''/work/skills/draft/SKILL.md'', ''/work/skills/notes/SKILL.md'']"
proof -
  have "join ''/work/none'' ''**/SKILL.md'' = ''/work/none/**/SKILL.md''"
    "join ''/work/empty'' ''**/SKILL.md'' = ''/work/empty/**/SKILL.md''"
    "join ''/work/skills'' ''**/SKILL.md'' = ''/work/skills/**/SKILL.md''"
    by code_simp+
  then show "found_files docs_glob d ''/work/none'' = []"
    "found_files docs_glob d ''/work/empty'' = []"
    "found_files docs_glob d ''/work/skills''
       = [''/work/skills/draft/SKILL.md'', ''/work/skills/notes/SKILL.md'']"
    by (simp_all add: found_files_def docs_glob_def)
qed

lemma docs_loaded:
  "loadSkillMetadata ''/work/skills/draft/SKILL.md'' docs_world = Inl MissingRequiredFields"
  "loadSkillMetadata ''/work/skills/notes/SKILL.md'' docs_world = Inr (Some (example_md ''notes''))"
proof -
  have a: "absolute ''/work/skills/draft/SKILL.md''" "absolute ''/work/skills/notes/SKILL.md''"
    by (simp_all add: absolute_def)
  have b: "walk [] ''/work/skills/draft/SKILL.md'' = [''work'', ''skills'', ''draft'', ''SKILL.md'']"
    "walk [] ''/work/skills/notes/SKILL.md'' = [''work'', ''skills'', ''notes'', ''SKILL.md'']"
    by code_simp+
  have r: "resolve w ''/work/skills/draft/SKILL.md''
      = [''work'', ''skills'', ''draft'', ''SKILL.md'']"
    "resolve w ''/work/skills/notes/SKILL.md''
      = [''work'', ''skills'', ''notes'', ''SKILL.md'']" for w
    unfolding resolve_def using a b by simp_all
  show "loadSkillMetadata ''/work/skills/draft/SKILL.md'' docs_world = Inl MissingRequiredFields"
    "loadSkillMetadata ''/work/skills/notes/SKILL.md'' docs_world
       = Inr (Some (example_md ''notes''))"
    by (simp_all add: loadSkillMetadata_def existsSync_def Let_def r docs_world_def
        fresh_world_def example_md_def)
qed

lemma docs_dirname: "dirname ''/work/skills/notes/SKILL.md'' = ''/work/skills/notes''"
  by code_simp

theorem discoverSkills_skips_witness:
  "fst (discoverSkills docs_glob
          \<lparr>searchPaths = Some [''/work/none'', ''/work/skills'', ''/work/empty''],
           maxDepth = None\<rparr> docs_world)
     = [\<lparr>name_ref = ''notes'',
         description_ref = ''Keeps structured notes for a project and recalls them on request.'',
         path_ref = ''/work/skills/notes''\<rparr>]
   \<and> console (snd (discoverSkills docs_glob
          \<lparr>searchPaths = Some [''/work/none'', ''/work/skills'', ''/work/empty''],
           maxDepth = None\<rparr> docs_world))
     = [''Warning: Could not load skill at /work/skills/draft/SKILL.md'']
   \<and> \<not> (\<exists>root \<in> set (search_roots \<lparr>searchPaths = Some [''/work/none'', ''/work/empty''],
                                        maxDepth = None\<rparr> docs_world).
          found_files docs_glob
            (search_depth \<lparr>searchPaths = Some [''/work/none'', ''/work/empty''], maxDepth = None\<rparr>)
            root \<noteq> [])
   \<and> discoverSkills docs_glob
        \<lparr>searchPaths = Some [''/work/none'', ''/work/empty''], maxDepth = None\<rparr> docs_world
      = ([], docs_world)"
proof -
  let ?c1 = "\<lparr>searchPaths = Some [''/work/none'', ''/work/skills'', ''/work/empty''],
           maxDepth = None\<rparr>"
  let ?c2 = "\<lparr>searchPaths = Some [''/work/none'', ''/work/empty''], maxDepth = None\<rparr>"
  have r1: "search_roots ?c1 docs_world = [''/work/none'', ''/work/skills'', ''/work/empty'']"
    and r2: "search_roots ?c2 docs_world = [''/work/none'', ''/work/empty'']"
    by (simp_all add: search_roots_def)
  have c: "console docs_world = []" by (simp add: docs_world_def fresh_world_def)
  have refs: "List.map_filter (skill_ref docs_world)
        [''/work/skills/draft/SKILL.md'', ''/work/skills/notes/SKILL.md'']
      = [\<lparr>name_ref = ''notes'',
         description_ref = ''Keeps structured notes for a project and recalls them on request.'',
         path_ref = ''/work/skills/notes''\<rparr>]"
    by (simp add: List.map_filter_simps skill_ref_def docs_loaded example_md_def docs_dirname)
  have warns: "List.map_filter (load_warning docs_world)
        [''/work/skills/draft/SKILL.md'', ''/work/skills/notes/SKILL.md'']
      = [''Warning: Could not load skill at /work/skills/draft/SKILL.md'']"
    by (simp add: List.map_filter_simps load_warning_def docs_loaded)
  have empty: "\<forall>root \<in> set (search_roots ?c2 docs_world).
      found_files docs_glob (search_depth ?c2) root = []"
    by (simp add: r2 docs_found)
  have files1: "concat (map (found_files docs_glob (search_depth ?c1))
        [''/work/none'', ''/work/skills'', ''/work/empty''])
      = [''/work/skills/draft/SKILL.md'', ''/work/skills/notes/SKILL.md'']"
    by (simp add: docs_found)
  from discoverSkills_skips[of docs_glob ?c1 docs_world]
  have "fst (discoverSkills docs_glob ?c1 docs_world)
      = List.map_filter (skill_ref docs_world)
          [''/work/skills/draft/SKILL.md'', ''/work/skills/notes/SKILL.md'']"
    and "snd (discoverSkills docs_glob ?c1 docs_world)
      = docs_world\<lparr>console := console docs_world @ List.map_filter (load_warning docs_world)
          [''/work/skills/draft/SKILL.md'', ''/work/skills/notes/SKILL.md'']\<rparr>"
    unfolding r1 files1 by simp_all
  then have a: "fst (discoverSkills docs_glob ?c1 docs_world)
      = [\<lparr>name_ref = ''notes'',
         description_ref = ''Keeps structured notes for a project and recalls them on request.'',
         path_ref = ''/work/skills/notes''\<rparr>]"
    and b: "console (snd (discoverSkills docs_glob ?c1 docs_world))
      = [''Warning: Could not load skill at /work/skills/draft/SKILL.md'']"
    unfolding refs warns c by simp_all
  from discoverSkills_skips[of docs_glob ?c2 docs_world] empty
  have d: "discoverSkills docs_glob ?c2 docs_world = ([], docs_world)"
    by blast
  have e: "\<not> (\<exists>root \<in> set (search_roots ?c2 docs_world).
          found_files docs_glob (search_depth ?c2) root \<noteq> [])"
    using empty by blast
  show ?thesis using a b d e by blast
qed

section \<open>What a listing depends on\<close>

lemma same_memory_refl: "same_memory w w"
  by (simp add: same_memory_def)

lemma same_memory_requests:
  "same_memory w w' \<Longrightarrow> same_memory (w\<lparr>requests := a\<rparr>) (w'\<lparr>requests := b\<rparr>)"
  by (simp add: same_memory_def)

lemma same_memory_tick:
  "same_memory w w' \<Longrightarrow> same_memory (w\<lparr>ticks := ticks w + 1\<rparr>) (w'\<lparr>ticks := ticks w' + 1\<rparr>)"
  by (simp add: same_memory_def)

lemma same_memory_cache_set:
  "same_memory w w' \<Longrightarrow> same_memory (cache_set k sk w) (cache_set k sk w')"
  by (simp add: same_memory_def cache_set_fields)

lemma same_memory_fetch_uncached:
  assumes "same_memory w w'"
  shows "same_memory (snd (fetch_uncached net source k w)) (snd (fetch_uncached net source k w'))"
  using assms
  by (cases rule: fetch_uncached_shape[of net source])
     (simp_all add: same_memory_requests same_memory_cache_set)

lemma same_memory_fetchSkillsFromSource:
  assumes "same_memory w w'"
  shows "fst (fetchSkillsFromSource net source w) = fst (fetchSkillsFromSource net source w')"
    and "same_memory (snd (fetchSkillsFromSource net source w))
           (snd (fetchSkillsFromSource net source w'))"
proof -
  let ?k = "owner source @ ''/'' @ repo source"
  from assms have m: "skillsCache w' = skillsCache w" "clock w' = clock w" "ticks w' = ticks w"
    by (simp_all add: same_memory_def)
  have "fst (fetchSkillsFromSource net source w) = fst (fetchSkillsFromSource net source w')
      \<and> same_memory (snd (fetchSkillsFromSource net source w))
           (snd (fetchSkillsFromSource net source w'))"
  proof (cases "skillsCache w ?k")
    case None
    then show ?thesis
      using same_memory_fetch_uncached[OF assms, of net source ?k]
        fetch_uncached_fst[of net source ?k w ?k w']
      by (simp add: fetch_miss m)
  next
    case (Some e)
    obtain old ts where e: "e = (old, ts)" by (cases e)
    show ?thesis
    proof (cases "clock w (ticks w) - ts < CACHE_TTL")
      case True
      then show ?thesis
        using Some e same_memory_tick[OF assms]
        by (simp add: fetch_hit[of _ _ old ts] m)
    next
      case False
      then show ?thesis
        using Some e same_memory_fetch_uncached[OF same_memory_tick[OF assms], of net source ?k]
          fetch_uncached_fst[of net source ?k "w\<lparr>ticks := ticks w + 1\<rparr>" ?k
            "w'\<lparr>ticks := ticks w' + 1\<rparr>"]
        by (simp add: fetch_stale[of _ _ old ts] m)
    qed
  qed
  then show "fst (fetchSkillsFromSource net source w) = fst (fetchSkillsFromSource net source w')"
    and "same_memory (snd (fetchSkillsFromSource net source w))
           (snd (fetchSkillsFromSource net source w'))"
    by simp_all
qed

lemma same_memory_updates_loop:
  "same_memory w w' \<Longrightarrow>
     fst (updates_loop net insts acc w) = fst (updates_loop net insts acc w')"
proof (induction insts arbitrary: acc w w')
  case Nil
  then show ?case by simp
next
  case (Cons inst rest)
  show ?case
  proof (cases "source_inst inst")
    case None
    then show ?thesis using Cons.IH[OF Cons.prems] by simp
  next
    case (Some src)
    obtain r v where f: "fetchSkillsFromSource net src w = (r, v)"
      by (cases "fetchSkillsFromSource net src w")
    obtain r' v' where f': "fetchSkillsFromSource net src w' = (r', v')"
      by (cases "fetchSkillsFromSource net src w'")
    from same_memory_fetchSkillsFromSource[OF Cons.prems, of net src] f f'
    have r: "r' = r" and v: "same_memory v v'" by simp_all
    show ?thesis
      using Cons.IH[OF v] Some f f'
      by (simp add: r split: sum.splits option.splits)
  qed
qed

lemma same_memory_checkUpdates:
  "same_memory w w' \<Longrightarrow> fst (checkUpdates net w') = fst (checkUpdates net w)"
  using same_memory_updates_loop[of w w' net "installed (loadConfig w)" "[]"]
    loadConfig_same[of w' w]
  by (simp add: checkUpdates_def same_memory_def)

lemma same_memory_uninstallSkill:
  "same_memory w w' \<Longrightarrow> fst (uninstallSkill n w') = fst (uninstallSkill n w)"
  using loadConfig_same[of w' w]
  by (simp add: uninstallSkill_def same_memory_def Let_def split: option.splits)

lemma uninstallSkill_no_entry:
  "find (\<lambda>i. name_inst i = n) (installed (loadConfig w)) = None
     \<Longrightarrow> uninstallSkill n w = (Inl (NotInstalled n), w)"
  by (auto simp: uninstallSkill_def Let_def findIndex_None find_None_iff split: option.splits)

section \<open>C10: \<open>installFromGitHubUrl\<close> and the manifest\<close>

lemma installFromGitHubUrl_cases:
  obtains (invalid) "installFromGitHubUrl net matter url dir w = (Inl (InvalidGitHubUrl url), w)"
  | (failed) e u where "installFromGitHubUrl net matter url dir w = (Inl e, request u w)"
  | (written) u body nm where
      "nm = (if last (split_on CHR ''/'' (extractGitHubPath url)) = [] then ''skill''
             else last (split_on CHR ''/'' (extractGitHubPath url)))"
      "u = ''https://raw.githubusercontent.com/'' @ extractOwner url @ ''/''
             @ extractRepoName url @ ''/'' @ extractBranch url @ ''/''
             @ extractGitHubPath url @ ''/SKILL.md''"
      "get_text net u = Ok body"
      "installFromGitHubUrl net matter url dir w
         = (Inr \<lparr>name_res = nm, path_res = dir @ ''/'' @ nm\<rparr>,
            writeFile ((dir @ ''/'' @ nm) @ ''/SKILL.md'') (matter body)
              (mkdir (dir @ ''/'' @ nm) (request u w)))"
proof (cases "extractOwner url = [] \<or> extractRepoName url = [] \<or> extractGitHubPath url = []")
  case True
  then have "installFromGitHubUrl net matter url dir w = (Inl (InvalidGitHubUrl url), w)"
    by (auto simp: installFromGitHubUrl_def Let_def)
  then show ?thesis by (rule invalid)
next
  case False
  let ?u = "''https://raw.githubusercontent.com/'' @ extractOwner url @ ''/''
             @ extractRepoName url @ ''/'' @ extractBranch url @ ''/''
             @ extractGitHubPath url @ ''/SKILL.md''"
  let ?nm = "if last (split_on CHR ''/'' (extractGitHubPath url)) = [] then ''skill''
             else last (split_on CHR ''/'' (extractGitHubPath url))"
  have nm: "or_default (Some (last (split_on CHR ''/'' (extractGitHubPath url)))) ''skill'' = ?nm"
    by (simp add: or_default_def)
  show ?thesis
  proof (cases "get_text net ?u")
    case (Ok body)
    have "installFromGitHubUrl net matter url dir w
         = (Inr \<lparr>name_res = ?nm, path_res = dir @ ''/'' @ ?nm\<rparr>,
            writeFile ((dir @ ''/'' @ ?nm) @ ''/SKILL.md'') (matter body)
              (mkdir (dir @ ''/'' @ ?nm) (request ?u w)))"
      using False Ok unfolding installFromGitHubUrl_def Let_def nm
      by simp
    from written[OF refl refl Ok this] show ?thesis .
  next
    case Rejected
    have "installFromGitHubUrl net matter url dir w = (Inl FetchRejected, request ?u w)"
      using False Rejected unfolding installFromGitHubUrl_def Let_def nm by simp
    then show ?thesis by (rule failed)
  next
    case (NotOk status)
    have "installFromGitHubUrl net matter url dir w = (Inl (CouldNotFetch ?u), request ?u w)"
      using False NotOk unfolding installFromGitHubUrl_def Let_def nm by simp
    then show ?thesis by (rule failed)
  next
    case (Malformed e)
    have "installFromGitHubUrl net matter url dir w = (Inl (CouldNotFetch ?u), request ?u w)"
      using False Malformed unfolding installFromGitHubUrl_def Let_def nm by simp
    then show ?thesis by (rule failed)
  qed
qed

lemma same_memory_installFromGitHubUrl:
  "same_memory w (snd (installFromGitHubUrl net matter url dir w))"
  by (cases rule: installFromGitHubUrl_cases[of net matter url dir w])
     (simp_all add: same_memory_def request_def mkdir_def writeFile_def)

lemma installFromGitHubUrl_failure:
  assumes "installFromGitHubUrl net matter url dir w = (Inl e, w')"
  shows "dirs w' = dirs w \<and> files w' = files w"
  using assms
  by (cases rule: installFromGitHubUrl_cases[of net matter url dir w])
     (auto simp: request_def)

lemma installFromGitHubUrl_success:
  assumes "installFromGitHubUrl net matter url dir w = (Inr r, w')"
  shows "name_res r = (if last (split_on CHR ''/'' (extractGitHubPath url)) = [] then ''skill''
                        else last (split_on CHR ''/'' (extractGitHubPath url)))
     \<and> path_res r = dir @ ''/'' @ name_res r
     \<and> (\<exists>body. get_text net (''https://raw.githubusercontent.com/'' @ extractOwner url @ ''/''
             @ extractRepoName url @ ''/'' @ extractBranch url @ ''/''
             @ extractGitHubPath url @ ''/SKILL.md'') = Ok body
          \<and> files w' = (files w)(resolve w (path_res r @ ''/SKILL.md'') \<mapsto> matter body))
     \<and> dirs w' = dirs w \<union> made w (path_res r)"
  using assms
  by (cases rule: installFromGitHubUrl_cases[of net matter url dir w])
     (auto simp: writeFile_fields mkdir_fields request_fields resolve_ops made_ops)

lemma installFromGitHubUrl_config_file:
  "installFromGitHubUrl net matter url dir (w\<lparr>config_file := c\<rparr>)
     = (fst (installFromGitHubUrl net matter url dir w),
        (snd (installFromGitHubUrl net matter url dir w))\<lparr>config_file := c\<rparr>)"
  by (simp add: installFromGitHubUrl_def Let_def request_def mkdir_def writeFile_def resolve_def
      made_def split: response.splits)

text \<open>
  C10, as amended. \<open>installFromGitHubUrl\<close> does not read the manifest: with any other
  manifest file in place of the one it finds, it returns the same result and has the
  same effect. It does not write it: whatever it returns, the manifest file is the one
  before the call, so \<open>loadConfig\<close> gives the same sources, installed list and install
  directory, and \<open>uninstallSkill\<close> of any name and \<open>checkUpdates\<close> on any network
  answer as before the call. When it fails, directories and documents are unchanged.
  When it succeeds, the name it returns is the last segment (between slashes) of the
  path that the address gives after \<open>/tree/<branch>/\<close>, or \<open>skill\<close> when that segment
  is empty; the path it returns is \<open>installDir/name\<close>; the only document it writes is
  \<open>SKILL.md\<close> there, holding the fetched text; the directories it makes are those
  that \<open>mkdir\<close> makes for that path (the path and those above it); and when the
  manifest has no entry of that name, \<open>uninstallSkill\<close> of the name fails with the
  not-installed error and changes nothing.
\<close>

theorem installFromGitHubUrl_leaves_manifest:
  "installFromGitHubUrl net matter url dir w = (res, w')
   \<longrightarrow> (\<forall>c. installFromGitHubUrl net matter url dir (w\<lparr>config_file := c\<rparr>)
             = (res, w'\<lparr>config_file := c\<rparr>))
     \<and> config_file w' = config_file w
     \<and> loadConfig w' = loadConfig w
     \<and> fst (uninstallSkill n w') = fst (uninstallSkill n w)
     \<and> fst (checkUpdates net2 w') = fst (checkUpdates net2 w)
     \<and> (case res of
          Inl e \<Rightarrow> dirs w' = dirs w \<and> files w' = files w
        | Inr r \<Rightarrow>
            name_res r = (if last (split_on CHR ''/'' (extractGitHubPath url)) = [] then ''skill''
                          else last (split_on CHR ''/'' (extractGitHubPath url)))
            \<and> path_res r = dir @ ''/'' @ name_res r
            \<and> (\<exists>body. get_text net (''https://raw.githubusercontent.com/'' @ extractOwner url
                          @ ''/'' @ extractRepoName url @ ''/'' @ extractBranch url @ ''/''
                          @ extractGitHubPath url @ ''/SKILL.md'') = Ok body
                  \<and> files w' = (files w)(resolve w (path_res r @ ''/SKILL.md'')
                                           \<mapsto> matter body))
            \<and> dirs w' = dirs w \<union> made w (path_res r)
            \<and> (find (\<lambda>i. name_inst i = name_res r) (installed (loadConfig w)) = None
               \<longrightarrow> uninstallSkill (name_res r) w' = (Inl (NotInstalled (name_res r)), w')))"
proof
  assume a: "installFromGitHubUrl net matter url dir w = (res, w')"
  have m: "same_memory w w'"
    using same_memory_installFromGitHubUrl[of w net matter url dir] a by simp
  then have c: "config_file w' = config_file w" and l: "loadConfig w' = loadConfig w"
    using loadConfig_same[of w' w] by (simp_all add: same_memory_def)
  have r: "(case res of
          Inl e \<Rightarrow> dirs w' = dirs w \<and> files w' = files w
        | Inr r \<Rightarrow>
            name_res r = (if last (split_on CHR ''/'' (extractGitHubPath url)) = [] then ''skill''
                          else last (split_on CHR ''/'' (extractGitHubPath url)))
            \<and> path_res r = dir @ ''/'' @ name_res r
            \<and> (\<exists>body. get_text net (''https://raw.githubusercontent.com/'' @ extractOwner url
                          @ ''/'' @ extractRepoName url @ ''/'' @ extractBranch url @ ''/''
                          @ extractGitHubPath url @ ''/SKILL.md'') = Ok body
                  \<and> files w' = (files w)(resolve w (path_res r @ ''/SKILL.md'')
                                           \<mapsto> matter body))
            \<and> dirs w' = dirs w \<union> made w (path_res r)
            \<and> (find (\<lambda>i. name_inst i = name_res r) (installed (loadConfig w)) = None
               \<longrightarrow> uninstallSkill (name_res r) w' = (Inl (NotInstalled (name_res r)), w')))"
  proof (cases res)
    case (Inl e)
    then show ?thesis using installFromGitHubUrl_failure[of net matter url dir w e w'] a by simp
  next
    case (Inr r)
    from a Inr have a': "installFromGitHubUrl net matter url dir w = (Inr r, w')"
      by simp
    note s = installFromGitHubUrl_success[OF a']
    have u: "find (\<lambda>i. name_inst i = name_res r) (installed (loadConfig w)) = None
        \<longrightarrow> uninstallSkill (name_res r) w' = (Inl (NotInstalled (name_res r)), w')"
      using uninstallSkill_no_entry[of "name_res r" w'] unfolding l by blast
    from s u show ?thesis
      unfolding Inr sum.case by (elim conjE, intro conjI) assumption+
  qed
  have n: "\<forall>c. installFromGitHubUrl net matter url dir (w\<lparr>config_file := c\<rparr>)
             = (res, w'\<lparr>config_file := c\<rparr>)"
    using a by (simp add: installFromGitHubUrl_config_file)
  show "(\<forall>c. installFromGitHubUrl net matter url dir (w\<lparr>config_file := c\<rparr>)
             = (res, w'\<lparr>config_file := c\<rparr>))
     \<and> config_file w' = config_file w
     \<and> loadConfig w' = loadConfig w
     \<and> fst (uninstallSkill n w') = fst (uninstallSkill n w)
     \<and> fst (checkUpdates net2 w') = fst (checkUpdates net2 w)
     \<and> (case res of
          Inl e \<Rightarrow> dirs w' = dirs w \<and> files w' = files w
        | Inr r \<Rightarrow>
            name_res r = (if last (split_on CHR ''/'' (extractGitHubPath url)) = [] then ''skill''
                          else last (split_on CHR ''/'' (extractGitHubPath url)))
            \<and> path_res r = dir @ ''/'' @ name_res r
            \<and> (\<exists>body. get_text net (''https://raw.githubusercontent.com/'' @ extractOwner url
                          @ ''/'' @ extractRepoName url @ ''/'' @ extractBranch url @ ''/''
                          @ extractGitHubPath url @ ''/SKILL.md'') = Ok body
                  \<and> files w' = (files w)(resolve w (path_res r @ ''/SKILL.md'')
                                           \<mapsto> matter body))
            \<and> dirs w' = dirs w \<union> made w (path_res r)
            \<and> (find (\<lambda>i. name_inst i = name_res r) (installed (loadConfig w)) = None
               \<longrightarrow> uninstallSkill (name_res r) w' = (Inl (NotInstalled (name_res r)), w')))"
    using n c l r same_memory_uninstallSkill[OF m, of n] same_memory_checkUpdates[OF m, of net2]
    by (intro conjI)
qed

lemma pdf_url_parts:
  "extractOwner pdf_url = ''acme''"
  "extractRepoName pdf_url = ''agent-skills''"
  "extractBranch pdf_url = ''main''"
  "extractGitHubPath pdf_url = ''skills/pdf''"
  "last (split_on CHR ''/'' ''skills/pdf'') = ''pdf''"
  by code_simp+

lemma pdf_url_slash_parts:
  "extractOwner (pdf_url @ ''/'') = ''acme''"
  "extractRepoName (pdf_url @ ''/'') = ''agent-skills''"
  "extractBranch (pdf_url @ ''/'') = ''main''"
  "extractGitHubPath (pdf_url @ ''/'') = ''skills/pdf/''"
  "last (split_on CHR ''/'' ''skills/pdf/'') = []"
  by code_simp+

lemma pdf_resolved:
  "resolve w ''/home/user/.antigravity/skills/pdf/SKILL.md''
     = [''home'', ''user'', ''.antigravity'', ''skills'', ''pdf'', ''SKILL.md'']"
  "resolve w ''/home/user/.antigravity/skills/skill/SKILL.md''
     = [''home'', ''user'', ''.antigravity'', ''skills'', ''skill'', ''SKILL.md'']"
proof -
  have a: "absolute ''/home/user/.antigravity/skills/pdf/SKILL.md''"
    "absolute ''/home/user/.antigravity/skills/skill/SKILL.md''"
    by (simp_all add: absolute_def)
  have b: "walk [] ''/home/user/.antigravity/skills/pdf/SKILL.md''
      = [''home'', ''user'', ''.antigravity'', ''skills'', ''pdf'', ''SKILL.md'']"
    "walk [] ''/home/user/.antigravity/skills/skill/SKILL.md''
      = [''home'', ''user'', ''.antigravity'', ''skills'', ''skill'', ''SKILL.md'']"
    by code_simp+
  show "resolve w ''/home/user/.antigravity/skills/pdf/SKILL.md''
     = [''home'', ''user'', ''.antigravity'', ''skills'', ''pdf'', ''SKILL.md'']"
    "resolve w ''/home/user/.antigravity/skills/skill/SKILL.md''
     = [''home'', ''user'', ''.antigravity'', ''skills'', ''skill'', ''SKILL.md'']"
    unfolding resolve_def using a b by simp_all
qed

lemma pdf_install:
  "fst (installFromGitHubUrl listing_network pdf_matter pdf_url dir w)
     = Inr \<lparr>name_res = ''pdf'', path_res = dir @ ''/pdf''\<rparr>"
  by (simp add: installFromGitHubUrl_def Let_def pdf_url_parts or_default_def
      listing_network_def offline_def)

lemma pdf_slash_install:
  "fst (installFromGitHubUrl listing_network pdf_matter (pdf_url @ ''/'') dir w)
     = Inr \<lparr>name_res = ''skill'', path_res = dir @ ''/skill''\<rparr>"
  "files (snd (installFromGitHubUrl listing_network pdf_matter (pdf_url @ ''/'') dir w))
     = (files w)(resolve w (dir @ ''/skill/SKILL.md'') \<mapsto> pdf_matter pdf_document)"
  by (simp_all add: installFromGitHubUrl_def Let_def pdf_url_slash_parts or_default_def
      listing_network_def offline_def writeFile_fields mkdir_fields request_fields resolve_ops)

theorem installFromGitHubUrl_leaves_manifest_witness:
  "\<exists>w'. installFromGitHubUrl listing_network pdf_matter pdf_url ''/home/user/.antigravity/skills''
           (example_world ''/home/user/.antigravity/skills'')
       = (Inr \<lparr>name_res = ''pdf'', path_res = ''/home/user/.antigravity/skills/pdf''\<rparr>, w')
     \<and> installFromGitHubUrl listing_network pdf_matter pdf_url ''/home/user/.antigravity/skills''
           ((example_world ''/home/user/.antigravity/skills'')
              \<lparr>config_file := config_file pdf_world\<rparr>)
       = (Inr \<lparr>name_res = ''pdf'', path_res = ''/home/user/.antigravity/skills/pdf''\<rparr>,
          w'\<lparr>config_file := config_file pdf_world\<rparr>)
     \<and> files w' [''home'', ''user'', ''.antigravity'', ''skills'', ''pdf'', ''SKILL.md'']
         = Some (pdf_matter pdf_document)
     \<and> config_file w' = config_file (example_world ''/home/user/.antigravity/skills'')
     \<and> installed (loadConfig w') = []
     \<and> uninstallSkill ''pdf'' w' = (Inl (NotInstalled ''pdf''), w')
     \<and> fst (checkUpdates (index_network (Some ''2.0'')) w') = []"
proof -
  let ?dir = "''/home/user/.antigravity/skills''"
  let ?w = "example_world ?dir"
  let ?r = "\<lparr>name_res = ''pdf'', path_res = ''/home/user/.antigravity/skills/pdf''\<rparr>"
  from pdf_install[of ?dir ?w] obtain w' where
    i: "installFromGitHubUrl listing_network pdf_matter pdf_url ?dir ?w = (Inr ?r, w')"
    by (cases "installFromGitHubUrl listing_network pdf_matter pdf_url ?dir ?w") simp
  note t = installFromGitHubUrl_leaves_manifest[where net = listing_network and matter = pdf_matter
      and url = pdf_url and dir = ?dir and w = ?w and res = "Inr ?r" and w' = w'
      and n = "''pdf''" and ?net2.0 = "index_network (Some ''2.0'')", THEN mp, OF i,
      unfolded sum.case]
  from t have c: "config_file w' = config_file ?w"
    and l: "loadConfig w' = loadConfig ?w"
    and k: "fst (checkUpdates (index_network (Some ''2.0'')) w')
              = fst (checkUpdates (index_network (Some ''2.0'')) ?w)"
    by blast+
  from t have "\<forall>c. installFromGitHubUrl listing_network pdf_matter pdf_url ?dir
        (?w\<lparr>config_file := c\<rparr>) = (Inr ?r, w'\<lparr>config_file := c\<rparr>)"
    by blast
  then have o: "installFromGitHubUrl listing_network pdf_matter pdf_url ?dir
        (?w\<lparr>config_file := config_file pdf_world\<rparr>)
      = (Inr ?r, w'\<lparr>config_file := config_file pdf_world\<rparr>)"
    by blast
  from t obtain body where
    g: "get_text listing_network (''https://raw.githubusercontent.com/''
          @ extractOwner pdf_url @ ''/'' @ extractRepoName pdf_url @ ''/''
          @ extractBranch pdf_url @ ''/'' @ extractGitHubPath pdf_url @ ''/SKILL.md'') = Ok body"
    and h: "files w' = (files ?w)(resolve ?w (path_res ?r @ ''/SKILL.md'') \<mapsto> pdf_matter body)"
    by blast
  from g have "body = pdf_document"
    by (simp add: listing_network_def offline_def)
  with h have f: "files w' [''home'', ''user'', ''.antigravity'', ''skills'', ''pdf'', ''SKILL.md'']
      = Some (pdf_matter pdf_document)"
    by (simp add: pdf_resolved)
  have e: "find (\<lambda>i. name_inst i = name_res ?r) (installed (loadConfig ?w)) = None"
    by (simp add: example_config)
  from t have "find (\<lambda>i. name_inst i = name_res ?r) (installed (loadConfig ?w)) = None
      \<longrightarrow> uninstallSkill (name_res ?r) w' = (Inl (NotInstalled (name_res ?r)), w')"
    by blast
  with e have u: "uninstallSkill ''pdf'' w' = (Inl (NotInstalled ''pdf''), w')"
    by simp
  have n: "installed (loadConfig w') = []"
    by (simp add: l example_config)
  have "fst (checkUpdates (index_network (Some ''2.0'')) ?w) = []"
    by (simp add: checkUpdates_def example_config)
  with k have k': "fst (checkUpdates (index_network (Some ''2.0'')) w') = []"
    by simp
  from i o f c n u k' show ?thesis by blast
qed

text \<open>
  C10 as stated fails for an address that ends in a slash: the last segment of its
  path is empty, the name becomes \<open>skill\<close>, and the document is written under
  \<open>installDir/skill\<close>.
\<close>

theorem installFromGitHubUrl_trailing_slash_counterexample:
  "\<exists>w'. installFromGitHubUrl listing_network pdf_matter (pdf_url @ ''/'')
           ''/home/user/.antigravity/skills'' (example_world ''/home/user/.antigravity/skills'')
       = (Inr \<lparr>name_res = ''skill'', path_res = ''/home/user/.antigravity/skills/skill''\<rparr>, w')
     \<and> extractGitHubPath (pdf_url @ ''/'') = ''skills/pdf/''
     \<and> last (split_on CHR ''/'' (extractGitHubPath (pdf_url @ ''/''))) = []
     \<and> files w' [''home'', ''user'', ''.antigravity'', ''skills'', ''skill'', ''SKILL.md'']
         = Some (pdf_matter pdf_document)
     \<and> files w' [''home'', ''user'', ''.antigravity'', ''skills'', ''pdf'', ''SKILL.md''] = None
     \<and> files w' [''home'', ''user'', ''.antigravity'', ''skills'', ''SKILL.md''] = None"
proof -
  let ?dir = "''/home/user/.antigravity/skills''"
  let ?w = "example_world ?dir"
  let ?run = "installFromGitHubUrl listing_network pdf_matter (pdf_url @ ''/'') ?dir ?w"
  have "?run = (Inr \<lparr>name_res = ''skill'', path_res = ''/home/user/.antigravity/skills/skill''\<rparr>,
      snd ?run)"
    using pdf_slash_install(1)[of ?dir ?w] by (cases ?run) simp
  moreover have "files (snd ?run)
      = [[''home'', ''user'', ''.antigravity'', ''skills'', ''skill'', ''SKILL.md'']
           \<mapsto> pdf_matter pdf_document]"
    using pdf_slash_install(2)[of ?dir ?w] by (simp add: pdf_resolved example_fields)
  ultimately show ?thesis
    by (intro exI[of _ "snd ?run"]) (simp add: pdf_url_slash_parts)
qed

end
